(* ===== verification/Prelude.thy ===== *)
theory Prelude
  imports Main
begin

text \<open>
  Shared vocabulary of the staking development: the names of the model's
  types, the fixed-point scale of \<open>src/index.js\<close>, the JavaScript built-ins the
  handlers call (\<open>toLowerCase\<close> on ASCII keys), the collections of rewrite rules
  the component theories fill, and generic lemmas on floor division, maps and
  filtered list sums that the component proofs share.
\<close>

section \<open>Rule collections\<close>

named_theorems staking_simps
  "characteristic equations of the handlers, one per branch"
named_theorems ledger_simps
  "rewrite rules for account-ledger updates and totals"

section \<open>Names of the model's types\<close>

text \<open>
  Validator identities and account addresses are JavaScript strings, kept as
  HOL strings (lists of 8-bit characters).
\<close>

type_synonym key = string
type_synonym addr = string

section \<open>The fixed-point scale\<close>

text \<open>
  Every ratio in \<open>src/index.js\<close> is scaled by the literal \<open>1e8\<close>.
  JavaScript numbers are IEEE doubles; the model reads them as exact integers,
  which they are for every value below \<open>2^53\<close> (the TODO comments on lines 45
  and 111 of the source leave that bound unchecked). \<open>Math.floor (x / y)\<close> of
  exact integers is HOL's \<open>div\<close> on \<open>int\<close>, which rounds towards minus infinity.
\<close>

definition scale :: int where
  "scale = 100000000"

lemma scale_pos [simp]: "0 < scale"
  by (simp add: scale_def)

lemma scale_nonneg [simp]: "0 \<le> scale"
  by (simp add: scale_def)

lemma scale_neq_0 [simp]: "scale \<noteq> 0"
  by (simp add: scale_def)

section \<open>Floor division\<close>

text \<open>
  The two facts every conversion of the source rests on: scaling by a floored
  ratio and dividing by the scale never gives more than the exact quotient, and
  an exact multiple of the divisor divides without loss.
\<close>

lemma floor_div_mult_le:
  fixes x d :: int
  assumes "0 < d"
  shows "d * (x div d) \<le> x"
  using pos_mod_sign [of d x] assms by (simp add: minus_mod_eq_mult_div [symmetric])

lemma floor_div_nonneg:
  fixes x d :: int
  assumes "0 \<le> x" and "0 < d"
  shows "0 \<le> x div d"
  using assms by (simp add: pos_imp_zdiv_nonneg_iff)

lemma floor_div_le_self:
  fixes x d :: int
  assumes "0 \<le> x" and "0 < d"
  shows "x div d \<le> x"
  using assms by (cases "x = 0") (simp_all add: int_div_le_self)

lemma floor_div_mono:
  fixes x y d :: int
  assumes "x \<le> y" and "0 < d"
  shows "x div d \<le> y div d"
  using assms by (simp add: zdiv_mono1)

text \<open>
  Two floored conversions in a row, \<open>\<lfloor>a \<cdot> \<lfloor>S \<cdot> n / m\<rfloor> / S\<rfloor>\<close>, never exceed
  \<open>a \<cdot> n / m\<close>: multiplied out, \<open>m\<close> times the result is at most \<open>a \<cdot> n\<close>.
\<close>

lemma floor_ratio_le:
  fixes a n m s :: int
  assumes "0 \<le> a" and "0 < m" and "0 < s"
  shows "m * ((a * (s * n div m)) div s) \<le> a * n"
proof -
  have r: "m * (s * n div m) \<le> s * n"
    using assms(2) by (rule floor_div_mult_le)
  have "s * ((a * (s * n div m)) div s) \<le> a * (s * n div m)"
    using assms(3) by (rule floor_div_mult_le)
  then have "m * (s * ((a * (s * n div m)) div s)) \<le> m * (a * (s * n div m))"
    using assms(2) by (simp add: mult_left_mono)
  also have "\<dots> = a * (m * (s * n div m))"
    by (simp add: algebra_simps)
  also have "\<dots> \<le> a * (s * n)"
    using r assms(1) by (simp add: mult_left_mono)
  finally have "s * (m * ((a * (s * n div m)) div s)) \<le> s * (a * n)"
    by (simp add: algebra_simps)
  then show ?thesis
    using assms(3) by simp
qed

text \<open>With the ratio exactly the scale (a 1:1 pool) the conversion is exact.\<close>

lemma floor_unit_ratio [simp]:
  fixes a :: int
  shows "a * scale div scale = a"
  by simp

lemma scale_self_ratio [simp]:
  fixes b :: int
  assumes "b \<noteq> 0"
  shows "scale * b div b = scale"
  using assms by simp

section \<open>JavaScript \<open>toLowerCase\<close> on ASCII\<close>

text \<open>
  Validator public keys are hex strings; \<open>String.prototype.toLowerCase\<close> maps
  the ASCII capitals \<open>A\<close>..\<open>Z\<close> (codes 65..90) to \<open>a\<close>..\<open>z\<close> and leaves every
  other character alone. Characters beyond ASCII, which hex keys never contain,
  are outside this model of the built-in.
\<close>

definition lower_char :: "char \<Rightarrow> char" where
  "lower_char ch =
     (if 65 \<le> (of_char ch :: nat) \<and> (of_char ch :: nat) \<le> 90
      then char_of (of_char ch + (32 :: nat)) else ch)"

definition to_lower :: "string \<Rightarrow> string" where
  "to_lower s = map lower_char s"

lemma lower_char_idem [simp]: "lower_char (lower_char ch) = lower_char ch"
  by (auto simp: lower_char_def)

lemma to_lower_idem [simp]: "to_lower (to_lower s) = to_lower s"
  by (simp add: to_lower_def)

end
