(* ===== verification/Ledger.thy ===== *)
theory Ledger
  imports Prelude
begin

text \<open>
  The account-ledger adapter (spec section 6). \<open>src/index.js\<close> does not
  implement it: it calls \<open>coins.accounts(handlers)\<close> from the \<open>coins\<close>
  package for the unbonded pool (lines 31 and 156) and for each validator's
  delegator sub-ledger (lines 53 and 125). The theory models the interface the
  spec gives it: a ledger maps addresses to accounts with a balance and a
  sequence number; a debit checks the authorisation proof, the sequence number
  and the balance, in that order, then takes the amount and bumps the
  sequence; a credit adds the amount, opening the account when it is absent.
  The lemmas give the effect of each operation on one account, on the others,
  and on the ledger's total, and that both keep balances non-negative.
\<close>

section \<open>Accounts and ledgers\<close>

record account =
  acct_balance :: int
  acct_sequence :: nat

type_synonym ledger = "addr \<rightharpoonup> account"

datatype ledger_error = Unauthorized | Bad_sequence | Insufficient_balance
  | Unknown_account_type string

text \<open>The balance at an address, zero for an address with no account.\<close>

definition bal_of :: "ledger \<Rightarrow> addr \<Rightarrow> int" where
  "bal_of l a = (case l a of None \<Rightarrow> 0 | Some acc \<Rightarrow> acct_balance acc)"

section \<open>Debit and credit\<close>

text \<open>
  \<open>debit(subledger, address, amount, proof)\<close>: \<open>auth\<close> is the outcome of the
  signature check against the transaction, \<open>seq\<close> the sequence number the input
  carries.
\<close>

definition ledger_debit ::
  "ledger \<Rightarrow> addr \<Rightarrow> int \<Rightarrow> nat \<Rightarrow> bool \<Rightarrow> ledger_error + ledger" where
  "ledger_debit l a amt seq auth =
     (if \<not> auth then Inl Unauthorized
      else case l a of
        None \<Rightarrow> Inl Insufficient_balance
      | Some acc \<Rightarrow>
          if seq \<noteq> acct_sequence acc then Inl Bad_sequence
          else if acct_balance acc < amt then Inl Insufficient_balance
          else Inr (l(a \<mapsto> acc\<lparr>acct_balance := acct_balance acc - amt,
                                acct_sequence := Suc (acct_sequence acc)\<rparr>)))"

text \<open>\<open>credit(subledger, address, amount)\<close>.\<close>

definition ledger_credit :: "ledger \<Rightarrow> addr \<Rightarrow> int \<Rightarrow> ledger" where
  "ledger_credit l a amt =
     l(a \<mapsto> (case l a of
              None \<Rightarrow> \<lparr>acct_balance = amt, acct_sequence = 0\<rparr>
            | Some acc \<Rightarrow> acc\<lparr>acct_balance := acct_balance acc + amt\<rparr>))"

section \<open>Totals and well-formedness\<close>

definition ledger_total :: "ledger \<Rightarrow> int" where
  "ledger_total l = (\<Sum>a\<in>dom l. bal_of l a)"

definition ledger_wf :: "ledger \<Rightarrow> bool" where
  "ledger_wf l \<longleftrightarrow> finite (dom l) \<and> (\<forall>a. 0 \<le> bal_of l a)"

section \<open>Lemmas\<close>

lemma bal_of_upd [ledger_simps]:
  "bal_of (l(a \<mapsto> acc)) a' = (if a' = a then acct_balance acc else bal_of l a')"
  by (simp add: bal_of_def)

lemma bal_of_empty [simp, ledger_simps]: "bal_of Map.empty a = 0"
  by (simp add: bal_of_def)

lemma ledger_total_upd:
  assumes "finite (dom l)"
  shows "ledger_total (l(a \<mapsto> acc)) = ledger_total l - bal_of l a + acct_balance acc"
proof -
  let ?f = "bal_of (l(a \<mapsto> acc))"
  have rest: "(\<Sum>x\<in>dom l - {a}. ?f x) = (\<Sum>x\<in>dom l - {a}. bal_of l x)"
    by (rule sum.cong) (auto simp: bal_of_upd)
  have new: "ledger_total (l(a \<mapsto> acc)) = acct_balance acc + (\<Sum>x\<in>dom l - {a}. ?f x)"
    using assms by (simp add: ledger_total_def sum.insert_remove bal_of_upd)
  show ?thesis
  proof (cases "a \<in> dom l")
    case True
    then have "ledger_total l = bal_of l a + (\<Sum>x\<in>dom l - {a}. bal_of l x)"
      using assms by (simp add: ledger_total_def sum.remove)
    with new rest show ?thesis by simp
  next
    case False
    then have "bal_of l a = 0" and "dom l - {a} = dom l"
      by (auto simp: bal_of_def domIff)
    with new rest show ?thesis by (simp add: ledger_total_def)
  qed
qed

text \<open>What a successful debit did: the account existed, the proof and the
  sequence number were right, the balance covered the amount.\<close>

lemma ledger_debit_Inr:
  assumes "ledger_debit l a amt seq auth = Inr l'"
  shows "\<exists>acc. l a = Some acc \<and> auth \<and> seq = acct_sequence acc \<and> amt \<le> acct_balance acc \<and>
           l' = l(a \<mapsto> acc\<lparr>acct_balance := acct_balance acc - amt,
                           acct_sequence := Suc (acct_sequence acc)\<rparr>)"
  using assms by (auto simp: ledger_debit_def split: if_splits option.splits)

lemma ledger_debit_bal [ledger_simps]:
  "ledger_debit l a amt seq auth = Inr l' \<Longrightarrow>
     bal_of l' x = (if x = a then bal_of l a - amt else bal_of l x)"
  by (auto simp: bal_of_upd bal_of_def dest!: ledger_debit_Inr)

lemma ledger_credit_bal [ledger_simps]:
  "bal_of (ledger_credit l a amt) x = (if x = a then bal_of l a + amt else bal_of l x)"
  by (auto simp: ledger_credit_def bal_of_def split: option.splits)

lemma ledger_debit_dom:
  "ledger_debit l a amt seq auth = Inr l' \<Longrightarrow> dom l' = dom l"
  by (force dest!: ledger_debit_Inr)

lemma ledger_credit_dom [simp]: "dom (ledger_credit l a amt) = insert a (dom l)"
  by (simp add: ledger_credit_def)

lemma ledger_debit_total:
  assumes "ledger_debit l a amt seq auth = Inr l'" and "finite (dom l)"
  shows "ledger_total l' = ledger_total l - amt"
  using assms ledger_total_upd [of l a] by (auto simp: bal_of_def dest!: ledger_debit_Inr)

lemma ledger_credit_total:
  assumes "finite (dom l)"
  shows "ledger_total (ledger_credit l a amt) = ledger_total l + amt"
  using assms ledger_total_upd [of l a] by (auto simp: ledger_credit_def bal_of_def split: option.splits)

lemma ledger_wf_empty [simp]: "ledger_wf Map.empty"
  by (simp add: ledger_wf_def)

lemma ledger_total_nonneg: "ledger_wf l \<Longrightarrow> 0 \<le> ledger_total l"
  by (simp add: ledger_total_def ledger_wf_def sum_nonneg)

lemma ledger_debit_wf:
  assumes "ledger_debit l a amt seq auth = Inr l'" and "ledger_wf l"
  shows "ledger_wf l'"
proof -
  from assms(1) have "amt \<le> bal_of l a"
    by (auto simp: bal_of_def dest!: ledger_debit_Inr)
  with assms show ?thesis
    by (auto simp: ledger_wf_def ledger_debit_bal ledger_debit_dom)
qed

lemma ledger_credit_wf:
  "ledger_wf l \<Longrightarrow> 0 \<le> amt \<Longrightarrow> ledger_wf (ledger_credit l a amt)"
  by (auto simp: ledger_wf_def ledger_credit_bal)

text \<open>A debit bumps the sequence number, so the same debit again is refused.\<close>

lemma ledger_debit_replay:
  assumes "ledger_debit l a amt seq auth = Inr l'"
  shows "ledger_debit l' a amt' seq auth = Inl Bad_sequence"
proof -
  from ledger_debit_Inr [OF assms] obtain acc where "l a = Some acc" "auth"
    "seq = acct_sequence acc"
    "l' = l(a \<mapsto> acc\<lparr>acct_balance := acct_balance acc - amt, acct_sequence := Suc (acct_sequence acc)\<rparr>)"
    by blast
  then show ?thesis
    by (simp add: ledger_debit_def)
qed

end
