(* ===== verification/Pool.thy ===== *)
theory Pool
  imports Ledger
begin

text \<open>
  A validator's pool and the fixed-point share arithmetic of \<open>src/index.js\<close>.
  The source has no separate functions for the conversions: each handler
  computes them inline, and each definition below names the lines it
  translates. Three conversion sites differ in their guard:
  \<^item> bonded withdrawal and the unbond output (lines 46--47 and 85--86) divide by
    the balance with no guard; with a zero balance JavaScript computes \<open>NaN\<close> or
    \<open>Infinity\<close>, which the model represents as \<open>None\<close>;
  \<^item> bonding (lines 112--114) replaces the ratio by the scale when the balance
    is zero;
  \<^item> settlement at maturity (lines 146--148) does the same for a zero balance,
    and divides by the shares otherwise, which is again non-finite when the
    shares are zero.
  The lemmas show the rounding policy of spec section 4.1: every conversion
  floors in the pool's favour, bonding and settlement never lower the value of
  the shares that remain, a 1:1 pool converts exactly, and a fresh pool bonds
  1:1.
\<close>

section \<open>The pool record\<close>

text \<open>\<open>{ balance, shares, accounts }\<close>, created on first bond (lines 101--108).\<close>

record pool =
  balance :: int
  shares :: int
  accounts :: ledger

definition new_pool :: pool where
  "new_pool = \<lparr>balance = 0, shares = 0, accounts = Map.empty\<rparr>"

section \<open>Conversions\<close>

text \<open>\<open>Math.floor(1e8 * validator.shares / validator.balance)\<close>, unguarded.\<close>

definition shares_per_coin :: "pool \<Rightarrow> int option" where
  "shares_per_coin p =
     (if balance p = 0 then None else Some (scale * shares p div balance p))"

text \<open>\<open>Math.floor(amount * sharesPerCoin / 1e8)\<close>.\<close>

definition to_shares :: "nat \<Rightarrow> int \<Rightarrow> int" where
  "to_shares amount spc = int amount * spc div scale"

text \<open>Shares redeemed by a bonded withdrawal or an unbond output of \<open>amount\<close>.\<close>

definition unbond_shares :: "pool \<Rightarrow> nat \<Rightarrow> int option" where
  "unbond_shares p amount = map_option (to_shares amount) (shares_per_coin p)"

text \<open>The bonding ratio, with the bootstrap rule of line 113.\<close>

definition bond_shares_per_coin :: "pool \<Rightarrow> int" where
  "bond_shares_per_coin p =
     (if balance p = 0 then scale else scale * shares p div balance p)"

text \<open>Lines 112--116: the shares issued for \<open>amount\<close> and the pool after it.\<close>

definition bond_pool :: "pool \<Rightarrow> nat \<Rightarrow> int \<times> pool" where
  "bond_pool p amount =
     (let sh = to_shares amount (bond_shares_per_coin p)
      in (sh, p\<lparr>balance := balance p + int amount, shares := shares p + sh\<rparr>))"

text \<open>\<open>Math.floor(1e8 * validator.balance / validator.shares)\<close> with the guard
  of line 147; non-finite when the balance is not zero but the shares are.\<close>

definition coins_per_share :: "pool \<Rightarrow> int option" where
  "coins_per_share p =
     (if balance p = 0 then Some scale
      else if shares p = 0 then None
      else Some (scale * balance p div shares p))"

text \<open>\<open>Math.floor(output.shares * coinsPerShare / 1e8)\<close>.\<close>

definition to_coins :: "int \<Rightarrow> int \<Rightarrow> int" where
  "to_coins sh cps = sh * cps div scale"

text \<open>Lines 146--150: the coins paid for \<open>sh\<close> matured shares and the pool after.\<close>

definition settle_pool :: "pool \<Rightarrow> int \<Rightarrow> (int \<times> pool) option" where
  "settle_pool p sh =
     (case coins_per_share p of
       None \<Rightarrow> None
     | Some cps \<Rightarrow>
         let coins = to_coins sh cps
         in Some (coins, p\<lparr>shares := shares p - sh, balance := balance p - coins\<rparr>))"

section \<open>Pool invariants\<close>

text \<open>The invariant of spec section 3: non-negative totals, zero shares exactly
  when the balance is zero, and a well-formed delegator ledger.\<close>

definition pool_wf :: "pool \<Rightarrow> bool" where
  "pool_wf p \<longleftrightarrow>
     0 \<le> balance p \<and> 0 \<le> shares p \<and> (shares p = 0 \<longleftrightarrow> balance p = 0) \<and>
     ledger_wf (accounts p)"

text \<open>A 1:1 pool: one share per coin. Every pool of a run without external
  balance changes is one (theory \<open>Invariants\<close>).\<close>

definition unit_pool :: "pool \<Rightarrow> bool" where
  "unit_pool p \<longleftrightarrow> balance p = shares p \<and> 0 \<le> balance p"

section \<open>Characteristic equations\<close>

lemma bond_pool_fst: "fst (bond_pool p a) = to_shares a (bond_shares_per_coin p)"
  by (simp add: bond_pool_def Let_def)

lemma bond_pool_snd [simp]:
  "balance (snd (bond_pool p a)) = balance p + int a"
  "shares (snd (bond_pool p a)) = shares p + fst (bond_pool p a)"
  "accounts (snd (bond_pool p a)) = accounts p"
  by (simp_all add: bond_pool_def Let_def)

lemma settle_pool_Some:
  "settle_pool p sh = Some (c, p') \<longleftrightarrow>
     (\<exists>cps. coins_per_share p = Some cps \<and> c = to_coins sh cps \<and>
            p' = p\<lparr>shares := shares p - sh, balance := balance p - c\<rparr>)"
  by (auto simp: settle_pool_def Let_def split: option.splits)

lemma to_shares_nonneg: "0 \<le> spc \<Longrightarrow> 0 \<le> to_shares a spc"
  by (simp add: to_shares_def floor_div_nonneg)

lemma to_coins_nonneg: "0 \<le> sh \<Longrightarrow> 0 \<le> cps \<Longrightarrow> 0 \<le> to_coins sh cps"
  by (simp add: to_coins_def floor_div_nonneg)

lemma bond_shares_per_coin_nonneg:
  "0 \<le> balance p \<Longrightarrow> 0 \<le> shares p \<Longrightarrow> 0 \<le> bond_shares_per_coin p"
  by (simp add: bond_shares_per_coin_def floor_div_nonneg)

text \<open>The proportionality bound of one conversion: for a pool with positive
  balance, the shares a withdrawal or a bond of \<open>a\<close> coins yields are worth at
  most \<open>a\<close> coins at the pool's ratio.\<close>

lemma to_shares_prop:
  assumes "0 < balance p"
  shows "balance p * to_shares a (scale * shares p div balance p) \<le> int a * shares p"
  using floor_ratio_le [of "int a" "balance p" scale "shares p"] assms
  by (simp add: to_shares_def)

lemma to_coins_prop:
  assumes "0 < shares p" and "0 \<le> sh"
  shows "shares p * to_coins sh (scale * balance p div shares p) \<le> sh * balance p"
  using floor_ratio_le [of sh "shares p" scale "balance p"] assms
  by (simp add: to_coins_def)

text \<open>A 1:1 pool converts exactly at every site.\<close>

lemma unit_pool_unbond_shares:
  "unit_pool p \<Longrightarrow> 0 < balance p \<Longrightarrow> unbond_shares p a = Some (int a)"
  by (simp add: unit_pool_def unbond_shares_def shares_per_coin_def to_shares_def)

lemma unit_pool_bond:
  "unit_pool p \<Longrightarrow>
     bond_pool p a = (int a, p\<lparr>balance := balance p + int a, shares := shares p + int a\<rparr>)"
  by (auto simp: unit_pool_def bond_pool_def bond_shares_per_coin_def to_shares_def Let_def)

lemma unit_pool_settle:
  "unit_pool p \<Longrightarrow>
     settle_pool p sh = Some (sh, p\<lparr>shares := shares p - sh, balance := balance p - sh\<rparr>)"
  by (auto simp: unit_pool_def settle_pool_def coins_per_share_def to_coins_def)

lemma unit_pool_keep:
  "unit_pool p \<Longrightarrow> 0 \<le> balance p + d \<Longrightarrow>
     unit_pool (p\<lparr>balance := balance p + d, shares := shares p + d\<rparr>)"
  "unit_pool p \<Longrightarrow> 0 \<le> balance p - d \<Longrightarrow>
     unit_pool (p\<lparr>shares := shares p - d, balance := balance p - d\<rparr>)"
  "unit_pool (p\<lparr>accounts := l\<rparr>) = unit_pool p"
  by (auto simp: unit_pool_def)

lemma unit_pool_new [simp]: "unit_pool new_pool"
  by (simp add: unit_pool_def new_pool_def)

lemmas unit_pool_ops = unit_pool_unbond_shares unit_pool_bond unit_pool_settle unit_pool_keep

section \<open>Properties\<close>

text \<open>C21. Ratio bootstrap: bonding \<open>a\<close> coins to a pool whose balance is zero,
  in particular a pool just created by the first bond, issues exactly \<open>a\<close>
  shares and adds \<open>a\<close> to both totals.\<close>

theorem bond_bootstrap:
  assumes "balance p = 0"
  shows "bond_pool p a = (int a, p\<lparr>balance := int a, shares := shares p + int a\<rparr>)"
  using assms by (simp add: bond_pool_def bond_shares_per_coin_def to_shares_def Let_def)

theorem bond_bootstrap_witness:
  "balance new_pool = 0 \<and>
   bond_pool new_pool 1000 = (1000, new_pool\<lparr>balance := 1000, shares := 1000\<rparr>)"
  using bond_bootstrap [of new_pool 1000] by (simp add: new_pool_def)

text \<open>C22. Bonding never dilutes: after a bond the value of a share,
  \<open>balance / shares\<close>, is at least what it was, so the shares issued to the new
  delegator are worth at most the coins bonded.\<close>

theorem bond_no_dilution:
  assumes "0 \<le> balance p" and "0 \<le> shares p"
  shows "balance p * shares (snd (bond_pool p a)) \<le> balance (snd (bond_pool p a)) * shares p"
proof (cases "balance p = 0")
  case True
  with assms show ?thesis by simp
next
  case False
  with assms(1) have pos: "0 < balance p" by simp
  have "balance p * fst (bond_pool p a) \<le> int a * shares p"
    using to_shares_prop [OF pos, of a] False
    by (simp add: bond_pool_fst bond_shares_per_coin_def)
  then show ?thesis
    by (simp add: algebra_simps)
qed

theorem bond_no_dilution_witness:
  "0 \<le> balance \<lparr>balance = 10, shares = 3, accounts = Map.empty\<rparr> \<and>
   0 \<le> shares \<lparr>balance = 10, shares = (3::int), accounts = Map.empty\<rparr> \<and>
   snd (bond_pool \<lparr>balance = 10, shares = 3, accounts = Map.empty\<rparr> 7) =
     \<lparr>balance = 17, shares = 5, accounts = Map.empty\<rparr>"
  using bond_no_dilution [of "\<lparr>balance = 10, shares = 3, accounts = Map.empty\<rparr>" 7]
  by (simp add: bond_pool_def bond_shares_per_coin_def to_shares_def scale_def)

text \<open>C23. Settlement is defined and within bounds on a well-formed pool: for
  at most the pool's shares it pays a non-negative number of coins no larger
  than the balance, and both totals stay non-negative.\<close>

theorem settle_bounds:
  assumes "pool_wf p" and "0 \<le> sh" and "sh \<le> shares p"
  shows "\<exists>c p'. settle_pool p sh = Some (c, p') \<and> 0 \<le> c \<and> c \<le> balance p \<and>
                0 \<le> balance p' \<and> 0 \<le> shares p'"
proof (cases "balance p = 0")
  case True
  with assms have "shares p = 0" and "sh = 0"
    by (auto simp: pool_wf_def)
  with True show ?thesis
    by (simp add: settle_pool_def coins_per_share_def to_coins_def)
next
  case False
  with assms(1) have b: "0 < balance p" and s: "0 < shares p"
    by (auto simp: pool_wf_def)
  let ?cps = "scale * balance p div shares p"
  have cps: "coins_per_share p = Some ?cps"
    using False s by (simp add: coins_per_share_def)
  have "shares p * to_coins sh ?cps \<le> sh * balance p"
    using s assms(2) by (rule to_coins_prop)
  also have "\<dots> \<le> shares p * balance p"
    using assms(3) b by (simp add: mult_right_mono mult.commute)
  finally have le: "to_coins sh ?cps \<le> balance p"
    using s by (simp add: mult_le_cancel_left_pos)
  have "0 \<le> to_coins sh ?cps"
    using b s assms(2) by (simp add: to_coins_nonneg floor_div_nonneg)
  with le cps assms(3) show ?thesis
    by (simp add: settle_pool_def Let_def)
qed

theorem settle_bounds_witness:
  "pool_wf \<lparr>balance = 10, shares = 3, accounts = Map.empty\<rparr> \<and> (0::int) \<le> 2 \<and>
   2 \<le> shares \<lparr>balance = 10, shares = 3, accounts = Map.empty\<rparr> \<and>
   settle_pool \<lparr>balance = 10, shares = 3, accounts = Map.empty\<rparr> 2 =
     Some (6, \<lparr>balance = 4, shares = 1, accounts = Map.empty\<rparr>)"
  using settle_bounds [of "\<lparr>balance = 10, shares = 3, accounts = Map.empty\<rparr>" 2]
  by (simp add: pool_wf_def settle_pool_def coins_per_share_def to_coins_def scale_def)

text \<open>C24. Settlement never dilutes the shares that stay in a pool with a
  positive balance: the coins paid are at most the matured shares' proportional
  claim, so \<open>balance / shares\<close> does not drop.\<close>

theorem settle_no_dilution:
  assumes "0 < balance p" and "0 \<le> shares p" and "0 \<le> sh"
    and "settle_pool p sh = Some (c, p')"
  shows "balance p * shares p' \<le> balance p' * shares p"
proof -
  from assms(1,4) have s: "shares p \<noteq> 0"
    and c: "c = to_coins sh (scale * balance p div shares p)"
    and p': "p' = p\<lparr>shares := shares p - sh, balance := balance p - c\<rparr>"
    by (auto simp: settle_pool_Some coins_per_share_def split: if_splits)
  with assms(2) have "0 < shares p" by simp
  then have "shares p * c \<le> sh * balance p"
    using c assms(3) to_coins_prop by blast
  with p' show ?thesis
    by (simp add: algebra_simps)
qed

theorem settle_no_dilution_witness:
  "0 < balance \<lparr>balance = 10, shares = 3, accounts = Map.empty\<rparr> \<and>
   0 \<le> shares \<lparr>balance = 10, shares = 3, accounts = Map.empty\<rparr> \<and> (0::int) \<le> 2 \<and>
   settle_pool \<lparr>balance = 10, shares = 3, accounts = Map.empty\<rparr> 2 =
     Some (6, \<lparr>balance = 4, shares = 1, accounts = Map.empty\<rparr>) \<and>
   (10::int) * 1 \<le> 4 * 3"
  using settle_no_dilution [of "\<lparr>balance = 10, shares = 3, accounts = Map.empty\<rparr>" 2 6
                               "\<lparr>balance = 4, shares = 1, accounts = Map.empty\<rparr>"]
  by (simp add: settle_pool_def coins_per_share_def to_coins_def scale_def)

text \<open>C25. No round trip mints value: the coins a settlement pays for the
  shares a withdrawal of \<open>a\<close> coins redeemed, at the same pool state, are at
  most \<open>a\<close>.\<close>

theorem roundtrip_no_mint:
  assumes "0 < balance p" and "0 \<le> shares p"
    and "unbond_shares p a = Some sh" and "settle_pool p sh = Some (c, p')"
  shows "c \<le> int a"
proof -
  from assms(1,3) have sh: "sh = to_shares a (scale * shares p div balance p)"
    by (simp add: unbond_shares_def shares_per_coin_def)
  from assms(1,4) have s: "shares p \<noteq> 0"
    and c: "c = to_coins sh (scale * balance p div shares p)"
    by (auto simp: settle_pool_Some coins_per_share_def split: if_splits)
  with assms(2) have s': "0 < shares p" by simp
  have sh0: "0 \<le> sh"
    using sh assms(1,2) by (simp add: to_shares_nonneg floor_div_nonneg)
  have "shares p * c \<le> sh * balance p"
    using c to_coins_prop [OF s' sh0] by simp
  also have "\<dots> \<le> int a * shares p"
    using sh to_shares_prop [OF assms(1), of a] by (simp add: mult.commute)
  finally show ?thesis
    using s' by (simp add: mult.commute mult_le_cancel_left_pos)
qed

theorem roundtrip_no_mint_witness:
  "0 < balance \<lparr>balance = 10, shares = 3, accounts = Map.empty\<rparr> \<and>
   0 \<le> shares \<lparr>balance = 10, shares = 3, accounts = Map.empty\<rparr> \<and>
   unbond_shares \<lparr>balance = 10, shares = 3, accounts = Map.empty\<rparr> 7 = Some 2 \<and>
   settle_pool \<lparr>balance = 10, shares = 3, accounts = Map.empty\<rparr> 2 =
     Some (6, \<lparr>balance = 4, shares = 1, accounts = Map.empty\<rparr>) \<and> (6::int) \<le> 7"
  using roundtrip_no_mint [of "\<lparr>balance = 10, shares = 3, accounts = Map.empty\<rparr>" 7 2 6
                              "\<lparr>balance = 4, shares = 1, accounts = Map.empty\<rparr>"]
  by (simp add: unbond_shares_def shares_per_coin_def to_shares_def settle_pool_def
                coins_per_share_def to_coins_def scale_def)

text \<open>On a 1:1 pool the round trip is exact: a withdrawal of \<open>a\<close> coins
  redeems \<open>a\<close> shares, and settling them pays back exactly \<open>a\<close> coins and
  leaves a 1:1 pool.\<close>

theorem unit_roundtrip_exact:
  assumes "unit_pool p" and "0 < balance p" and "int a \<le> balance p"
  shows "\<exists>p'. unbond_shares p a = Some (int a) \<and> settle_pool p (int a) = Some (int a, p') \<and>
              unit_pool p' \<and> balance p' = balance p - int a"
  using assms by (auto simp: unit_pool_ops)

theorem unit_roundtrip_exact_witness:
  "unit_pool \<lparr>balance = 1000000, shares = 1000000, accounts = Map.empty\<rparr> \<and>
   0 < balance \<lparr>balance = 1000000, shares = 1000000, accounts = Map.empty\<rparr> \<and>
   int 400000 \<le> balance \<lparr>balance = 1000000, shares = 1000000, accounts = Map.empty\<rparr> \<and>
   settle_pool \<lparr>balance = 1000000, shares = 1000000, accounts = Map.empty\<rparr> 400000 =
     Some (400000, \<lparr>balance = 600000, shares = 600000, accounts = Map.empty\<rparr>)"
  using unit_roundtrip_exact [of "\<lparr>balance = 1000000, shares = 1000000, accounts = Map.empty\<rparr>" 400000]
  by (simp add: unit_pool_def settle_pool_def coins_per_share_def to_coins_def)

text \<open>The zero-balance guard of settlement (line 147) pays one coin per
  share whatever the shares: on a pool with zero balance, settling \<open>sh\<close>
  shares pays \<open>sh\<close> coins and takes the balance to \<open>-sh\<close>.\<close>

lemma settle_zero_balance:
  "balance p = 0 \<Longrightarrow> settle_pool p sh = Some (sh, p\<lparr>shares := shares p - sh, balance := - sh\<rparr>)"
  by (simp add: settle_pool_def coins_per_share_def to_coins_def)

end
