(* ===== verification/Handlers.thy ===== *)
theory Handlers
  imports Pool
begin

text \<open>
  The persisted state and the two per-transaction entry points of
  \<open>src/index.js\<close>: \<open>onInput\<close> (lines 26--71) and \<open>onOutput\<close> (lines 74--131).
  Inputs and outputs are the loosely typed JavaScript objects of the source,
  kept as records with the marker fields \<open>unbonded\<close>, \<open>bonded\<close>, \<open>unbond\<close> and
  \<open>bond\<close> as booleans, tested in the source's order, so an object carrying two
  markers takes the first branch as it does in the code. A thrown \<open>Error\<close> is
  an \<open>Inl\<close> value of type \<open>error\<close>; the mutations of the shared state object and
  of \<open>chain.validators\<close> are returned as the new state and chain. The
  \<open>tx.mustHaveOutput\<close> call of a bonded withdrawal returns its pattern as a
  \<open>requirement\<close>, which the transaction layer (theory \<open>Transaction\<close>) checks.
\<close>

section \<open>Data\<close>

text \<open>A number of the voting-power table: an integer, or \<open>NaN\<close>, which
  line 56 stores when it decrements an entry the table lacks
  (\<open>undefined - amount\<close>) and keeps on every later decrement.\<close>

datatype jsnum = Num int | NaN

text \<open>The host's chain object: the block height and the voting-power table,
  where an absent key is JavaScript's \<open>undefined\<close>.\<close>

record chain =
  height :: nat
  validators :: "key \<rightharpoonup> jsnum"

text \<open>A transaction input; \<open>in_sequence\<close> and \<open>in_authorized\<close> are what the
  account handler of the \<open>coins\<close> package checks (sequence number, signature).\<close>

record tx_input =
  in_unbonded :: bool
  in_bonded :: bool
  in_validatorPubkey :: string
  in_amount :: nat
  in_address :: addr
  in_type :: string
  in_sequence :: nat
  in_authorized :: bool

record tx_output =
  out_unbond :: bool
  out_bond :: bool
  out_validatorPubkey :: string
  out_amount :: nat
  out_address :: addr
  out_type :: string

text \<open>An entry of the unbonding queue: the output object with its amount
  replaced by the shares and its maturity height added (lines 88--92). The
  validator key is the output's, not lower-cased.\<close>

record unbonding_entry =
  ue_type :: string
  ue_address :: addr
  ue_validatorPubkey :: string
  ue_height :: nat
  ue_shares :: int

text \<open>The pattern passed to \<open>tx.mustHaveOutput\<close> (lines 59--65).\<close>

record requirement =
  req_type :: string
  req_amount :: nat
  req_address :: addr
  req_validatorPubkey :: key

text \<open>The persisted state \<open>{ bonded, unbonding, unbonded }\<close> (lines 20--24).\<close>

record state =
  bonded :: "key \<rightharpoonup> pool"
  unbonding :: "unbonding_entry list"
  unbonded :: ledger

datatype error =
    No_staking_state key
  | Must_withdraw
  | Must_bond_or_unbond
  | Non_finite_amount
  | Account ledger_error
  | Missing_output requirement

definition initialState :: state where
  "initialState = \<lparr>bonded = Map.empty, unbonding = [], unbonded = Map.empty\<rparr>"

text \<open>Line 9: \<open>opts.unbondingPeriod || 30 * 24 * 60 * 60\<close>; an absent or zero
  option gives the default of 30 days in seconds.\<close>

definition unbonding_period :: "nat option \<Rightarrow> nat" where
  "unbonding_period opt =
     (case opt of None \<Rightarrow> 30 * 24 * 60 * 60 | Some p \<Rightarrow> if p = 0 then 30 * 24 * 60 * 60 else p)"

section \<open>Voting power\<close>

text \<open>Line 56, \<open>chain.validators[k] -= amount\<close>: on an absent entry or on
  \<open>NaN\<close> the result is \<open>NaN\<close>, and it is stored. The voting-power invariant
  of theory \<open>Invariants\<close> shows a bonded key always has a number there.\<close>

definition sub_voting_power :: "(key \<rightharpoonup> jsnum) \<Rightarrow> key \<Rightarrow> int \<Rightarrow> (key \<rightharpoonup> jsnum)" where
  "sub_voting_power vp k a =
     vp(k \<mapsto> (case vp k of Some (Num v) \<Rightarrow> Num (v - a) | _ \<Rightarrow> NaN))"

text \<open>\<open>x || 0\<close> on an entry of the table: \<open>undefined\<close>, \<open>NaN\<close> and \<open>0\<close> all
  give \<open>0\<close>, any other number itself.\<close>

definition num_or_zero :: "jsnum option \<Rightarrow> int" where
  "num_or_zero x = (case x of Some (Num v) \<Rightarrow> v | _ \<Rightarrow> 0)"

text \<open>Lines 119--120, \<open>(chain.validators[k] || 0) + amount\<close>.\<close>

definition add_voting_power :: "(key \<rightharpoonup> jsnum) \<Rightarrow> key \<Rightarrow> int \<Rightarrow> (key \<rightharpoonup> jsnum)" where
  "add_voting_power vp k a = vp(k \<mapsto> Num (num_or_zero (vp k) + a))"

section \<open>onInput\<close>

text \<open>Lines 28--33: withdrawal from the unbonded account, delegated entirely
  to the account handler.\<close>

definition withdraw_unbonded :: "tx_input \<Rightarrow> state \<Rightarrow> error + state" where
  "withdraw_unbonded i s =
     (case ledger_debit (unbonded s) (in_address i) (int (in_amount i))
             (in_sequence i) (in_authorized i) of
        Inl e \<Rightarrow> Inl (Account e)
      | Inr l \<Rightarrow> Inr (s\<lparr>unbonded := l\<rparr>))"

definition requirement_of :: "tx_input \<Rightarrow> key \<Rightarrow> requirement" where
  "requirement_of i k =
     \<lparr>req_type = in_type i, req_amount = in_amount i, req_address = in_address i,
      req_validatorPubkey = k\<rparr>"

text \<open>Lines 36--68: withdrawal from a bonded account. The shares are debited
  from the delegator's sub-ledger, the voting power drops by the coin amount,
  and the transaction must carry the matching unbond output; the pool's
  totals are left alone until maturity.\<close>

definition withdraw_bonded ::
  "tx_input \<Rightarrow> state \<Rightarrow> chain \<Rightarrow> error + (state \<times> chain \<times> requirement)" where
  "withdraw_bonded i s c =
     (let k = to_lower (in_validatorPubkey i) in
      case bonded s k of
        None \<Rightarrow> Inl (No_staking_state k)
      | Some p \<Rightarrow>
          (case unbond_shares p (in_amount i) of
             None \<Rightarrow> Inl Non_finite_amount
           | Some sh \<Rightarrow>
               (case ledger_debit (accounts p) (in_address i) sh (in_sequence i) (in_authorized i) of
                  Inl e \<Rightarrow> Inl (Account e)
                | Inr l \<Rightarrow>
                    Inr (s\<lparr>bonded := (bonded s)(k \<mapsto> p\<lparr>accounts := l\<rparr>)\<rparr>,
                         c\<lparr>validators := sub_voting_power (validators c) k (int (in_amount i))\<rparr>,
                         requirement_of i k))))"

text \<open>Lines 26--71: the dispatch on the input's markers.\<close>

definition on_input ::
  "tx_input \<Rightarrow> state \<Rightarrow> chain \<Rightarrow> error + (state \<times> chain \<times> requirement option)" where
  "on_input i s c =
     (if in_unbonded i then
        (case withdraw_unbonded i s of Inl e \<Rightarrow> Inl e | Inr s' \<Rightarrow> Inr (s', c, None))
      else if in_bonded i then
        (case withdraw_bonded i s c of
           Inl e \<Rightarrow> Inl e
         | Inr (s', c', r) \<Rightarrow> Inr (s', c', Some r))
      else Inl Must_withdraw)"

section \<open>onOutput\<close>

definition new_entry :: "nat \<Rightarrow> tx_output \<Rightarrow> chain \<Rightarrow> int \<Rightarrow> unbonding_entry" where
  "new_entry period out c sh =
     \<lparr>ue_type = out_type out, ue_address = out_address out,
      ue_validatorPubkey = out_validatorPubkey out, ue_height = height c + period,
      ue_shares = sh\<rparr>"

text \<open>Lines 76--95: an unbond output appends an entry to the queue.\<close>

definition unbond_output ::
  "nat \<Rightarrow> tx_output \<Rightarrow> state \<Rightarrow> chain \<Rightarrow> error + state" where
  "unbond_output period out s c =
     (let k = to_lower (out_validatorPubkey out) in
      case bonded s k of
        None \<Rightarrow> Inl (No_staking_state k)
      | Some p \<Rightarrow>
          (case unbond_shares p (out_amount out) of
             None \<Rightarrow> Inl Non_finite_amount
           | Some sh \<Rightarrow> Inr (s\<lparr>unbonding := unbonding s @ [new_entry period out c sh]\<rparr>)))"

text \<open>Lines 98--128: a bond output creates the pool on first use, adds coins
  and shares, raises the voting power and credits the shares.\<close>

definition bond_output :: "tx_output \<Rightarrow> state \<Rightarrow> chain \<Rightarrow> state \<times> chain" where
  "bond_output out s c =
     (let k = to_lower (out_validatorPubkey out);
          p = (case bonded s k of None \<Rightarrow> new_pool | Some p \<Rightarrow> p);
          r = bond_pool p (out_amount out);
          p' = snd r
      in (s\<lparr>bonded := (bonded s)(k \<mapsto>
              p'\<lparr>accounts := ledger_credit (accounts p') (out_address out) (fst r)\<rparr>)\<rparr>,
          c\<lparr>validators := add_voting_power (validators c) k (int (out_amount out))\<rparr>))"

text \<open>Lines 74--131: the dispatch on the output's markers.\<close>

definition on_output ::
  "nat \<Rightarrow> tx_output \<Rightarrow> state \<Rightarrow> chain \<Rightarrow> error + (state \<times> chain)" where
  "on_output period out s c =
     (if out_unbond out then
        (case unbond_output period out s c of Inl e \<Rightarrow> Inl e | Inr s' \<Rightarrow> Inr (s', c))
      else if out_bond out then Inr (bond_output out s c)
      else Inl Must_bond_or_unbond)"

section \<open>What a successful call did\<close>

text \<open>Inversion of each handler: one case per branch that returns normally,
  with the branch's guards and the state it returns. The invariant proofs of
  theory \<open>Invariants\<close> go through these.\<close>

lemma on_input_Inr:
  "on_input i s c = Inr (s', c', r) \<longleftrightarrow>
     (in_unbonded i \<and> withdraw_unbonded i s = Inr s' \<and> c' = c \<and> r = None) \<or>
     (\<not> in_unbonded i \<and> in_bonded i \<and>
      (\<exists>q. withdraw_bonded i s c = Inr (s', c', q) \<and> r = Some q))"
  by (auto simp: on_input_def split: sum.splits)

lemma on_output_Inr:
  "on_output period out s c = Inr (s', c') \<longleftrightarrow>
     (out_unbond out \<and> unbond_output period out s c = Inr s' \<and> c' = c) \<or>
     (\<not> out_unbond out \<and> out_bond out \<and> bond_output out s c = (s', c'))"
  by (auto simp: on_output_def split: sum.splits)

lemma withdraw_unbonded_Inr:
  "withdraw_unbonded i s = Inr s' \<longleftrightarrow>
     (\<exists>l. ledger_debit (unbonded s) (in_address i) (int (in_amount i)) (in_sequence i)
            (in_authorized i) = Inr l \<and> s' = s\<lparr>unbonded := l\<rparr>)"
  by (auto simp: withdraw_unbonded_def split: sum.splits)

lemma withdraw_bonded_Inr:
  "withdraw_bonded i s c = Inr (s', c', r) \<longleftrightarrow>
     (\<exists>p sh l. bonded s (to_lower (in_validatorPubkey i)) = Some p \<and>
        unbond_shares p (in_amount i) = Some sh \<and>
        ledger_debit (accounts p) (in_address i) sh (in_sequence i) (in_authorized i) = Inr l \<and>
        s' = s\<lparr>bonded := (bonded s)(to_lower (in_validatorPubkey i) \<mapsto> p\<lparr>accounts := l\<rparr>)\<rparr> \<and>
        c' = c\<lparr>validators := sub_voting_power (validators c) (to_lower (in_validatorPubkey i))
                               (int (in_amount i))\<rparr> \<and>
        r = requirement_of i (to_lower (in_validatorPubkey i)))"
  by (auto simp: withdraw_bonded_def Let_def split: option.splits sum.splits)

lemma unbond_output_Inr:
  "unbond_output period out s c = Inr s' \<longleftrightarrow>
     (\<exists>p sh. bonded s (to_lower (out_validatorPubkey out)) = Some p \<and>
        unbond_shares p (out_amount out) = Some sh \<and>
        s' = s\<lparr>unbonding := unbonding s @ [new_entry period out c sh]\<rparr>)"
  by (auto simp: unbond_output_def Let_def split: option.splits)

lemma sub_voting_power_at [simp]:
  "sub_voting_power vp k a k' =
     (if k' = k then Some (case vp k of Some (Num v) \<Rightarrow> Num (v - a) | _ \<Rightarrow> NaN) else vp k')"
  by (simp add: sub_voting_power_def)

lemma num_or_zero_Num [simp]: "num_or_zero (Some (Num v)) = v"
  by (simp add: num_or_zero_def)

lemma add_voting_power_at [simp]:
  "add_voting_power vp k a k' =
     (if k' = k then Some (Num (num_or_zero (vp k) + a)) else vp k')"
  by (simp add: add_voting_power_def)

section \<open>Properties\<close>

text \<open>C26. Every rejecting branch of the two transaction handlers: a bonded
  withdrawal or an unbond output naming a validator that never bonded fails
  with the "no staking state" error for the lower-cased key (lines 40--42 and
  79--81), an input that is neither unbonded nor bonded with line 70's error,
  and an output that is neither unbond nor bond with line 130's.\<close>

theorem handler_rejections:
  "(\<not> in_unbonded i \<and> in_bonded i \<and> bonded s (to_lower (in_validatorPubkey i)) = None \<longrightarrow>
      on_input i s c = Inl (No_staking_state (to_lower (in_validatorPubkey i)))) \<and>
   (out_unbond out \<and> bonded s (to_lower (out_validatorPubkey out)) = None \<longrightarrow>
      on_output period out s c = Inl (No_staking_state (to_lower (out_validatorPubkey out)))) \<and>
   (\<not> in_unbonded i \<and> \<not> in_bonded i \<longrightarrow> on_input i s c = Inl Must_withdraw) \<and>
   (\<not> out_unbond out \<and> \<not> out_bond out \<longrightarrow> on_output period out s c = Inl Must_bond_or_unbond)"
  by (simp add: on_input_def withdraw_bonded_def on_output_def unbond_output_def Let_def)

theorem handler_rejections_witness:
  "on_input \<lparr>in_unbonded = False, in_bonded = True, in_validatorPubkey = ''V'',
             in_amount = 5, in_address = ''alice'', in_type = ''ed25519'', in_sequence = 0,
             in_authorized = True\<rparr> initialState \<lparr>height = 0, validators = Map.empty\<rparr> =
     Inl (No_staking_state ''v'') \<and>
   on_output 10 \<lparr>out_unbond = True, out_bond = False, out_validatorPubkey = ''V'',
             out_amount = 5, out_address = ''alice'', out_type = ''ed25519''\<rparr> initialState
             \<lparr>height = 0, validators = Map.empty\<rparr> = Inl (No_staking_state ''v'') \<and>
   on_input \<lparr>in_unbonded = False, in_bonded = False, in_validatorPubkey = ''v'',
             in_amount = 5, in_address = ''alice'', in_type = ''ed25519'', in_sequence = 0,
             in_authorized = True\<rparr> initialState \<lparr>height = 0, validators = Map.empty\<rparr> = Inl Must_withdraw \<and>
   on_output 10 \<lparr>out_unbond = False, out_bond = False, out_validatorPubkey = ''v'',
             out_amount = 5, out_address = ''alice'', out_type = ''ed25519''\<rparr> initialState
             \<lparr>height = 0, validators = Map.empty\<rparr> = Inl Must_bond_or_unbond"
proof -
  have low: "to_lower ''V'' = ''v''"
    by code_simp
  show ?thesis
    using handler_rejections [of "\<lparr>in_unbonded = False, in_bonded = True,
             in_validatorPubkey = ''V'', in_amount = 5, in_address = ''alice'',
             in_type = ''ed25519'', in_sequence = 0, in_authorized = True\<rparr>" initialState
             "\<lparr>height = 0, validators = Map.empty\<rparr>"
             "\<lparr>out_unbond = True, out_bond = False, out_validatorPubkey = ''V'',
             out_amount = 5, out_address = ''alice'', out_type = ''ed25519''\<rparr>" 10]
      handler_rejections [of "\<lparr>in_unbonded = False, in_bonded = False,
             in_validatorPubkey = ''v'', in_amount = 5, in_address = ''alice'',
             in_type = ''ed25519'', in_sequence = 0, in_authorized = True\<rparr>" initialState
             "\<lparr>height = 0, validators = Map.empty\<rparr>"
             "\<lparr>out_unbond = False, out_bond = False, out_validatorPubkey = ''v'',
             out_amount = 5, out_address = ''alice'', out_type = ''ed25519''\<rparr>" 10]
    by (simp add: initialState_def low)
qed

text \<open>C27. The two withdrawal paths divide by the pool's balance with no
  guard (lines 46 and 85): on a pool whose balance is zero, which a pool
  reaches when all its stake has matured out, both compute a non-finite share
  count, where bonding and settlement fall back to the 1:1 ratio.\<close>

theorem withdraw_zero_balance_non_finite:
  assumes "bonded s k = Some p" and "balance p = 0"
  shows "(\<not> in_unbonded i \<and> in_bonded i \<and> to_lower (in_validatorPubkey i) = k \<longrightarrow>
            on_input i s c = Inl Non_finite_amount) \<and>
         (out_unbond out \<and> to_lower (out_validatorPubkey out) = k \<longrightarrow>
            on_output period out s c = Inl Non_finite_amount)"
  using assms
  by (auto simp: on_input_def withdraw_bonded_def on_output_def unbond_output_def
                 unbond_shares_def shares_per_coin_def)

theorem withdraw_zero_balance_non_finite_witness:
  "on_output 10 \<lparr>out_unbond = True, out_bond = False, out_validatorPubkey = ''v'',
             out_amount = 5, out_address = ''alice'', out_type = ''ed25519''\<rparr>
     \<lparr>bonded = [''v'' \<mapsto> new_pool], unbonding = [], unbonded = Map.empty\<rparr>
     \<lparr>height = 0, validators = Map.empty\<rparr> = Inl Non_finite_amount"
  using withdraw_zero_balance_non_finite
          [of "\<lparr>bonded = [''v'' \<mapsto> new_pool], unbonding = [], unbonded = Map.empty\<rparr>" "''v''" new_pool]
  by (simp add: new_pool_def to_lower_def lower_char_def Let_def)

text \<open>C28. A successful bonded withdrawal debits the redeemed shares from the
  delegator, lowers the validator's voting power by the coin amount at once,
  leaves the pool's balance, its shares and the queue untouched, and requires
  a matching unbond output.\<close>

theorem initiate_unbond_effect:
  assumes "on_input i s c = Inr (s', c', r)" and "\<not> in_unbonded i" and "in_bonded i"
  defines "k \<equiv> to_lower (in_validatorPubkey i)"
  shows "\<exists>p p' sh. bonded s k = Some p \<and> bonded s' k = Some p' \<and>
           unbond_shares p (in_amount i) = Some sh \<and>
           balance p' = balance p \<and> shares p' = shares p \<and>
           bal_of (accounts p') (in_address i) = bal_of (accounts p) (in_address i) - sh \<and>
           validators c' k =
             Some (case validators c k of Some (Num v) \<Rightarrow> Num (v - int (in_amount i)) | _ \<Rightarrow> NaN) \<and>
           unbonding s' = unbonding s \<and> unbonded s' = unbonded s \<and>
           r = Some (requirement_of i k)"
  using assms by (auto simp: on_input_Inr withdraw_bonded_Inr ledger_debit_bal)

theorem initiate_unbond_effect_witness:
  "on_input \<lparr>in_unbonded = False, in_bonded = True, in_validatorPubkey = ''v'',
             in_amount = 4, in_address = ''alice'', in_type = ''ed25519'', in_sequence = 0,
             in_authorized = True\<rparr>
     \<lparr>bonded = [''v'' \<mapsto> \<lparr>balance = 10, shares = 10,
                 accounts = [''alice'' \<mapsto> \<lparr>acct_balance = 10, acct_sequence = 0\<rparr>]\<rparr>],
      unbonding = [], unbonded = Map.empty\<rparr>
     \<lparr>height = 0, validators = [''v'' \<mapsto> Num 10]\<rparr> =
   Inr (\<lparr>bonded = [''v'' \<mapsto> \<lparr>balance = 10, shares = 10,
                 accounts = [''alice'' \<mapsto> \<lparr>acct_balance = 6, acct_sequence = 1\<rparr>]\<rparr>],
      unbonding = [], unbonded = Map.empty\<rparr>,
      \<lparr>height = 0, validators = [''v'' \<mapsto> Num 6]\<rparr>,
      Some \<lparr>req_type = ''ed25519'', req_amount = 4, req_address = ''alice'', req_validatorPubkey = ''v''\<rparr>) \<and>
   (\<exists>p p' sh. Some \<lparr>balance = 10, shares = 10,
                 accounts = [''alice'' \<mapsto> \<lparr>acct_balance = 10, acct_sequence = 0\<rparr>]\<rparr> = Some p \<and>
       Some \<lparr>balance = 10, shares = 10,
                 accounts = [''alice'' \<mapsto> \<lparr>acct_balance = 6, acct_sequence = 1\<rparr>]\<rparr> = Some p' \<and>
       unbond_shares p 4 = Some sh \<and> balance p' = balance p \<and> shares p' = shares p)"
proof -
  let ?i = "\<lparr>in_unbonded = False, in_bonded = True, in_validatorPubkey = ''v'',
             in_amount = 4, in_address = ''alice'', in_type = ''ed25519'', in_sequence = 0,
             in_authorized = True\<rparr>"
  let ?p = "\<lparr>balance = 10, shares = 10,
                 accounts = [''alice'' \<mapsto> \<lparr>acct_balance = 10, acct_sequence = 0\<rparr>]\<rparr>"
  let ?p' = "\<lparr>balance = 10, shares = 10,
                 accounts = [''alice'' \<mapsto> \<lparr>acct_balance = 6, acct_sequence = 1\<rparr>]\<rparr>"
  let ?s = "\<lparr>bonded = [''v'' \<mapsto> ?p], unbonding = [], unbonded = Map.empty\<rparr>"
  let ?s' = "\<lparr>bonded = [''v'' \<mapsto> ?p'], unbonding = [], unbonded = Map.empty\<rparr>"
  let ?c = "\<lparr>height = 0, validators = [''v'' \<mapsto> Num 10]\<rparr>"
  let ?c' = "\<lparr>height = 0, validators = [''v'' \<mapsto> Num 6]\<rparr>"
  let ?r = "Some \<lparr>req_type = ''ed25519'', req_amount = 4, req_address = ''alice'', req_validatorPubkey = ''v''\<rparr>"
  have low: "to_lower ''v'' = ''v''"
    by code_simp
  have run: "on_input ?i ?s ?c = Inr (?s', ?c', ?r)"
    by (simp add: on_input_def withdraw_bonded_def low Let_def unbond_shares_def shares_per_coin_def
                  to_shares_def ledger_debit_def sub_voting_power_def requirement_of_def)
  from initiate_unbond_effect [OF run]
  have "\<exists>p p' sh. bonded ?s (to_lower ''v'') = Some p \<and> bonded ?s' (to_lower ''v'') = Some p' \<and>
          unbond_shares p 4 = Some sh \<and> balance p' = balance p \<and> shares p' = shares p"
    by (auto simp: low)
  then have "\<exists>p p' sh. Some ?p = Some p \<and> Some ?p' = Some p' \<and> unbond_shares p 4 = Some sh \<and>
          balance p' = balance p \<and> shares p' = shares p"
    by (simp add: low)
  with run show ?thesis by blast
qed

text \<open>C29. A successful bond output adds the coins to the pool's balance and
  the issued shares to its total and to the delegator, raises the voting power
  by the coins (from zero for a key the table lacks), and leaves the queue
  alone; the pool is the existing one or, on first use, a fresh empty one.\<close>

theorem bond_effect:
  assumes "on_output period out s c = Inr (s', c')" and "\<not> out_unbond out" and "out_bond out"
  defines "k \<equiv> to_lower (out_validatorPubkey out)"
  defines "p \<equiv> (case bonded s k of None \<Rightarrow> new_pool | Some p \<Rightarrow> p)"
  shows "\<exists>p'. bonded s' k = Some p' \<and>
           balance p' = balance p + int (out_amount out) \<and>
           shares p' = shares p + fst (bond_pool p (out_amount out)) \<and>
           bal_of (accounts p') (out_address out) =
             bal_of (accounts p) (out_address out) + fst (bond_pool p (out_amount out)) \<and>
           validators c' k =
             Some (Num (num_or_zero (validators c k) + int (out_amount out))) \<and>
           unbonding s' = unbonding s \<and> unbonded s' = unbonded s"
  using assms
  by (auto simp: on_output_Inr bond_output_def Let_def ledger_credit_bal)

theorem bond_effect_witness:
  "on_output 10 \<lparr>out_unbond = False, out_bond = True, out_validatorPubkey = ''V'',
             out_amount = 1000, out_address = ''alice'', out_type = ''ed25519''\<rparr> initialState
     \<lparr>height = 0, validators = Map.empty\<rparr> =
   Inr (\<lparr>bonded = [''v'' \<mapsto> \<lparr>balance = 1000, shares = 1000,
                 accounts = [''alice'' \<mapsto> \<lparr>acct_balance = 1000, acct_sequence = 0\<rparr>]\<rparr>],
         unbonding = [], unbonded = Map.empty\<rparr>,
        \<lparr>height = 0, validators = [''v'' \<mapsto> Num 1000]\<rparr>) \<and>
   (\<exists>p'. Some \<lparr>balance = 1000, shares = 1000,
                 accounts = [''alice'' \<mapsto> \<lparr>acct_balance = 1000, acct_sequence = 0\<rparr>]\<rparr> = Some p' \<and>
         balance p' = balance new_pool + 1000)"
proof -
  let ?o = "\<lparr>out_unbond = False, out_bond = True, out_validatorPubkey = ''V'',
             out_amount = 1000, out_address = ''alice'', out_type = ''ed25519''\<rparr>"
  let ?p' = "\<lparr>balance = 1000, shares = 1000,
                 accounts = [''alice'' \<mapsto> \<lparr>acct_balance = 1000, acct_sequence = 0\<rparr>]\<rparr>"
  let ?s' = "\<lparr>bonded = [''v'' \<mapsto> ?p'], unbonding = [], unbonded = Map.empty\<rparr>"
  let ?c' = "\<lparr>height = 0, validators = [''v'' \<mapsto> Num 1000]\<rparr>"
  have low: "to_lower ''V'' = ''v''"
    by code_simp
  have run: "on_output 10 ?o initialState \<lparr>height = 0, validators = Map.empty\<rparr> = Inr (?s', ?c')"
    by (simp add: on_output_def bond_output_def low Let_def initialState_def new_pool_def bond_pool_def
                  bond_shares_per_coin_def to_shares_def ledger_credit_def add_voting_power_def
                  num_or_zero_def)
  from bond_effect [OF run] low
  have "\<exists>p'. Some ?p' = Some p' \<and> balance p' = balance new_pool + 1000"
    by (simp add: initialState_def)
  with run show ?thesis by blast
qed

text \<open>C30. A successful unbond output appends exactly one entry at the tail
  of the queue, maturing at the current height plus the unbonding period and
  holding the shares the amount converts to at the pool's current ratio; the
  entry keeps the output's key as written, not lower-cased. Nothing else
  changes.\<close>

theorem unbond_output_effect:
  assumes "on_output period out s c = Inr (s', c')" and "out_unbond out"
  shows "\<exists>p sh. bonded s (to_lower (out_validatorPubkey out)) = Some p \<and>
           unbond_shares p (out_amount out) = Some sh \<and>
           unbonding s' = unbonding s @
             [\<lparr>ue_type = out_type out, ue_address = out_address out,
               ue_validatorPubkey = out_validatorPubkey out, ue_height = height c + period,
               ue_shares = sh\<rparr>] \<and>
           bonded s' = bonded s \<and> unbonded s' = unbonded s \<and> c' = c"
  using assms by (auto simp: on_output_Inr unbond_output_Inr new_entry_def)

theorem unbond_output_effect_witness:
  "on_output 10 \<lparr>out_unbond = True, out_bond = False, out_validatorPubkey = ''V'',
             out_amount = 4, out_address = ''alice'', out_type = ''ed25519''\<rparr>
     \<lparr>bonded = [''v'' \<mapsto> \<lparr>balance = 10, shares = 10, accounts = Map.empty\<rparr>],
      unbonding = [], unbonded = Map.empty\<rparr> \<lparr>height = 5, validators = Map.empty\<rparr> =
   Inr (\<lparr>bonded = [''v'' \<mapsto> \<lparr>balance = 10, shares = 10, accounts = Map.empty\<rparr>],
         unbonding = [\<lparr>ue_type = ''ed25519'', ue_address = ''alice'', ue_validatorPubkey = ''V'',
                       ue_height = 15, ue_shares = 4\<rparr>], unbonded = Map.empty\<rparr>,
        \<lparr>height = 5, validators = Map.empty\<rparr>) \<and>
   (\<exists>p sh. Some \<lparr>balance = 10, shares = 10, accounts = Map.empty\<rparr> = Some p \<and>
      unbond_shares p 4 = Some sh)"
proof -
  let ?o = "\<lparr>out_unbond = True, out_bond = False, out_validatorPubkey = ''V'',
             out_amount = 4, out_address = ''alice'', out_type = ''ed25519''\<rparr>"
  let ?p = "\<lparr>balance = 10, shares = 10, accounts = Map.empty\<rparr>"
  let ?s = "\<lparr>bonded = [''v'' \<mapsto> ?p], unbonding = [], unbonded = Map.empty\<rparr>"
  let ?s' = "\<lparr>bonded = [''v'' \<mapsto> ?p],
         unbonding = [\<lparr>ue_type = ''ed25519'', ue_address = ''alice'', ue_validatorPubkey = ''V'',
                       ue_height = 15, ue_shares = 4\<rparr>], unbonded = Map.empty\<rparr>"
  let ?c = "\<lparr>height = 5, validators = Map.empty\<rparr>"
  have low: "to_lower ''V'' = ''v''"
    by code_simp
  have run: "on_output 10 ?o ?s ?c = Inr (?s', ?c)"
    by (simp add: on_output_def unbond_output_def low Let_def unbond_shares_def shares_per_coin_def
                  to_shares_def new_entry_def)
  from unbond_output_effect [OF run] low
  have "\<exists>p sh. Some ?p = Some p \<and> unbond_shares p 4 = Some sh"
    by simp
  with run show ?thesis by blast
qed

text \<open>C31. Replay protection: an input that was accepted once is refused when
  submitted again, whatever the chain, with the account handler's sequence
  error, because the debit of line 31 or line 53 bumped the sequence number of
  the account it names (spec section 6).\<close>

theorem input_replay_rejected:
  assumes "on_input i s c = Inr (s', c', r)"
  shows "on_input i s' c2 = Inl (Account Bad_sequence)"
proof (cases "in_unbonded i")
  case True
  with assms obtain l where
    l: "ledger_debit (unbonded s) (in_address i) (int (in_amount i)) (in_sequence i) (in_authorized i) = Inr l"
    and s': "s' = s\<lparr>unbonded := l\<rparr>"
    by (auto simp: on_input_Inr withdraw_unbonded_Inr)
  from ledger_debit_replay [OF l] True show ?thesis
    by (simp add: on_input_def withdraw_unbonded_def s')
next
  case False
  with assms have b: "in_bonded i"
    and w: "\<exists>q. withdraw_bonded i s c = Inr (s', c', q)"
    by (auto simp: on_input_Inr)
  define k where "k = to_lower (in_validatorPubkey i)"
  from w obtain p sh l where p: "bonded s k = Some p"
    and sh: "unbond_shares p (in_amount i) = Some sh"
    and l: "ledger_debit (accounts p) (in_address i) sh (in_sequence i) (in_authorized i) = Inr l"
    and s': "s' = s\<lparr>bonded := (bonded s)(k \<mapsto> p\<lparr>accounts := l\<rparr>)\<rparr>"
    unfolding k_def by (auto simp: withdraw_bonded_Inr)
  have sh': "unbond_shares (p\<lparr>accounts := l\<rparr>) (in_amount i) = Some sh"
    using sh by (auto simp: unbond_shares_def shares_per_coin_def split: if_splits)
  from ledger_debit_replay [OF l] False b sh' show ?thesis
    by (simp add: on_input_def withdraw_bonded_def s' k_def [symmetric] Let_def)
qed

theorem input_replay_rejected_witness:
  "on_input \<lparr>in_unbonded = False, in_bonded = True, in_validatorPubkey = ''v'',
             in_amount = 4, in_address = ''alice'', in_type = ''ed25519'', in_sequence = 0,
             in_authorized = True\<rparr>
     \<lparr>bonded = [''v'' \<mapsto> \<lparr>balance = 10, shares = 10,
                 accounts = [''alice'' \<mapsto> \<lparr>acct_balance = 10, acct_sequence = 0\<rparr>]\<rparr>],
      unbonding = [], unbonded = Map.empty\<rparr>
     \<lparr>height = 0, validators = [''v'' \<mapsto> Num 10]\<rparr> =
   Inr (\<lparr>bonded = [''v'' \<mapsto> \<lparr>balance = 10, shares = 10,
                 accounts = [''alice'' \<mapsto> \<lparr>acct_balance = 6, acct_sequence = 1\<rparr>]\<rparr>],
      unbonding = [], unbonded = Map.empty\<rparr>,
      \<lparr>height = 0, validators = [''v'' \<mapsto> Num 6]\<rparr>,
      Some \<lparr>req_type = ''ed25519'', req_amount = 4, req_address = ''alice'', req_validatorPubkey = ''v''\<rparr>) \<and>
   on_input \<lparr>in_unbonded = False, in_bonded = True, in_validatorPubkey = ''v'',
             in_amount = 4, in_address = ''alice'', in_type = ''ed25519'', in_sequence = 0,
             in_authorized = True\<rparr>
     \<lparr>bonded = [''v'' \<mapsto> \<lparr>balance = 10, shares = 10,
                 accounts = [''alice'' \<mapsto> \<lparr>acct_balance = 6, acct_sequence = 1\<rparr>]\<rparr>],
      unbonding = [], unbonded = Map.empty\<rparr>
     \<lparr>height = 0, validators = [''v'' \<mapsto> Num 6]\<rparr> = Inl (Account Bad_sequence)"
proof -
  have low: "to_lower ''v'' = ''v''"
    by code_simp
  have run: "on_input \<lparr>in_unbonded = False, in_bonded = True, in_validatorPubkey = ''v'',
             in_amount = 4, in_address = ''alice'', in_type = ''ed25519'', in_sequence = 0,
             in_authorized = True\<rparr>
     \<lparr>bonded = [''v'' \<mapsto> \<lparr>balance = 10, shares = 10,
                 accounts = [''alice'' \<mapsto> \<lparr>acct_balance = 10, acct_sequence = 0\<rparr>]\<rparr>],
      unbonding = [], unbonded = Map.empty\<rparr>
     \<lparr>height = 0, validators = [''v'' \<mapsto> Num 10]\<rparr> =
   Inr (\<lparr>bonded = [''v'' \<mapsto> \<lparr>balance = 10, shares = 10,
                 accounts = [''alice'' \<mapsto> \<lparr>acct_balance = 6, acct_sequence = 1\<rparr>]\<rparr>],
      unbonding = [], unbonded = Map.empty\<rparr>,
      \<lparr>height = 0, validators = [''v'' \<mapsto> Num 6]\<rparr>,
      Some \<lparr>req_type = ''ed25519'', req_amount = 4, req_address = ''alice'', req_validatorPubkey = ''v''\<rparr>)"
    by (simp add: on_input_def withdraw_bonded_def low Let_def unbond_shares_def shares_per_coin_def
                  to_shares_def ledger_debit_def sub_voting_power_def requirement_of_def)
  show ?thesis
    using run input_replay_rejected [OF run] by simp
qed

text \<open>Line 56 stores \<open>NaN\<close> when the table has no entry for the
  validator, and line 119 reads \<open>NaN || 0\<close> as zero: a withdrawal from a
  bonded validator missing from the table leaves \<open>NaN\<close> there, and the next
  bond sets the entry to the bonded amount alone, not to the pool's balance.\<close>

theorem voting_nan_reset:
  "on_input \<lparr>in_unbonded = False, in_bonded = True, in_validatorPubkey = ''v'',
             in_amount = 4, in_address = ''alice'', in_type = ''ed25519'', in_sequence = 0,
             in_authorized = True\<rparr>
     \<lparr>bonded = [''v'' \<mapsto> \<lparr>balance = 10, shares = 10,
                 accounts = [''alice'' \<mapsto> \<lparr>acct_balance = 10, acct_sequence = 0\<rparr>]\<rparr>],
      unbonding = [], unbonded = Map.empty\<rparr>
     \<lparr>height = 0, validators = Map.empty\<rparr> =
   Inr (\<lparr>bonded = [''v'' \<mapsto> \<lparr>balance = 10, shares = 10,
                 accounts = [''alice'' \<mapsto> \<lparr>acct_balance = 6, acct_sequence = 1\<rparr>]\<rparr>],
      unbonding = [], unbonded = Map.empty\<rparr>,
      \<lparr>height = 0, validators = [''v'' \<mapsto> NaN]\<rparr>,
      Some \<lparr>req_type = ''ed25519'', req_amount = 4, req_address = ''alice'', req_validatorPubkey = ''v''\<rparr>) \<and>
   on_output 10 \<lparr>out_unbond = False, out_bond = True, out_validatorPubkey = ''v'',
             out_amount = 5, out_address = ''bob'', out_type = ''ed25519''\<rparr>
     \<lparr>bonded = [''v'' \<mapsto> \<lparr>balance = 10, shares = 10,
                 accounts = [''alice'' \<mapsto> \<lparr>acct_balance = 6, acct_sequence = 1\<rparr>]\<rparr>],
      unbonding = [], unbonded = Map.empty\<rparr>
     \<lparr>height = 0, validators = [''v'' \<mapsto> NaN]\<rparr> =
   Inr (\<lparr>bonded = [''v'' \<mapsto> \<lparr>balance = 15, shares = 15,
                 accounts = [''alice'' \<mapsto> \<lparr>acct_balance = 6, acct_sequence = 1\<rparr>,
                             ''bob'' \<mapsto> \<lparr>acct_balance = 5, acct_sequence = 0\<rparr>]\<rparr>],
      unbonding = [], unbonded = Map.empty\<rparr>,
      \<lparr>height = 0, validators = [''v'' \<mapsto> Num 5]\<rparr>)"
proof -
  have low: "to_lower ''v'' = ''v''"
    by code_simp
  show ?thesis
    by (simp add: on_input_def withdraw_bonded_def low Let_def unbond_shares_def
        shares_per_coin_def to_shares_def ledger_debit_def sub_voting_power_def requirement_of_def
        on_output_def bond_output_def bond_pool_def bond_shares_per_coin_def ledger_credit_def
        add_voting_power_def num_or_zero_def)
qed

end
