(* ===== verification/Unbonding.thy ===== *)
theory Unbonding
  imports Handlers
begin

text \<open>
  The end-of-block entry point \<open>onBlock\<close> (lines 133--158 of
  \<open>src/index.js\<close>): the \<open>while\<close> loop that pops matured entries off the head
  of the unbonding queue, settles each against its validator's pool at the
  pool's current ratio and credits the coins to the destination in the
  unbonded ledger. The loop is structural recursion on the queue, so it always
  ends. The lemmas show that draining equals settling the matured prefix of
  the queue and keeping the rest in order, that on a queue sorted by maturity
  this prefix is exactly the set of matured entries, and that the pool lookup
  uses the entry's key as the output wrote it.
\<close>

section \<open>Settling one entry and draining the queue\<close>

definition matured :: "nat \<Rightarrow> unbonding_entry \<Rightarrow> bool" where
  "matured h e \<longleftrightarrow> ue_height e \<le> h"

text \<open>Lines 139--156: look the pool up by the entry's key as stored (line
  140 does not lower-case it), settle the shares and credit the coins.\<close>

definition settle_entry ::
  "(key \<rightharpoonup> pool) \<Rightarrow> ledger \<Rightarrow> unbonding_entry \<Rightarrow> error + ((key \<rightharpoonup> pool) \<times> ledger)" where
  "settle_entry bs ub e =
     (case bs (ue_validatorPubkey e) of
        None \<Rightarrow> Inl (No_staking_state (ue_validatorPubkey e))
      | Some p \<Rightarrow>
          (case settle_pool p (ue_shares e) of
             None \<Rightarrow> Inl Non_finite_amount
           | Some (coins, p') \<Rightarrow>
               Inr (bs(ue_validatorPubkey e \<mapsto> p'), ledger_credit ub (ue_address e) coins)))"

text \<open>Line 135: \<open>while (unbonding[0] != null && unbonding[0].height <= chain.height)\<close>.\<close>

fun drain ::
  "nat \<Rightarrow> (key \<rightharpoonup> pool) \<Rightarrow> ledger \<Rightarrow> unbonding_entry list \<Rightarrow>
     error + ((key \<rightharpoonup> pool) \<times> ledger \<times> unbonding_entry list)" where
  "drain h bs ub [] = Inr (bs, ub, [])"
| "drain h bs ub (e # q) =
     (if ue_height e \<le> h then
        (case settle_entry bs ub e of
           Inl err \<Rightarrow> Inl err
         | Inr (bs', ub') \<Rightarrow> drain h bs' ub' q)
      else Inr (bs, ub, e # q))"

definition on_block :: "state \<Rightarrow> chain \<Rightarrow> error + state" where
  "on_block s c =
     (case drain (height c) (bonded s) (unbonded s) (unbonding s) of
        Inl err \<Rightarrow> Inl err
      | Inr (bs, ub, q) \<Rightarrow> Inr (s\<lparr>bonded := bs, unbonding := q, unbonded := ub\<rparr>))"

text \<open>The reference: settle every entry of a list in order, with no height
  test.\<close>

fun settle_all ::
  "(key \<rightharpoonup> pool) \<Rightarrow> ledger \<Rightarrow> unbonding_entry list \<Rightarrow> error + ((key \<rightharpoonup> pool) \<times> ledger)" where
  "settle_all bs ub [] = Inr (bs, ub)"
| "settle_all bs ub (e # q) =
     (case settle_entry bs ub e of
        Inl err \<Rightarrow> Inl err
      | Inr (bs', ub') \<Rightarrow> settle_all bs' ub' q)"

section \<open>Lemmas\<close>

text \<open>On a queue sorted by maturity the matured prefix is the set of matured
  entries and the rest the set of immature ones.\<close>

lemma sorted_takeWhile_matured:
  assumes "sorted (map ue_height q)"
  shows "takeWhile (matured h) q = filter (matured h) q \<and>
         dropWhile (matured h) q = filter (\<lambda>e. \<not> matured h e) q"
  using assms
proof (induction q)
  case Nil
  then show ?case by simp
next
  case (Cons e q)
  show ?case
  proof (cases "matured h e")
    case True
    with Cons show ?thesis by simp
  next
    case False
    with Cons.prems have "\<forall>x\<in>set q. \<not> matured h x"
      by (auto simp: matured_def)
    with False show ?thesis
      by (simp add: filter_id_conv filter_False)
  qed
qed

lemma drain_prefix:
  "drain h bs ub q =
     (case settle_all bs ub (takeWhile (matured h) q) of
        Inl err \<Rightarrow> Inl err
      | Inr (bs', ub') \<Rightarrow> Inr (bs', ub', dropWhile (matured h) q))"
proof (induction q arbitrary: bs ub)
  case Nil
  then show ?case by simp
next
  case (Cons e q)
  then show ?case
    by (auto simp: matured_def split: sum.splits)
qed

lemma takeWhile_dropWhile_same: "takeWhile P (dropWhile P xs) = []"
  by (induction xs) auto

section \<open>Properties\<close>

text \<open>C32. Draining is settling the matured prefix: \<open>onBlock\<close>'s loop settles,
  in queue order, exactly the entries before the first one that has not
  matured, and leaves that entry and everything after it in place and in
  order; an error in any settlement aborts the block and nothing of it is
  kept.\<close>

theorem on_block_settles_prefix:
  "on_block s c =
     (case settle_all (bonded s) (unbonded s) (takeWhile (matured (height c)) (unbonding s)) of
        Inl err \<Rightarrow> Inl err
      | Inr (bs, ub) \<Rightarrow>
          Inr (s\<lparr>bonded := bs, unbonding := dropWhile (matured (height c)) (unbonding s),
                 unbonded := ub\<rparr>))"
  by (simp add: on_block_def drain_prefix split: sum.splits)

text \<open>On a queue sorted by maturity height, the order the unbonding
  queue keeps when the period is constant, one \<open>onBlock\<close> at height \<open>h\<close> pays
  out all and only the entries with maturity at most \<open>h\<close>, in queue order, and
  leaves the others in order.\<close>

theorem on_block_sorted:
  assumes "sorted (map ue_height (unbonding s))"
  shows "on_block s c =
     (case settle_all (bonded s) (unbonded s) (filter (matured (height c)) (unbonding s)) of
        Inl err \<Rightarrow> Inl err
      | Inr (bs, ub) \<Rightarrow>
          Inr (s\<lparr>bonded := bs, unbonding := filter (\<lambda>e. \<not> matured (height c) e) (unbonding s),
                 unbonded := ub\<rparr>))"
  using sorted_takeWhile_matured [OF assms, of "height c"]
  by (simp add: on_block_def drain_prefix split: sum.splits)

theorem on_block_sorted_witness:
  "sorted (map ue_height [\<lparr>ue_type = ''ed25519'', ue_address = ''alice'', ue_validatorPubkey = ''v'',
                           ue_height = 10, ue_shares = 4\<rparr>,
                          \<lparr>ue_type = ''ed25519'', ue_address = ''bob'', ue_validatorPubkey = ''v'',
                           ue_height = 20, ue_shares = 3\<rparr>]) \<and>
   on_block \<lparr>bonded = [''v'' \<mapsto> \<lparr>balance = 10, shares = 10, accounts = Map.empty\<rparr>],
             unbonding = [\<lparr>ue_type = ''ed25519'', ue_address = ''alice'', ue_validatorPubkey = ''v'',
                           ue_height = 10, ue_shares = 4\<rparr>,
                          \<lparr>ue_type = ''ed25519'', ue_address = ''bob'', ue_validatorPubkey = ''v'',
                           ue_height = 20, ue_shares = 3\<rparr>],
             unbonded = Map.empty\<rparr> \<lparr>height = 15, validators = Map.empty\<rparr> =
   Inr \<lparr>bonded = [''v'' \<mapsto> \<lparr>balance = 6, shares = 6, accounts = Map.empty\<rparr>],
        unbonding = [\<lparr>ue_type = ''ed25519'', ue_address = ''bob'', ue_validatorPubkey = ''v'',
                      ue_height = 20, ue_shares = 3\<rparr>],
        unbonded = [''alice'' \<mapsto> \<lparr>acct_balance = 4, acct_sequence = 0\<rparr>]\<rparr>"
  using on_block_sorted
          [of "\<lparr>bonded = [''v'' \<mapsto> \<lparr>balance = 10, shares = 10, accounts = Map.empty\<rparr>],
             unbonding = [\<lparr>ue_type = ''ed25519'', ue_address = ''alice'', ue_validatorPubkey = ''v'',
                           ue_height = 10, ue_shares = 4\<rparr>,
                          \<lparr>ue_type = ''ed25519'', ue_address = ''bob'', ue_validatorPubkey = ''v'',
                           ue_height = 20, ue_shares = 3\<rparr>],
             unbonded = Map.empty\<rparr>" "\<lparr>height = 15, validators = Map.empty\<rparr>"]
  by (simp add: matured_def settle_entry_def settle_pool_def coins_per_share_def to_coins_def
                ledger_credit_def scale_def)

text \<open>C33. The unbond output looks its pool up under the lower-cased key
  (line 78) but stores the key as written (lines 88--91), and \<open>onBlock\<close> looks
  it up as stored (line 139). An unbond output naming an existing validator in
  upper case is accepted, and the block in which it matures fails with the
  "no staking state" error, which spec section 7 classes as fatal.\<close>

theorem unbond_key_case_mismatch:
  "on_output 10 \<lparr>out_unbond = True, out_bond = False, out_validatorPubkey = ''V'',
                 out_amount = 4, out_address = ''alice'', out_type = ''ed25519''\<rparr>
     \<lparr>bonded = [''v'' \<mapsto> \<lparr>balance = 10, shares = 10, accounts = Map.empty\<rparr>],
      unbonding = [], unbonded = Map.empty\<rparr> \<lparr>height = 0, validators = Map.empty\<rparr> =
   Inr (\<lparr>bonded = [''v'' \<mapsto> \<lparr>balance = 10, shares = 10, accounts = Map.empty\<rparr>],
         unbonding = [\<lparr>ue_type = ''ed25519'', ue_address = ''alice'', ue_validatorPubkey = ''V'',
                       ue_height = 10, ue_shares = 4\<rparr>],
         unbonded = Map.empty\<rparr>, \<lparr>height = 0, validators = Map.empty\<rparr>) \<and>
   on_block \<lparr>bonded = [''v'' \<mapsto> \<lparr>balance = 10, shares = 10, accounts = Map.empty\<rparr>],
         unbonding = [\<lparr>ue_type = ''ed25519'', ue_address = ''alice'', ue_validatorPubkey = ''V'',
                       ue_height = 10, ue_shares = 4\<rparr>],
         unbonded = Map.empty\<rparr> \<lparr>height = 10, validators = Map.empty\<rparr> =
   Inl (No_staking_state ''V'')"
proof -
  have low: "to_lower ''V'' = ''v''"
    by code_simp
  show ?thesis
    by (simp add: on_output_def unbond_output_def low Let_def unbond_shares_def
                  shares_per_coin_def to_shares_def new_entry_def on_block_def settle_entry_def)
qed

text \<open>One end-of-block pass at a given height leaves nothing for a
  second pass at the same height: the loop stops at the first entry that has
  not matured, so running \<open>onBlock\<close> again changes nothing.\<close>

theorem on_block_idempotent:
  assumes "on_block s c = Inr s'"
  shows "on_block s' c = Inr s'"
proof -
  from assms obtain bs ub where
    "settle_all (bonded s) (unbonded s) (takeWhile (matured (height c)) (unbonding s)) = Inr (bs, ub)"
    and s': "s' = s\<lparr>bonded := bs, unbonding := dropWhile (matured (height c)) (unbonding s),
                     unbonded := ub\<rparr>"
    by (auto simp: on_block_def drain_prefix split: sum.splits)
  then show ?thesis
    by (simp add: on_block_def drain_prefix takeWhile_dropWhile_same)
qed

end
