(* ===== verification/Transaction.thy ===== *)
theory Transaction
  imports Unbonding "HOL-Library.Multiset"
begin

text \<open>
  The transaction pass of the host (spec sections 2 and 6), which is not in
  \<open>src/index.js\<close> but in the \<open>coins\<close> package: every input of a transaction
  goes through \<open>onInput\<close>, then every output through \<open>onOutput\<close>, then each
  pattern passed to \<open>tx.mustHaveOutput\<close> must match some output of the
  transaction, otherwise the transaction is rejected. The first error rejects
  the whole transaction and nothing of it is kept (spec section 7). The theory
  also names a transaction whose bonded withdrawals and unbond outputs pair up
  one to one (\<open>paired_tx\<close>); the checker only demands that each withdrawal has
  some matching output, not the converse.
\<close>

section \<open>Transactions\<close>

record tx =
  tx_inputs :: "tx_input list"
  tx_outputs :: "tx_output list"

fun run_inputs ::
  "tx_input list \<Rightarrow> state \<Rightarrow> chain \<Rightarrow> error + (state \<times> chain \<times> requirement list)" where
  "run_inputs [] s c = Inr (s, c, [])"
| "run_inputs (i # ins) s c =
     (case on_input i s c of
        Inl err \<Rightarrow> Inl err
      | Inr (s', c', r) \<Rightarrow>
          (case run_inputs ins s' c' of
             Inl err \<Rightarrow> Inl err
           | Inr (s'', c'', rs) \<Rightarrow> Inr (s'', c'', (case r of None \<Rightarrow> rs | Some q \<Rightarrow> q # rs))))"

fun run_outputs ::
  "nat \<Rightarrow> tx_output list \<Rightarrow> state \<Rightarrow> chain \<Rightarrow> error + (state \<times> chain)" where
  "run_outputs period [] s c = Inr (s, c)"
| "run_outputs period (out # outs) s c =
     (case on_output period out s c of
        Inl err \<Rightarrow> Inl err
      | Inr (s', c') \<Rightarrow> run_outputs period outs s' c')"

text \<open>The pattern \<open>{type, amount, address, validatorPubkey, unbond: true}\<close>
  matches an output that agrees on every field it names.\<close>

definition output_matches :: "requirement \<Rightarrow> tx_output \<Rightarrow> bool" where
  "output_matches r out \<longleftrightarrow>
     out_type out = req_type r \<and> out_amount out = req_amount r \<and>
     out_address out = req_address r \<and> out_validatorPubkey out = req_validatorPubkey r \<and>
     out_unbond out"

definition process_tx :: "nat \<Rightarrow> tx \<Rightarrow> state \<Rightarrow> chain \<Rightarrow> error + (state \<times> chain)" where
  "process_tx period t s c =
     (case run_inputs (tx_inputs t) s c of
        Inl err \<Rightarrow> Inl err
      | Inr (s1, c1, rs) \<Rightarrow>
          (case run_outputs period (tx_outputs t) s1 c1 of
             Inl err \<Rightarrow> Inl err
           | Inr (s2, c2) \<Rightarrow>
               (case filter (\<lambda>r. \<not> list_ex (output_matches r) (tx_outputs t)) rs of
                  [] \<Rightarrow> Inr (s2, c2)
                | r # _ \<Rightarrow> Inl (Missing_output r))))"

section \<open>Paired transactions\<close>

text \<open>The requirement a bonded withdrawal raises, and the pattern an unbond
  output offers; both are read off the objects without the state.\<close>

definition input_req :: "tx_input \<Rightarrow> requirement option" where
  "input_req i =
     (if in_unbonded i then None
      else if in_bonded i then Some (requirement_of i (to_lower (in_validatorPubkey i)))
      else None)"

definition output_req :: "tx_output \<Rightarrow> requirement option" where
  "output_req out =
     (if out_unbond out then
        Some \<lparr>req_type = out_type out, req_amount = out_amount out,
              req_address = out_address out, req_validatorPubkey = out_validatorPubkey out\<rparr>
      else None)"

definition paired_tx :: "tx \<Rightarrow> bool" where
  "paired_tx t \<longleftrightarrow>
     mset (List.map_filter input_req (tx_inputs t)) = mset (List.map_filter output_req (tx_outputs t))"

section \<open>Lemmas\<close>

lemma output_req_mem:
  "out \<in> set outs \<Longrightarrow> out_unbond out \<Longrightarrow>
     \<lparr>req_type = out_type out, req_amount = out_amount out, req_address = out_address out,
      req_validatorPubkey = out_validatorPubkey out\<rparr> \<in> set (List.map_filter output_req outs)"
  by (induction outs) (auto simp: output_req_def)

lemma input_req_type:
  "r \<in> set (List.map_filter input_req ins) \<Longrightarrow> \<exists>i\<in>set ins. in_type i = req_type r"
  by (induction ins) (auto simp: input_req_def requirement_of_def split: if_splits)

lemma run_inputs_reqs:
  "run_inputs ins s c = Inr (s', c', rs) \<Longrightarrow> rs = List.map_filter input_req ins"
proof (induction ins arbitrary: s c rs)
  case Nil
  then show ?case by (simp add: map_filter_simps)
next
  case (Cons i ins)
  then obtain s1 c1 r rs' where i: "on_input i s c = Inr (s1, c1, r)"
    and rest: "run_inputs ins s1 c1 = Inr (s', c', rs')"
    and rs: "rs = (case r of None \<Rightarrow> rs' | Some q \<Rightarrow> q # rs')"
    by (auto split: sum.splits)
  from i have "r = input_req i"
    by (auto simp: on_input_Inr input_req_def withdraw_bonded_Inr)
  with Cons.IH [OF rest] rs show ?case
    by (simp add: map_filter_simps split: option.splits)
qed

end
