(* ===== verification/Invariants.thy ===== *)
theory Invariants
  imports Transaction
begin

text \<open>
  The invariant of the staking state over every run the host can produce
  from \<open>initialState\<close> with paired transactions and end-of-block passes at
  non-decreasing heights. For every pool: it is 1:1 (balance equals shares);
  its shares are the delegators' shares plus the shares the queue still owes
  to it; the voting power of its key is the genesis power plus the delegators'
  shares, that is, the balance minus what is pending; its key is lower-case.
  Every queue entry names an existing pool, holds non-negative shares and
  matures no later than one period ahead, and the queue is sorted by maturity.
  Inside a transaction the invariant holds up to a debt per key: the shares
  withdrawn by bonded inputs whose unbond outputs have not run yet.
\<close>

section \<open>The invariant\<close>

definition base :: "(key \<rightharpoonup> jsnum) \<Rightarrow> key \<Rightarrow> int" where
  "base g k = num_or_zero (g k)"

text \<open>The shares the queue owes to the pool of \<open>k\<close>.\<close>

definition pending :: "unbonding_entry list \<Rightarrow> key \<Rightarrow> int" where
  "pending q k = sum_list (map ue_shares (filter (\<lambda>e. ue_validatorPubkey e = k) q))"

definition inv_debt ::
  "nat \<Rightarrow> (key \<rightharpoonup> jsnum) \<Rightarrow> (key \<Rightarrow> int) \<Rightarrow> state \<Rightarrow> chain \<Rightarrow> bool" where
  "inv_debt period g d s c \<longleftrightarrow>
     (\<forall>k p. bonded s k = Some p \<longrightarrow>
        unit_pool p \<and> ledger_wf (accounts p) \<and> to_lower k = k \<and>
        shares p = ledger_total (accounts p) + pending (unbonding s) k + d k \<and>
        validators c k = Some (Num (base g k + ledger_total (accounts p)))) \<and>
     (\<forall>k. bonded s k = None \<longrightarrow> validators c k = g k \<and> d k = 0) \<and>
     (\<forall>e\<in>set (unbonding s). bonded s (ue_validatorPubkey e) \<noteq> None \<and> 0 \<le> ue_shares e \<and>
        ue_height e \<le> height c + period) \<and>
     sorted (map ue_height (unbonding s)) \<and> ledger_wf (unbonded s)"

definition staking_inv :: "nat \<Rightarrow> (key \<rightharpoonup> jsnum) \<Rightarrow> state \<Rightarrow> chain \<Rightarrow> bool" where
  "staking_inv period g s c \<longleftrightarrow> inv_debt period g (\<lambda>_. 0) s c"

text \<open>The debt a bonded withdrawal raises and an unbond output pays.\<close>

definition req_debt :: "requirement option \<Rightarrow> key \<Rightarrow> int" where
  "req_debt r k =
     (case r of None \<Rightarrow> 0 | Some q \<Rightarrow> if req_validatorPubkey q = k then int (req_amount q) else 0)"

definition out_debt :: "tx_output \<Rightarrow> key \<Rightarrow> int" where
  "out_debt out k =
     (if out_unbond out \<and> out_validatorPubkey out = k then int (out_amount out) else 0)"

text \<open>The debts of a list of requirements and of a list of outputs.\<close>

definition reqs_debt :: "requirement list \<Rightarrow> key \<Rightarrow> int" where
  "reqs_debt rs k = sum_list (map (\<lambda>q. req_debt (Some q) k) rs)"

definition outs_debt :: "tx_output list \<Rightarrow> key \<Rightarrow> int" where
  "outs_debt outs k = sum_list (map (\<lambda>out. out_debt out k) outs)"

text \<open>The host's steps: a paired transaction, or an end-of-block pass at a
  height no lower than the last one.\<close>

inductive step :: "nat \<Rightarrow> state \<times> chain \<Rightarrow> state \<times> chain \<Rightarrow> bool" for period where
  tx_step: "paired_tx t \<Longrightarrow> process_tx period t s c = Inr (s', c') \<Longrightarrow>
    step period (s, c) (s', c')"
| block_step: "height c \<le> h \<Longrightarrow> on_block s (c\<lparr>height := h\<rparr>) = Inr s' \<Longrightarrow>
    step period (s, c) (s', c\<lparr>height := h\<rparr>)"

inductive reachable :: "nat \<Rightarrow> chain \<Rightarrow> state \<times> chain \<Rightarrow> bool" for period c0 where
  init: "reachable period c0 (initialState, c0)"
| run: "reachable period c0 sc \<Longrightarrow> step period sc sc' \<Longrightarrow> reachable period c0 sc'"

inductive_cases step_cases: "step period (s, c) (s', c')"

section \<open>Helper lemmas\<close>

lemma state_unbonding_self: "unbonding s = q \<Longrightarrow> s\<lparr>unbonding := q\<rparr> = s"
  by auto

lemma pending_append [simp]:
  "pending (q @ [e]) k = pending q k + (if ue_validatorPubkey e = k then ue_shares e else 0)"
  by (simp add: pending_def)

lemma pending_Cons [simp]:
  "pending (e # q) k = (if ue_validatorPubkey e = k then ue_shares e else 0) + pending q k"
  by (simp add: pending_def)

lemma pending_nonneg: "\<forall>e\<in>set q. 0 \<le> ue_shares e \<Longrightarrow> 0 \<le> pending q k"
  unfolding pending_def by (rule sum_list_nonneg) auto

lemma pending_no_entry: "\<forall>e\<in>set q. ue_validatorPubkey e \<noteq> k \<Longrightarrow> pending q k = 0"
  by (simp add: pending_def)

text \<open>A pool in an invariant state with a positive balance converts 1:1; a
  withdrawal that gets past the ratio therefore redeems its amount.\<close>

lemma inv_unbond_shares:
  assumes "unit_pool p" and "unbond_shares p a = Some sh"
  shows "sh = int a" and "0 < balance p"
proof -
  from assms(2) have "balance p \<noteq> 0"
    by (auto simp: unbond_shares_def shares_per_coin_def split: if_splits)
  with assms(1) show "0 < balance p"
    by (simp add: unit_pool_def)
  with assms show "sh = int a"
    by (simp add: unit_pool_unbond_shares)
qed

section \<open>One input\<close>

lemma withdraw_unbonded_inv:
  assumes "inv_debt period g d s c" and "withdraw_unbonded i s = Inr s'"
  shows "inv_debt period g d s' c"
  using assms ledger_debit_wf
  by (auto simp: inv_debt_def withdraw_unbonded_Inr)

lemma withdraw_bonded_inv:
  assumes inv: "inv_debt period g d s c" and run: "withdraw_bonded i s c = Inr (s', c', q)"
  shows "inv_debt period g (\<lambda>k. d k + req_debt (Some q) k) s' c'"
proof -
  define k where "k = to_lower (in_validatorPubkey i)"
  from run obtain p sh l where p: "bonded s k = Some p"
    and sh: "unbond_shares p (in_amount i) = Some sh"
    and l: "ledger_debit (accounts p) (in_address i) sh (in_sequence i) (in_authorized i) = Inr l"
    and s': "s' = s\<lparr>bonded := (bonded s)(k \<mapsto> p\<lparr>accounts := l\<rparr>)\<rparr>"
    and c': "c' = c\<lparr>validators := sub_voting_power (validators c) k (int (in_amount i))\<rparr>"
    and q: "q = requirement_of i k"
    unfolding k_def by (auto simp: withdraw_bonded_Inr)
  from inv p have unit: "unit_pool p" and wf: "ledger_wf (accounts p)"
    and sp: "shares p = ledger_total (accounts p) + pending (unbonding s) k + d k"
    and vp: "validators c k = Some (Num (base g k + ledger_total (accounts p)))"
    by (auto simp: inv_debt_def)
  from unit sh have sha: "sh = int (in_amount i)"
    by (rule inv_unbond_shares)
  have tot: "ledger_total l = ledger_total (accounts p) - int (in_amount i)"
    using ledger_debit_total [OF l] wf sha by (simp add: ledger_wf_def)
  have wf': "ledger_wf l"
    using l wf by (rule ledger_debit_wf)
  have dq: "req_debt (Some q) k' = (if k' = k then int (in_amount i) else 0)" for k'
    by (auto simp: req_debt_def q requirement_of_def)
  show ?thesis
    using inv p unit wf' sp vp tot
    unfolding inv_debt_def s' c' dq
    by (auto simp: unit_pool_keep(3) split: if_splits)
qed

lemma on_input_inv:
  assumes "inv_debt period g d s c" and "on_input i s c = Inr (s', c', r)"
  shows "inv_debt period g (\<lambda>k. d k + req_debt r k) s' c'"
  using assms withdraw_unbonded_inv withdraw_bonded_inv
  by (auto simp: on_input_Inr req_debt_def)

section \<open>One output\<close>

lemma unbond_output_inv:
  assumes inv: "inv_debt period g d s c" and run: "unbond_output period out s c = Inr s'"
    and low: "to_lower (out_validatorPubkey out) = out_validatorPubkey out"
  shows "inv_debt period g (\<lambda>k. d k - (if out_validatorPubkey out = k then int (out_amount out) else 0)) s' c"
proof -
  define k where "k = out_validatorPubkey out"
  from run low obtain p sh where p: "bonded s k = Some p"
    and sh: "unbond_shares p (out_amount out) = Some sh"
    and s': "s' = s\<lparr>unbonding := unbonding s @ [new_entry period out c sh]\<rparr>"
    unfolding k_def by (auto simp: unbond_output_Inr)
  from inv p have "unit_pool p"
    by (simp add: inv_debt_def)
  from this sh have sha: "sh = int (out_amount out)"
    by (rule inv_unbond_shares)
  have e: "ue_validatorPubkey (new_entry period out c sh) = k"
    "ue_shares (new_entry period out c sh) = int (out_amount out)"
    "ue_height (new_entry period out c sh) = height c + period"
    by (simp_all add: new_entry_def k_def sha)
  from inv have "\<forall>x\<in>set (map ue_height (unbonding s)). x \<le> height c + period"
    by (auto simp: inv_debt_def)
  with inv have sorted': "sorted (map ue_height (unbonding s) @ [height c + period])"
    by (simp add: inv_debt_def sorted_append)
  show ?thesis
    using inv p sorted' unfolding inv_debt_def s' k_def [symmetric]
    by (auto simp: e)
qed

text \<open>The pool a bond targets, existing or created by lines 99--108, is a
  well-formed 1:1 pool.\<close>

lemma bond_target_unit:
  assumes "inv_debt period g d s c" and "p = (case bonded s k of None \<Rightarrow> new_pool | Some p \<Rightarrow> p)"
  shows "unit_pool p \<and> ledger_wf (accounts p)"
proof (cases "bonded s k")
  case None
  then show ?thesis
    using assms(2) by (simp add: new_pool_def unit_pool_def)
next
  case (Some q)
  then show ?thesis
    using assms by (simp add: inv_debt_def)
qed

lemma bond_output_inv:
  assumes inv: "inv_debt period g d s c" and run: "bond_output out s c = (s', c')"
  shows "inv_debt period g d s' c'"
proof -
  define k where "k = to_lower (out_validatorPubkey out)"
  define p where "p = (case bonded s k of None \<Rightarrow> new_pool | Some p \<Rightarrow> p)"
  define a where "a = int (out_amount out)"
  have unit: "unit_pool p" and wf: "ledger_wf (accounts p)"
    using bond_target_unit [OF inv p_def] by simp_all
  have bp: "bond_pool p (out_amount out) = (a, p\<lparr>balance := balance p + a, shares := shares p + a\<rparr>)"
    using unit by (simp add: unit_pool_bond a_def)
  define p' where "p' = p\<lparr>balance := balance p + a, shares := shares p + a,
                           accounts := ledger_credit (accounts p) (out_address out) a\<rparr>"
  from run have s': "s' = s\<lparr>bonded := (bonded s)(k \<mapsto> p')\<rparr>"
    and c': "c' = c\<lparr>validators := add_voting_power (validators c) k a\<rparr>"
    by (auto simp: bond_output_def Let_def bp p'_def k_def [symmetric] p_def [symmetric] a_def)
  have unit': "unit_pool p'" and wf': "ledger_wf (accounts p')"
    using unit wf by (auto simp: p'_def a_def unit_pool_def ledger_credit_wf)
  have tot: "ledger_total (accounts p') = ledger_total (accounts p) + a"
    using wf by (simp add: p'_def ledger_credit_total ledger_wf_def)
  have key: "shares p' = ledger_total (accounts p') + pending (unbonding s) k + d k \<and>
             validators c' k = Some (Num (base g k + ledger_total (accounts p')))"
  proof (cases "bonded s k")
    case None
    with inv have "validators c k = g k" "d k = 0"
      and "\<forall>e\<in>set (unbonding s). ue_validatorPubkey e \<noteq> k"
      by (auto simp: inv_debt_def)
    then show ?thesis
      using None tot by (simp add: p'_def p_def c' new_pool_def ledger_total_def pending_no_entry
                                   base_def)
  next
    case (Some q)
    with inv have "shares q = ledger_total (accounts q) + pending (unbonding s) k + d k"
      "validators c k = Some (Num (base g k + ledger_total (accounts q)))"
      by (auto simp: inv_debt_def)
    then show ?thesis
      using Some tot by (simp add: p'_def p_def c')
  qed
  show ?thesis
    using inv unit' wf' key unfolding inv_debt_def s' c'
    by (auto simp: k_def)
qed

lemma on_output_inv:
  assumes "inv_debt period g d s c" and "on_output period out s c = Inr (s', c')"
    and "out_unbond out \<Longrightarrow> to_lower (out_validatorPubkey out) = out_validatorPubkey out"
  shows "inv_debt period g (\<lambda>k. d k - out_debt out k) s' c'"
  using assms unbond_output_inv [of period g d s c out s'] bond_output_inv [of period g d s c out s' c']
  by (auto simp: on_output_Inr out_debt_def)

section \<open>Transactions\<close>

lemma run_inputs_inv:
  "inv_debt period g d s c \<Longrightarrow> run_inputs ins s c = Inr (s', c', rs) \<Longrightarrow>
     inv_debt period g (\<lambda>k. d k + reqs_debt rs k) s' c'"
proof (induction ins arbitrary: d s c rs)
  case Nil
  then show ?case by (simp add: reqs_debt_def)
next
  case (Cons i ins)
  then obtain s1 c1 r rs' where i: "on_input i s c = Inr (s1, c1, r)"
    and rest: "run_inputs ins s1 c1 = Inr (s', c', rs')"
    and rs: "rs = (case r of None \<Rightarrow> rs' | Some q \<Rightarrow> q # rs')"
    by (auto split: sum.splits)
  from Cons.prems(1) i have "inv_debt period g (\<lambda>k. d k + req_debt r k) s1 c1"
    by (rule on_input_inv)
  from Cons.IH [OF this rest]
  have "inv_debt period g (\<lambda>k. d k + req_debt r k + reqs_debt rs' k) s' c'" .
  moreover have "(\<lambda>k. d k + req_debt r k + reqs_debt rs' k) = (\<lambda>k. d k + reqs_debt rs k)"
    by (auto simp: rs reqs_debt_def req_debt_def split: option.splits)
  ultimately show ?case by simp
qed

lemma run_outputs_inv:
  "inv_debt period g d s c \<Longrightarrow> run_outputs period outs s c = Inr (s', c') \<Longrightarrow>
     (\<forall>out\<in>set outs. out_unbond out \<longrightarrow> to_lower (out_validatorPubkey out) = out_validatorPubkey out) \<Longrightarrow>
     inv_debt period g (\<lambda>k. d k - outs_debt outs k) s' c'"
proof (induction outs arbitrary: d s c)
  case Nil
  then show ?case by (simp add: outs_debt_def)
next
  case (Cons out outs)
  then obtain s1 c1 where o: "on_output period out s c = Inr (s1, c1)"
    and rest: "run_outputs period outs s1 c1 = Inr (s', c')"
    by (auto split: sum.splits)
  from Cons.prems(1) o Cons.prems(3) have "inv_debt period g (\<lambda>k. d k - out_debt out k) s1 c1"
    by (intro on_output_inv) auto
  from Cons.IH [OF this rest] Cons.prems(3)
  have "inv_debt period g (\<lambda>k. d k - out_debt out k - outs_debt outs k) s' c'"
    by simp
  moreover have "(\<lambda>k. d k - out_debt out k - outs_debt outs k) = (\<lambda>k. d k - outs_debt (out # outs) k)"
    by (auto simp: outs_debt_def)
  ultimately show ?case by simp
qed

text \<open>In a paired transaction the debts the inputs raise are exactly the debts
  the unbond outputs pay, and every unbond output names a lower-case key.\<close>

lemma sum_list_map_mset_eq:
  fixes f :: "'a \<Rightarrow> int"
  assumes "mset xs = mset ys"
  shows "sum_list (map f xs) = sum_list (map f ys)"
proof -
  from assms have "mset (map f xs) = mset (map f ys)" by simp
  then have "sum_mset (mset (map f xs)) = sum_mset (mset (map f ys))" by simp
  then show ?thesis by (simp only: sum_mset_sum_list)
qed

lemma outs_debt_map_filter:
  "sum_list (map (\<lambda>q. req_debt (Some q) k) (List.map_filter output_req outs)) = outs_debt outs k"
  by (induction outs) (auto simp: outs_debt_def out_debt_def output_req_def req_debt_def)

lemma input_req_lower:
  "r \<in> set (List.map_filter input_req ins) \<Longrightarrow> to_lower (req_validatorPubkey r) = req_validatorPubkey r"
  by (induction ins) (auto simp: input_req_def requirement_of_def split: if_splits)

lemma paired_tx_balanced:
  assumes "paired_tx t"
  shows "reqs_debt (List.map_filter input_req (tx_inputs t)) k = outs_debt (tx_outputs t) k"
    and "\<forall>out\<in>set (tx_outputs t). out_unbond out \<longrightarrow>
           to_lower (out_validatorPubkey out) = out_validatorPubkey out"
proof -
  from assms have m: "mset (List.map_filter input_req (tx_inputs t)) =
                      mset (List.map_filter output_req (tx_outputs t))"
    by (simp add: paired_tx_def)
  show "reqs_debt (List.map_filter input_req (tx_inputs t)) k = outs_debt (tx_outputs t) k"
    unfolding reqs_debt_def sum_list_map_mset_eq [OF m] by (rule outs_debt_map_filter)
  show "\<forall>out\<in>set (tx_outputs t). out_unbond out \<longrightarrow>
           to_lower (out_validatorPubkey out) = out_validatorPubkey out"
  proof (intro ballI impI)
    fix out
    assume "out \<in> set (tx_outputs t)" "out_unbond out"
    then have "\<lparr>req_type = out_type out, req_amount = out_amount out, req_address = out_address out,
      req_validatorPubkey = out_validatorPubkey out\<rparr> \<in> set (List.map_filter input_req (tx_inputs t))"
      using output_req_mem mset_eq_setD [OF m] by blast
    from input_req_lower [OF this] show "to_lower (out_validatorPubkey out) = out_validatorPubkey out"
      by simp
  qed
qed

lemma process_tx_inv:
  assumes inv: "staking_inv period g s c" and paired: "paired_tx t"
    and run: "process_tx period t s c = Inr (s', c')"
  shows "staking_inv period g s' c'"
proof -
  from run obtain s1 c1 rs where ins: "run_inputs (tx_inputs t) s c = Inr (s1, c1, rs)"
    and outs: "run_outputs period (tx_outputs t) s1 c1 = Inr (s', c')"
    by (auto simp: process_tx_def split: sum.splits list.splits)
  from ins have rs: "rs = List.map_filter input_req (tx_inputs t)"
    by (rule run_inputs_reqs)
  from inv ins have "inv_debt period g (\<lambda>k. 0 + reqs_debt rs k) s1 c1"
    unfolding staking_inv_def by (rule run_inputs_inv)
  from run_outputs_inv [OF this outs] paired_tx_balanced (2) [OF paired]
  have "inv_debt period g (\<lambda>k. 0 + reqs_debt rs k - outs_debt (tx_outputs t) k) s' c'"
    by simp
  then show ?thesis
    using paired_tx_balanced (1) [OF paired] by (simp add: staking_inv_def rs)
qed

section \<open>End of block\<close>

lemma inv_debt_height:
  "inv_debt period g d s c \<Longrightarrow> height c \<le> h \<Longrightarrow> inv_debt period g d s (c\<lparr>height := h\<rparr>)"
  by (fastforce simp: inv_debt_def)

text \<open>Settling the head entry of an invariant state: its pool exists and is
  1:1, so settlement pays exactly the entry's shares and keeps the pool 1:1
  with a non-negative balance.\<close>

lemma settle_entry_inv:
  assumes inv: "staking_inv period g s c" and q: "unbonding s = e # q"
  shows "\<exists>bs' ub'. settle_entry (bonded s) (unbonded s) e = Inr (bs', ub') \<and>
           staking_inv period g (s\<lparr>bonded := bs', unbonding := q, unbonded := ub'\<rparr>) c"
proof -
  define k where "k = ue_validatorPubkey e"
  from inv q obtain p where p: "bonded s k = Some p"
    by (auto simp: staking_inv_def inv_debt_def k_def)
  from inv p have unit: "unit_pool p" and wf: "ledger_wf (accounts p)"
    and sp: "shares p = ledger_total (accounts p) + pending (unbonding s) k"
    by (auto simp: staking_inv_def inv_debt_def)
  from inv q have nonneg: "\<forall>x\<in>set (e # q). 0 \<le> ue_shares x"
    by (auto simp: staking_inv_def inv_debt_def)
  have "0 \<le> ledger_total (accounts p)"
    using wf by (rule ledger_total_nonneg)
  moreover have "0 \<le> pending q k"
    using nonneg by (intro pending_nonneg) simp
  ultimately have bal: "0 \<le> balance p - ue_shares e"
    using unit sp q by (simp add: unit_pool_def k_def)
  define p' where "p' = p\<lparr>shares := shares p - ue_shares e, balance := balance p - ue_shares e\<rparr>"
  have set: "settle_entry (bonded s) (unbonded s) e =
               Inr ((bonded s)(k \<mapsto> p'), ledger_credit (unbonded s) (ue_address e) (ue_shares e))"
    using p unit by (simp add: settle_entry_def unit_pool_settle p'_def k_def)
  have unit': "unit_pool p'"
    using unit bal by (simp add: p'_def unit_pool_keep)
  have ub: "ledger_wf (ledger_credit (unbonded s) (ue_address e) (ue_shares e))"
    using inv nonneg by (auto simp: staking_inv_def inv_debt_def intro: ledger_credit_wf)
  have "staking_inv period g (s\<lparr>bonded := (bonded s)(k \<mapsto> p'), unbonding := q,
          unbonded := ledger_credit (unbonded s) (ue_address e) (ue_shares e)\<rparr>) c"
    using inv q p unit' ub sp
    unfolding staking_inv_def inv_debt_def
    by (auto simp: p'_def k_def unit_pool_keep(3) split: if_splits)
  with set show ?thesis by blast
qed

lemma drain_inv:
  assumes "staking_inv period g s c" and "unbonding s = q"
  shows "\<exists>bs ub q'. drain h (bonded s) (unbonded s) q = Inr (bs, ub, q') \<and>
           staking_inv period g (s\<lparr>bonded := bs, unbonding := q', unbonded := ub\<rparr>) c"
  using assms
proof (induction q arbitrary: s)
  case Nil
  then show ?case by (simp add: state_unbonding_self)
next
  case (Cons e q)
  show ?case
  proof (cases "ue_height e \<le> h")
    case True
    from settle_entry_inv [OF Cons.prems] obtain bs' ub' where
      se: "settle_entry (bonded s) (unbonded s) e = Inr (bs', ub')"
      and inv': "staking_inv period g (s\<lparr>bonded := bs', unbonding := q, unbonded := ub'\<rparr>) c"
      by blast
    from Cons.IH [OF inv'] True se show ?thesis
      by auto
  next
    case False
    with Cons.prems show ?thesis by (simp add: state_unbonding_self)
  qed
qed

lemma on_block_inv:
  assumes "staking_inv period g s c" and "height c \<le> h"
  shows "\<exists>s'. on_block s (c\<lparr>height := h\<rparr>) = Inr s' \<and>
           staking_inv period g s' (c\<lparr>height := h\<rparr>)"
proof -
  from assms have "staking_inv period g s (c\<lparr>height := h\<rparr>)"
    by (simp add: staking_inv_def inv_debt_height)
  from drain_inv [OF this refl, of h] show ?thesis
    by (auto simp: on_block_def)
qed

section \<open>Reachable states\<close>

lemma staking_inv_init: "staking_inv period (validators c0) initialState c0"
  by (simp add: staking_inv_def inv_debt_def initialState_def)

lemma block_step_inv:
  assumes "staking_inv period g s c" and "height c \<le> h"
    and "on_block s (c\<lparr>height := h\<rparr>) = Inr s'"
  shows "staking_inv period g s' (c\<lparr>height := h\<rparr>)"
  using on_block_inv [OF assms(1,2)] assms(3) by auto

lemma step_inv:
  assumes "step period (s, c) (s', c')" and "staking_inv period g s c"
  shows "staking_inv period g s' c'"
  using assms by (auto elim!: step_cases intro: process_tx_inv block_step_inv)

lemma reachable_inv_all:
  "reachable period c0 sc \<Longrightarrow> staking_inv period (validators c0) (fst sc) (snd sc)"
proof (induction rule: reachable.induct)
  case init
  show ?case by (simp add: staking_inv_init)
next
  case (run sc sc')
  then show ?case
    by (cases sc; cases sc') (auto intro: step_inv)
qed

section \<open>Properties\<close>

text \<open>C1. The staking invariant holds in every state the host reaches from
  the initial state by paired transactions and end-of-block passes at
  non-decreasing heights: every pool is 1:1 with a lower-case key, its shares
  are the delegators' shares plus what the queue owes it, its voting power is
  the genesis power plus the delegators' shares, every queue entry names an
  existing pool, and the queue is sorted by maturity.\<close>

theorem reachable_staking_inv:
  assumes "reachable period c0 (s, c)"
  shows "staking_inv period (validators c0) s c"
  using reachable_inv_all [OF assms] by simp

text \<open>C2. Voting power in lockstep, as the code keeps it: in every reachable
  state the voting power of a bonded validator is its genesis power plus its
  pool's balance minus the shares still waiting in the unbonding queue; it
  equals the balance only when nothing is pending.\<close>

theorem voting_power_lockstep:
  assumes "reachable period c0 (s, c)" and "bonded s k = Some p"
  shows "validators c k = Some (Num (base (validators c0) k + balance p - pending (unbonding s) k))"
  using reachable_inv_all [OF assms(1), simplified] assms(2)
  by (auto simp: staking_inv_def inv_debt_def unit_pool_def)

text \<open>C3. Without external balance changes every pool of a reachable state is
  1:1 (balance equals shares, both non-negative), so the spec's invariant
  \<open>shares = 0 \<longleftrightarrow> balance = 0\<close> holds there and every conversion is exact.\<close>

theorem reachable_pool_unit:
  assumes "reachable period c0 (s, c)" and "bonded s k = Some p"
  shows "balance p = shares p \<and> 0 \<le> balance p \<and> (shares p = 0 \<longleftrightarrow> balance p = 0)"
proof -
  from reachable_inv_all [OF assms(1), simplified] assms(2) have "unit_pool p"
    by (simp add: staking_inv_def inv_debt_def)
  then show ?thesis by (simp add: unit_pool_def)
qed

text \<open>C4. In a reachable state the end-of-block pass never fails: at any
  height no lower than the current one, \<open>onBlock\<close> returns normally, so the
  fatal "no staking state" error of spec section 7 never occurs in runs of
  paired transactions.\<close>

theorem reachable_on_block_total:
  assumes "reachable period c0 (s, c)" and "height c \<le> h"
  shows "\<exists>s'. on_block s (c\<lparr>height := h\<rparr>) = Inr s'"
  using on_block_inv [OF reachable_inv_all [OF assms(1), simplified] assms(2)] by blast

text \<open>C5. In a reachable state one end-of-block pass pays out all and only the
  matured entries of the queue and leaves the others in order: the queue the
  handlers build is sorted by maturity.\<close>

theorem reachable_on_block_matured:
  assumes "reachable period c0 (s, c)"
  shows "on_block s c' =
     (case settle_all (bonded s) (unbonded s) (filter (matured (height c')) (unbonding s)) of
        Inl err \<Rightarrow> Inl err
      | Inr (bs, ub) \<Rightarrow>
          Inr (s\<lparr>bonded := bs, unbonding := filter (\<lambda>e. \<not> matured (height c') e) (unbonding s),
                 unbonded := ub\<rparr>))"
proof -
  from reachable_inv_all [OF assms, simplified] have "sorted (map ue_height (unbonding s))"
    by (simp add: staking_inv_def inv_debt_def)
  then show ?thesis using sorted_takeWhile_matured [of "unbonding s" "height c'"]
    by (simp add: on_block_def drain_prefix split: sum.splits)
qed

text \<open>C20. The bonded account as the spec's abstract coin account (spec
  section 4.2): in a reachable state with a non-empty pool, a signed bonded
  withdrawal carrying the account's sequence number is accepted exactly when
  its amount is at most the delegator's bonded balance, counted in coins.\<close>

theorem reachable_withdraw_iff:
  assumes reach: "reachable period c0 (s, c)" and p: "bonded s k = Some p" and B: "0 < balance p"
    and i: "\<not> in_unbonded i" "in_bonded i" "to_lower (in_validatorPubkey i) = k" "in_authorized i"
    and acc: "accounts p (in_address i) = Some acc" "in_sequence i = acct_sequence acc"
  shows "(\<exists>s' c' r. on_input i s c = Inr (s', c', r)) \<longleftrightarrow>
           int (in_amount i) \<le> bal_of (accounts p) (in_address i)"
proof -
  from reachable_inv_all [OF reach, simplified] p have "unit_pool p"
    by (simp add: staking_inv_def inv_debt_def)
  then have sh: "unbond_shares p (in_amount i) = Some (int (in_amount i))"
    using B by (rule unit_pool_unbond_shares)
  show ?thesis
    using p sh i acc
    by (auto simp: on_input_def withdraw_bonded_def Let_def ledger_debit_def bal_of_def
             split: if_splits)
qed

end
