(* ===== verification/Rewards.thy ===== *)
theory Rewards
  imports Invariants
begin

text \<open>
  Reward and slash injection, which spec section 9 leaves to a mechanism
  outside \<open>src/index.js\<close>: between calls, the balance of a validator's pool
  changes by some amount while its shares stay as they are. The theory adds
  this as a third kind of host step beside transactions and end-of-block
  passes, and shows what the code's conversions do on the pools such a step
  produces.
\<close>

section \<open>External balance changes\<close>

text \<open>A reward (\<open>0 \<le> delta\<close>) or slash (\<open>delta < 0\<close>) of the pool of
  \<open>k\<close>; a key with no pool is left alone.\<close>

definition reward :: "key \<Rightarrow> int \<Rightarrow> state \<Rightarrow> state" where
  "reward k delta s =
     (case bonded s k of
        None \<Rightarrow> s
      | Some p \<Rightarrow> s\<lparr>bonded := (bonded s)(k \<mapsto> p\<lparr>balance := balance p + delta\<rparr>)\<rparr>)"

text \<open>The host's steps with rewards: a paired transaction, an end-of-block
  pass, or a non-negative reward to any pool.\<close>

inductive step_ext :: "nat \<Rightarrow> state \<times> chain \<Rightarrow> state \<times> chain \<Rightarrow> bool" for period where
  host_step: "step period sc sc' \<Longrightarrow> step_ext period sc sc'"
| reward_step: "0 \<le> delta \<Longrightarrow> step_ext period (s, c) (reward k delta s, c)"

inductive reachable_ext :: "nat \<Rightarrow> chain \<Rightarrow> state \<times> chain \<Rightarrow> bool" for period c0 where
  init: "reachable_ext period c0 (initialState, c0)"
| run: "reachable_ext period c0 sc \<Longrightarrow> step_ext period sc sc' \<Longrightarrow> reachable_ext period c0 sc'"

text \<open>Spec lines 34 and 110 allow the outside mechanism to lower a balance as
  well (a slash) and leave the core to cope: the host's steps with balance
  changes of either sign.\<close>

inductive step_adj :: "nat \<Rightarrow> state \<times> chain \<Rightarrow> state \<times> chain \<Rightarrow> bool" for period where
  host_step_adj: "step period sc sc' \<Longrightarrow> step_adj period sc sc'"
| adjust_step: "step_adj period (s, c) (reward k delta s, c)"

inductive reachable_adj :: "nat \<Rightarrow> chain \<Rightarrow> state \<times> chain \<Rightarrow> bool" for period c0 where
  init_adj: "reachable_adj period c0 (initialState, c0)"
| run_adj: "reachable_adj period c0 sc \<Longrightarrow> step_adj period sc sc' \<Longrightarrow> reachable_adj period c0 sc'"

section \<open>A run with one reward\<close>

abbreviation reward_c0 :: chain where "reward_c0 \<equiv> \<lparr>height = 0, validators = Map.empty\<rparr>"

abbreviation bond_out :: "string \<Rightarrow> nat \<Rightarrow> tx_output" where
  "bond_out a n \<equiv> \<lparr>out_unbond = False, out_bond = True, out_validatorPubkey = ''v'', out_amount = n,
       out_address = a, out_type = ''ed25519''\<rparr>"
abbreviation unbond_out :: "string \<Rightarrow> nat \<Rightarrow> tx_output" where
  "unbond_out a n \<equiv> \<lparr>out_unbond = True, out_bond = False, out_validatorPubkey = ''v'', out_amount = n,
       out_address = a, out_type = ''ed25519''\<rparr>"
abbreviation bonded_in :: "string \<Rightarrow> nat \<Rightarrow> nat \<Rightarrow> tx_input" where
  "bonded_in a n q \<equiv> \<lparr>in_unbonded = False, in_bonded = True, in_validatorPubkey = ''v'', in_amount = n,
       in_address = a, in_type = ''ed25519'', in_sequence = q, in_authorized = True\<rparr>"

abbreviation pool_v :: "int \<Rightarrow> int \<Rightarrow> ledger \<Rightarrow> (key \<rightharpoonup> pool)" where
  "pool_v b sh l \<equiv> [''v'' \<mapsto> \<lparr>balance = b, shares = sh, accounts = l\<rparr>]"

abbreviation entry :: "string \<Rightarrow> nat \<Rightarrow> int \<Rightarrow> unbonding_entry" where
  "entry a h sh \<equiv> \<lparr>ue_type = ''ed25519'', ue_address = a, ue_validatorPubkey = ''v'',
                   ue_height = h, ue_shares = sh\<rparr>"

text \<open>The states of the run: alice bonds 3 coins; the pool is rewarded 1
  coin; alice withdraws all 4 coins, which redeem her 3 shares; at maturity the
  floor pays her 3 and leaves 1 coin behind 0 shares; bob bonds 10 coins and is
  issued 0 shares; bob withdraws, queueing an entry of 0 shares.\<close>

abbreviation rw_s1 :: state where
  "rw_s1 \<equiv> \<lparr>bonded = pool_v 3 3 [''alice'' \<mapsto> \<lparr>acct_balance = 3, acct_sequence = 0\<rparr>],
            unbonding = [], unbonded = Map.empty\<rparr>"

abbreviation rw_s2 :: state where
  "rw_s2 \<equiv> \<lparr>bonded = pool_v 4 3 [''alice'' \<mapsto> \<lparr>acct_balance = 3, acct_sequence = 0\<rparr>],
            unbonding = [], unbonded = Map.empty\<rparr>"

abbreviation rw_s3 :: state where
  "rw_s3 \<equiv> \<lparr>bonded = pool_v 4 3 [''alice'' \<mapsto> \<lparr>acct_balance = 0, acct_sequence = 1\<rparr>],
            unbonding = [entry ''alice'' 10 3], unbonded = Map.empty\<rparr>"

abbreviation rw_s4 :: state where
  "rw_s4 \<equiv> \<lparr>bonded = pool_v 1 0 [''alice'' \<mapsto> \<lparr>acct_balance = 0, acct_sequence = 1\<rparr>],
            unbonding = [], unbonded = [''alice'' \<mapsto> \<lparr>acct_balance = 3, acct_sequence = 0\<rparr>]\<rparr>"

abbreviation rw_s5 :: state where
  "rw_s5 \<equiv> \<lparr>bonded = pool_v 11 0 [''alice'' \<mapsto> \<lparr>acct_balance = 0, acct_sequence = 1\<rparr>,
                                    ''bob'' \<mapsto> \<lparr>acct_balance = 0, acct_sequence = 0\<rparr>],
            unbonding = [], unbonded = [''alice'' \<mapsto> \<lparr>acct_balance = 3, acct_sequence = 0\<rparr>]\<rparr>"

abbreviation rw_s6 :: state where
  "rw_s6 \<equiv> \<lparr>bonded = pool_v 11 0 [''alice'' \<mapsto> \<lparr>acct_balance = 0, acct_sequence = 1\<rparr>,
                                    ''bob'' \<mapsto> \<lparr>acct_balance = 0, acct_sequence = 1\<rparr>],
            unbonding = [entry ''bob'' 20 0],
            unbonded = [''alice'' \<mapsto> \<lparr>acct_balance = 3, acct_sequence = 0\<rparr>]\<rparr>"

abbreviation rw_tx1 :: tx where "rw_tx1 \<equiv> \<lparr>tx_inputs = [], tx_outputs = [bond_out ''alice'' 3]\<rparr>"
abbreviation rw_tx2 :: tx where
  "rw_tx2 \<equiv> \<lparr>tx_inputs = [bonded_in ''alice'' 4 0], tx_outputs = [unbond_out ''alice'' 4]\<rparr>"
abbreviation rw_tx3 :: tx where "rw_tx3 \<equiv> \<lparr>tx_inputs = [], tx_outputs = [bond_out ''bob'' 10]\<rparr>"
abbreviation rw_tx4 :: tx where
  "rw_tx4 \<equiv> \<lparr>tx_inputs = [bonded_in ''bob'' 10 0], tx_outputs = [unbond_out ''bob'' 10]\<rparr>"

abbreviation rw_chain :: "nat \<Rightarrow> int \<Rightarrow> chain" where
  "rw_chain h v \<equiv> \<lparr>height = h, validators = [''v'' \<mapsto> Num v]\<rparr>"

text \<open>A second run: alice bonds 2 coins, the pool is rewarded 2, alice
  withdraws 2 coins (1 share) and is paid 2 at maturity; then, in one
  transaction, she withdraws her last share as 2 coins, spends 1 unbonded coin
  and bonds it, and pays the unbond output.\<close>

abbreviation unb_in :: "string \<Rightarrow> nat \<Rightarrow> nat \<Rightarrow> tx_input" where
  "unb_in a n q \<equiv> \<lparr>in_unbonded = True, in_bonded = False, in_validatorPubkey = '''', in_amount = n,
       in_address = a, in_type = ''ed25519'', in_sequence = q, in_authorized = True\<rparr>"

abbreviation st_tx1 :: tx where "st_tx1 \<equiv> \<lparr>tx_inputs = [], tx_outputs = [bond_out ''alice'' 2]\<rparr>"
abbreviation st_tx2 :: tx where
  "st_tx2 \<equiv> \<lparr>tx_inputs = [bonded_in ''alice'' 2 0], tx_outputs = [unbond_out ''alice'' 2]\<rparr>"
abbreviation st_tx3 :: tx where
  "st_tx3 \<equiv> \<lparr>tx_inputs = [bonded_in ''alice'' 2 1, unb_in ''alice'' 1 0],
             tx_outputs = [bond_out ''alice'' 1, unbond_out ''alice'' 2]\<rparr>"

abbreviation st_s1 :: state where
  "st_s1 \<equiv> \<lparr>bonded = pool_v 2 2 [''alice'' \<mapsto> \<lparr>acct_balance = 2, acct_sequence = 0\<rparr>],
            unbonding = [], unbonded = Map.empty\<rparr>"
abbreviation st_s2 :: state where
  "st_s2 \<equiv> \<lparr>bonded = pool_v 4 2 [''alice'' \<mapsto> \<lparr>acct_balance = 2, acct_sequence = 0\<rparr>],
            unbonding = [], unbonded = Map.empty\<rparr>"
abbreviation st_s3 :: state where
  "st_s3 \<equiv> \<lparr>bonded = pool_v 4 2 [''alice'' \<mapsto> \<lparr>acct_balance = 1, acct_sequence = 1\<rparr>],
            unbonding = [entry ''alice'' 10 1], unbonded = Map.empty\<rparr>"
abbreviation st_s4 :: state where
  "st_s4 \<equiv> \<lparr>bonded = pool_v 2 1 [''alice'' \<mapsto> \<lparr>acct_balance = 1, acct_sequence = 1\<rparr>],
            unbonding = [], unbonded = [''alice'' \<mapsto> \<lparr>acct_balance = 2, acct_sequence = 0\<rparr>]\<rparr>"
abbreviation st_s5 :: state where
  "st_s5 \<equiv> \<lparr>bonded = pool_v 3 1 [''alice'' \<mapsto> \<lparr>acct_balance = 0, acct_sequence = 2\<rparr>],
            unbonding = [entry ''alice'' 20 0],
            unbonded = [''alice'' \<mapsto> \<lparr>acct_balance = 1, acct_sequence = 1\<rparr>]\<rparr>"
abbreviation st_s6 :: state where
  "st_s6 \<equiv> \<lparr>bonded = pool_v 3 1 [''alice'' \<mapsto> \<lparr>acct_balance = 0, acct_sequence = 2\<rparr>],
            unbonding = [],
            unbonded = [''alice'' \<mapsto> \<lparr>acct_balance = 1, acct_sequence = 1\<rparr>]\<rparr>"

section \<open>Lemmas\<close>

lemma low_v: "to_lower ''v'' = ''v''"
  by code_simp

lemmas reward_run_simps = process_tx_def on_input_def withdraw_bonded_def on_output_def
  unbond_output_def bond_output_def low_v Let_def unbond_shares_def shares_per_coin_def
  to_shares_def ledger_debit_def sub_voting_power_def requirement_of_def new_entry_def
  output_matches_def initialState_def new_pool_def bond_pool_def bond_shares_per_coin_def
  ledger_credit_def add_voting_power_def num_or_zero_def scale_def

lemmas reward_block_simps = on_block_def settle_entry_def settle_pool_def coins_per_share_def
  to_coins_def ledger_credit_def scale_def

lemma reward_paired: "paired_tx rw_tx1" "paired_tx rw_tx2" "paired_tx rw_tx3" "paired_tx rw_tx4"
  by (simp_all add: paired_tx_def input_req_def output_req_def requirement_of_def low_v)

lemma reward_run:
  "process_tx 10 rw_tx1 initialState reward_c0 = Inr (rw_s1, rw_chain 0 3)"
  "reward ''v'' 1 rw_s1 = rw_s2"
  "process_tx 10 rw_tx2 rw_s2 (rw_chain 0 3) = Inr (rw_s3, rw_chain 0 (-1))"
  "on_block rw_s3 ((rw_chain 0 (-1))\<lparr>height := 10\<rparr>) = Inr rw_s4"
  "process_tx 10 rw_tx3 rw_s4 (rw_chain 10 (-1)) = Inr (rw_s5, rw_chain 10 9)"
  "process_tx 10 rw_tx4 rw_s5 (rw_chain 10 9) = Inr (rw_s6, rw_chain 10 (-1))"
  "on_block rw_s6 ((rw_chain 10 (-1))\<lparr>height := 20\<rparr>) = Inl Non_finite_amount"
  by (simp_all add: reward_run_simps reward_def reward_block_simps)

lemma reward_reachable_s3: "reachable_ext 10 reward_c0 (rw_s3, rw_chain 0 (-1))"
proof -
  have "reachable_ext 10 reward_c0 (rw_s1, rw_chain 0 3)"
    using reachable_ext.init host_step [OF tx_step [OF reward_paired(1) reward_run(1)]]
    by (rule reachable_ext.run)
  then have "reachable_ext 10 reward_c0 (rw_s2, rw_chain 0 3)"
    using reward_step [of 1 10 rw_s1 _ "''v''"] reward_run(2) by (auto intro: reachable_ext.run)
  then show ?thesis
    using host_step [OF tx_step [OF reward_paired(2) reward_run(3)]] by (rule reachable_ext.run)
qed

lemma reward_reachable: "reachable_ext 10 reward_c0 (rw_s6, rw_chain 10 (-1))"
proof -
  have "reachable_ext 10 reward_c0 (rw_s4, rw_chain 10 (-1))"
    using reward_reachable_s3
    using host_step [OF block_step [of "rw_chain 0 (-1)" 10, OF _ reward_run(4)]]
    by (auto intro: reachable_ext.run)
  then have "reachable_ext 10 reward_c0 (rw_s5, rw_chain 10 9)"
    using host_step [OF tx_step [OF reward_paired(3) reward_run(5)]] by (rule reachable_ext.run)
  then show ?thesis
    using host_step [OF tx_step [OF reward_paired(4) reward_run(6)]] by (rule reachable_ext.run)
qed

lemma st_paired: "paired_tx st_tx1" "paired_tx st_tx2" "paired_tx st_tx3"
  by (simp_all add: paired_tx_def input_req_def output_req_def requirement_of_def low_v)

lemma st_run:
  "process_tx 10 st_tx1 initialState reward_c0 = Inr (st_s1, rw_chain 0 2)"
  "reward ''v'' 2 st_s1 = st_s2"
  "process_tx 10 st_tx2 st_s2 (rw_chain 0 2) = Inr (st_s3, rw_chain 0 0)"
  "on_block st_s3 ((rw_chain 0 0)\<lparr>height := 10\<rparr>) = Inr st_s4"
  "process_tx 10 st_tx3 st_s4 (rw_chain 10 0) = Inr (st_s5, rw_chain 10 (-1))"
  "on_block st_s5 ((rw_chain 10 (-1))\<lparr>height := 20\<rparr>) = Inr st_s6"
  by (simp_all add: reward_run_simps reward_def reward_block_simps withdraw_unbonded_def
                    numeral_2_eq_2)

lemma strand_reachable: "reachable_ext 10 reward_c0 (st_s4, rw_chain 10 0)"
proof -
  have "reachable_ext 10 reward_c0 (st_s1, rw_chain 0 2)"
    using reachable_ext.init host_step [OF tx_step [OF st_paired(1) st_run(1)]]
    by (rule reachable_ext.run)
  then have "reachable_ext 10 reward_c0 (st_s2, rw_chain 0 2)"
    using reward_step [of 2 10 st_s1 _ "''v''"] st_run(2) by (auto intro: reachable_ext.run)
  then have "reachable_ext 10 reward_c0 (st_s3, rw_chain 0 0)"
    using host_step [OF tx_step [OF st_paired(2) st_run(3)]] by (rule reachable_ext.run)
  then show ?thesis
    using host_step [OF block_step [of "rw_chain 0 0" 10, OF _ st_run(4)]]
    by (auto intro: reachable_ext.run)
qed

section \<open>Properties\<close>

text \<open>C17. A positive reward, which spec section 9 leaves to an outside
  mechanism, is enough to make a later end-of-block pass fail. After a
  reward, redeeming every share floors the payout and leaves the pool with a
  positive balance and no shares; the next bond is issued no shares (line 112
  computes \<open>sharesPerCoin = 0\<close>), the bonder's paired withdrawal queues an entry
  of no shares, and when it matures line 146 divides by the zero share total:
  the code goes on with \<open>Infinity\<close> and \<open>NaN\<close> coins, the model stops with
  \<open>Non_finite_amount\<close>. On the way the voting power goes negative (-1 while the
  pool holds 1 coin), because the reward raised the balance but not the
  voting power.\<close>

theorem reward_dust_breaks_block:
  "reachable_ext 10 reward_c0 (rw_s6, rw_chain 10 (-1)) \<and>
   on_block rw_s6 ((rw_chain 10 (-1))\<lparr>height := 20\<rparr>) = Inl Non_finite_amount"
  using reward_reachable reward_run(7) by simp

text \<open>C18. An unbond output recomputes its shares from the coin amount at the
  pool's ratio when the output runs (lines 85--86) instead of carrying the
  shares its withdrawal debited (line 47). A bond earlier in the same
  transaction lowers the ratio, so the queued entry can hold fewer shares than
  were taken from the delegator. After one reward, a paired transaction that
  withdraws alice's last share (2 coins) and bonds 1 coin first is accepted:
  the bond issues no share, the entry queues no share, and at maturity alice
  receives nothing while the pool keeps 3 coins and 1 share that no delegator
  holds.\<close>

theorem unbond_reprice_strands_share:
  "reachable_ext 10 reward_c0 (st_s4, rw_chain 10 0) \<and> paired_tx st_tx3 \<and>
   process_tx 10 st_tx3 st_s4 (rw_chain 10 0) = Inr (st_s5, rw_chain 10 (-1)) \<and>
   on_block st_s5 ((rw_chain 10 (-1))\<lparr>height := 20\<rparr>) = Inr st_s6"
  using strand_reachable st_paired(3) st_run(5,6) by simp

lemma reachable_adj_of_reachable: "reachable period c0 sc \<Longrightarrow> reachable_adj period c0 sc"
  by (induction rule: reachable.induct) (auto intro: reachable_adj.intros step_adj.intros)

end
