(* ===== verification/Solvency.thy ===== *)
theory Solvency
  imports Rewards
begin

text \<open>
  Solvency of the pools when rewards arrive between calls. Once a pool's
  balance has grown past its shares, conversions no longer round trip and the
  equalities of theory \<open>Invariants\<close> fail; what survives is an inequality:
  every pool keeps at least one coin per share (\<open>shares \<le> balance\<close>), and the
  shares held by delegators plus the shares waiting in the queue never exceed
  the pool's total, so rounding only ever leaves shares in the pool. Inside a
  transaction the invariant also counts the withdrawals whose unbond output has
  not run yet, valued at the pool's current ratio: bonds in between can only
  lower that ratio, so the output queues at most what the input debited.
\<close>

section \<open>The invariant\<close>

text \<open>The shares an outstanding withdrawal of the pool \<open>p\<close> of \<open>k\<close> will
  queue, at the pool's current ratio (lines 85--86).\<close>

definition debt_shares :: "pool \<Rightarrow> key \<Rightarrow> requirement \<Rightarrow> int" where
  "debt_shares p k r =
     (if req_validatorPubkey r = k then to_shares (req_amount r) (scale * shares p div balance p)
      else 0)"

definition claims :: "state \<Rightarrow> requirement multiset \<Rightarrow> key \<Rightarrow> pool \<Rightarrow> int" where
  "claims s ds k p =
     ledger_total (accounts p) + pending (unbonding s) k + sum_mset (image_mset (debt_shares p k) ds)"

definition solv_debt :: "requirement multiset \<Rightarrow> state \<Rightarrow> bool" where
  "solv_debt ds s \<longleftrightarrow>
     (\<forall>k p. bonded s k = Some p \<longrightarrow>
        0 \<le> shares p \<and> shares p \<le> balance p \<and> ledger_wf (accounts p) \<and>
        claims s ds k p \<le> shares p) \<and>
     (\<forall>e\<in>set (unbonding s). bonded s (ue_validatorPubkey e) \<noteq> None \<and> 0 \<le> ue_shares e) \<and>
     (\<forall>r\<in>#ds. to_lower (req_validatorPubkey r) = req_validatorPubkey r \<and>
        (\<exists>p. bonded s (req_validatorPubkey r) = Some p \<and> 0 < balance p)) \<and>
     ledger_wf (unbonded s)"

definition solvent :: "state \<Rightarrow> bool" where
  "solvent s \<longleftrightarrow> solv_debt {#} s"

section \<open>Arithmetic\<close>

lemma div_le_div_cross:
  fixes x y u v :: int
  assumes "x * v \<le> u * y" and "0 < y" and "0 < v"
  shows "x div y \<le> u div v"
proof -
  have "(x div y) * y \<le> x"
    using floor_div_mult_le [OF assms(2), of x] by (simp add: mult.commute)
  then have "(x div y) * y * v \<le> x * v"
    using assms(3) by (simp add: mult_right_mono)
  also have "\<dots> \<le> u * y"
    by (rule assms(1))
  finally have "(x div y) * v * y \<le> u * y"
    by (simp add: ac_simps)
  then have "(x div y) * v \<le> u"
    using assms(2) by simp
  then have "(x div y) * v div v \<le> u div v"
    using assms(3) by (rule zdiv_mono1)
  then show ?thesis
    using assms(3) by simp
qed

text \<open>A bond never raises the pool's shares per coin: the floor issues at most
  the proportional share count.\<close>

lemma bond_ratio_le:
  assumes "0 < balance p" and "0 \<le> shares p"
  shows "scale * shares (snd (bond_pool p a)) div balance (snd (bond_pool p a))
           \<le> scale * shares p div balance p"
proof -
  define B where "B = balance p"
  define Sh where "Sh = shares p"
  define spc where "spc = scale * Sh div B"
  define sh where "sh = to_shares a spc"
  have B: "0 < B" and Sh: "0 \<le> Sh"
    using assms by (simp_all add: B_def Sh_def)
  have "sh * scale \<le> int a * spc"
    using floor_div_mult_le [OF scale_pos, of "int a * spc"]
    by (simp add: sh_def to_shares_def mult.commute)
  moreover have "spc * B \<le> scale * Sh"
    using floor_div_mult_le [OF B, of "scale * Sh"] by (simp add: spc_def mult.commute)
  then have "int a * (spc * B) \<le> int a * (scale * Sh)"
    by (rule mult_left_mono) simp
  then have "int a * spc * B \<le> int a * (scale * Sh)"
    by (simp add: ac_simps)
  ultimately have "sh * B * scale \<le> int a * Sh * scale"
    using B by (smt (verit) mult.commute mult.left_commute mult_right_mono)
  then have shB: "sh * B \<le> int a * Sh"
    by simp
  have "scale * (Sh + sh) * B \<le> scale * Sh * (B + int a)"
    using shB by (simp add: algebra_simps)
  then have "scale * (Sh + sh) div (B + int a) \<le> scale * Sh div B"
    using B by (intro div_le_div_cross) simp_all
  moreover have "bond_pool p a = (sh, p\<lparr>balance := B + int a, shares := Sh + sh\<rparr>)"
    using B by (simp add: bond_pool_def bond_shares_per_coin_def B_def Sh_def spc_def sh_def Let_def)
  ultimately show ?thesis
    by (simp add: B_def Sh_def)
qed

text \<open>A bond to a pool with at least one coin per share issues at most one
  share per coin.\<close>

lemma bond_shares_le:
  assumes "0 \<le> shares p" and "shares p \<le> balance p"
  shows "0 \<le> fst (bond_pool p a) \<and> fst (bond_pool p a) \<le> int a"
proof -
  have spc: "0 \<le> bond_shares_per_coin p \<and> bond_shares_per_coin p \<le> scale"
  proof (cases "balance p = 0")
    case True
    then show ?thesis by (simp add: bond_shares_per_coin_def)
  next
    case False
    with assms have B: "0 < balance p" by simp
    have "scale * shares p div balance p \<le> scale * balance p div balance p"
      using assms B by (intro zdiv_mono1) simp_all
    with assms B show ?thesis
      by (simp add: bond_shares_per_coin_def floor_div_nonneg)
  qed
  then have "int a * bond_shares_per_coin p \<le> int a * scale"
    by (simp add: mult_left_mono)
  then have "int a * bond_shares_per_coin p div scale \<le> int a * scale div scale"
    by (rule zdiv_mono1) simp
  with spc show ?thesis
    by (simp add: bond_pool_def Let_def to_shares_def floor_div_nonneg)
qed

text \<open>Settling at most the pool's shares keeps at least one coin per share.\<close>

lemma settle_keeps_ratio:
  assumes "0 \<le> sh" and "sh \<le> Sh" and "Sh \<le> B" and "0 < Sh"
  shows "Sh - sh \<le> B - to_coins sh (scale * B div Sh)"
proof -
  define coins where "coins = to_coins sh (scale * B div Sh)"
  have c: "Sh * coins \<le> sh * B"
    using floor_ratio_le [OF assms(1) assms(4) scale_pos, of B] by (simp add: coins_def to_coins_def)
  have "sh * (B - Sh) \<le> Sh * (B - Sh)"
    using assms by (simp add: mult_right_mono)
  then have "Sh * (Sh - sh) \<le> Sh * B - sh * B"
    by (simp add: algebra_simps)
  also have "\<dots> \<le> Sh * (B - coins)"
    using c by (simp add: algebra_simps)
  finally show ?thesis
    using assms(4) by (simp add: coins_def)
qed

text \<open>Settling at most the pool's shares from a pool with at least one coin
  per share pays a non-negative amount and keeps at least one coin per share.\<close>

lemma settle_pool_solvent:
  assumes "0 \<le> shares p" "shares p \<le> balance p" "0 \<le> sh" "sh \<le> shares p"
    and "settle_pool p sh = Some (coins, p')"
  shows "0 \<le> coins \<and> 0 \<le> shares p' \<and> shares p' \<le> balance p' \<and>
         shares p' = shares p - sh \<and> accounts p' = accounts p"
proof -
  from assms(5) obtain cps where cps: "coins_per_share p = Some cps"
    and c: "coins = to_coins sh cps"
    and p': "p' = p\<lparr>shares := shares p - sh, balance := balance p - coins\<rparr>"
    by (auto simp: settle_pool_Some)
  have "0 \<le> coins \<and> shares p - sh \<le> balance p - coins"
  proof (cases "balance p = 0")
    case True
    with assms(1-4) cps c show ?thesis
      by (simp add: coins_per_share_def to_coins_def)
  next
    case False
    with cps assms(1) have Sh: "0 < shares p" and cv: "cps = scale * balance p div shares p"
      by (auto simp: coins_per_share_def split: if_splits)
    from assms(2-4) Sh have "shares p - sh \<le> balance p - coins"
      unfolding c cv by (intro settle_keeps_ratio) simp_all
    moreover have "0 \<le> coins"
      unfolding c cv using assms(1-3) Sh by (simp add: to_coins_nonneg floor_div_nonneg)
    ultimately show ?thesis by simp
  qed
  with assms(4) show ?thesis
    by (simp add: p')
qed

section \<open>Helper lemmas\<close>

lemma debt_shares_cong:
  "shares q = shares p \<Longrightarrow> balance q = balance p \<Longrightarrow> debt_shares q = debt_shares p"
  by (simp add: debt_shares_def fun_eq_iff)

lemma debt_shares_other [simp]:
  "req_validatorPubkey r \<noteq> k \<Longrightarrow> debt_shares p k r = 0"
  by (simp add: debt_shares_def)

lemma debts_other:
  "\<forall>r\<in>#ds. req_validatorPubkey r \<noteq> k \<Longrightarrow> sum_mset (image_mset (debt_shares p k) ds) = 0"
  by (induction ds) auto

lemma solv_debtD:
  assumes "solv_debt ds s" and "bonded s k = Some p"
  shows "0 \<le> shares p" "shares p \<le> balance p" "ledger_wf (accounts p)" "claims s ds k p \<le> shares p"
  using assms by (auto simp: solv_debt_def)

lemma solv_debt_entries:
  "solv_debt ds s \<Longrightarrow> e \<in> set (unbonding s) \<Longrightarrow>
     bonded s (ue_validatorPubkey e) \<noteq> None \<and> 0 \<le> ue_shares e"
  by (simp add: solv_debt_def)

lemma solv_debt_intro:
  assumes "\<And>k p. bonded s k = Some p \<Longrightarrow>
             0 \<le> shares p \<and> shares p \<le> balance p \<and> ledger_wf (accounts p) \<and> claims s ds k p \<le> shares p"
    and "\<And>e. e \<in> set (unbonding s) \<Longrightarrow> bonded s (ue_validatorPubkey e) \<noteq> None \<and> 0 \<le> ue_shares e"
    and "\<And>r. r \<in># ds \<Longrightarrow> to_lower (req_validatorPubkey r) = req_validatorPubkey r \<and>
             (\<exists>p. bonded s (req_validatorPubkey r) = Some p \<and> 0 < balance p)"
    and "ledger_wf (unbonded s)"
  shows "solv_debt ds s"
  using assms by (simp add: solv_debt_def)

lemma solv_debt_set_pool:
  assumes inv: "solv_debt ds s"
    and p': "0 \<le> shares p' \<and> shares p' \<le> balance p' \<and> ledger_wf (accounts p') \<and>
             claims s ds' k p' \<le> shares p'"
    and other: "\<And>k' q. k' \<noteq> k \<Longrightarrow> bonded s k' = Some q \<Longrightarrow> claims s ds' k' q \<le> shares q"
    and debts: "\<forall>r\<in>#ds'. to_lower (req_validatorPubkey r) = req_validatorPubkey r \<and>
                  (\<exists>q. ((bonded s)(k \<mapsto> p')) (req_validatorPubkey r) = Some q \<and> 0 < balance q)"
  shows "solv_debt ds' (s\<lparr>bonded := (bonded s)(k \<mapsto> p')\<rparr>)"
proof -
  have "claims (s\<lparr>bonded := (bonded s)(k \<mapsto> p')\<rparr>) ds' = claims s ds'"
    by (simp add: claims_def fun_eq_iff)
  then show ?thesis
    using inv p' other debts unfolding solv_debt_def by (auto split: if_splits)
qed

section \<open>One input\<close>

lemma withdraw_unbonded_solv:
  "solv_debt ds s \<Longrightarrow> withdraw_unbonded i s = Inr s' \<Longrightarrow> solv_debt ds s'"
  by (auto simp: solv_debt_def claims_def withdraw_unbonded_Inr intro: ledger_debit_wf)

lemma withdraw_bonded_solv:
  assumes inv: "solv_debt ds s" and run: "withdraw_bonded i s c = Inr (s', c', r)"
  shows "solv_debt (add_mset r ds) s'"
proof -
  define k where "k = to_lower (in_validatorPubkey i)"
  from run obtain p sh l where p: "bonded s k = Some p"
    and sh: "unbond_shares p (in_amount i) = Some sh"
    and l: "ledger_debit (accounts p) (in_address i) sh (in_sequence i) (in_authorized i) = Inr l"
    and s': "s' = s\<lparr>bonded := (bonded s)(k \<mapsto> p\<lparr>accounts := l\<rparr>)\<rparr>"
    and r: "r = requirement_of i k"
    unfolding k_def by (auto simp: withdraw_bonded_Inr)
  note sp = solv_debtD [OF inv p]
  from sh sp(1,2) have B: "0 < balance p"
    and shv: "sh = to_shares (in_amount i) (scale * shares p div balance p)"
    by (auto simp: unbond_shares_def shares_per_coin_def split: if_splits)
  have tot: "ledger_total l = ledger_total (accounts p) - sh"
    using ledger_debit_total [OF l] sp(3) by (simp add: ledger_wf_def)
  have wf': "ledger_wf l"
    using l sp(3) by (rule ledger_debit_wf)
  define p' where "p' = p\<lparr>accounts := l\<rparr>"
  have dp: "debt_shares p' = debt_shares p"
    by (rule debt_shares_cong) (simp_all add: p'_def)
  have dr: "debt_shares p k r = sh"
    by (simp add: debt_shares_def r requirement_of_def shv)
  have rk: "req_validatorPubkey r = k"
    by (simp add: r requirement_of_def)
  have acc: "accounts p' = l"
    by (simp add: p'_def)
  have claims_k: "claims s' (add_mset r ds) k p' = claims s ds k p"
    by (simp add: claims_def s' dp dr tot acc)
  have claims_other: "claims s' (add_mset r ds) k' q = claims s ds k' q" if "k' \<noteq> k" for k' q
    using that rk by (simp add: claims_def s')
  have pools: "\<forall>k' q. bonded s' k' = Some q \<longrightarrow>
      0 \<le> shares q \<and> shares q \<le> balance q \<and> ledger_wf (accounts q) \<and>
      claims s' (add_mset r ds) k' q \<le> shares q"
    using inv sp wf' claims_k claims_other
    by (auto simp: solv_debt_def s' p'_def)
  have debts: "\<forall>r'\<in>#add_mset r ds. to_lower (req_validatorPubkey r') = req_validatorPubkey r' \<and>
      (\<exists>q. bonded s' (req_validatorPubkey r') = Some q \<and> 0 < balance q)"
    using inv B rk by (auto simp: solv_debt_def s' k_def)
  show ?thesis
    using inv pools debts unfolding solv_debt_def by (auto simp: s')
qed

lemma on_input_solv:
  assumes "solv_debt ds s" and "on_input i s c = Inr (s', c', r)"
  shows "solv_debt (case r of None \<Rightarrow> ds | Some q \<Rightarrow> add_mset q ds) s'"
  using assms withdraw_unbonded_solv withdraw_bonded_solv
  by (auto simp: on_input_Inr)

lemma run_inputs_solv:
  "solv_debt ds s \<Longrightarrow> run_inputs ins s c = Inr (s', c', rs) \<Longrightarrow> solv_debt (ds + mset rs) s'"
proof (induction ins arbitrary: ds s c rs)
  case Nil
  then show ?case by simp
next
  case (Cons i ins)
  then obtain s1 c1 r rs' where i: "on_input i s c = Inr (s1, c1, r)"
    and rest: "run_inputs ins s1 c1 = Inr (s', c', rs')"
    and rs: "rs = (case r of None \<Rightarrow> rs' | Some q \<Rightarrow> q # rs')"
    by (auto split: sum.splits)
  from Cons.IH [OF on_input_solv [OF Cons.prems(1) i] rest] rs show ?case
    by (auto split: option.splits)
qed

section \<open>One output\<close>

lemma sum_debt_remove:
  "r \<in># ds \<Longrightarrow> sum_mset (image_mset f ds) = f r + sum_mset (image_mset f (ds - {#r#}))"
  by (metis image_mset_add_mset insert_DiffM sum_mset.insert)

lemma debt_shares_mono:
  "scale * shares q div balance q \<le> scale * shares p div balance p \<Longrightarrow>
     debt_shares q k r \<le> debt_shares p k r"
  by (simp add: debt_shares_def to_shares_def floor_div_mono mult_left_mono)

text \<open>The pool conditions carry over to a state with the same pools whose
  claims on each pool are unchanged.\<close>

lemma solv_pools_transfer:
  assumes inv: "solv_debt ds s" and b: "bonded s' = bonded s"
    and cl: "\<And>k' q. bonded s k' = Some q \<Longrightarrow> claims s' ds' k' q = claims s ds k' q"
  shows "\<forall>k' q. bonded s' k' = Some q \<longrightarrow>
      0 \<le> shares q \<and> shares q \<le> balance q \<and> ledger_wf (accounts q) \<and> claims s' ds' k' q \<le> shares q"
  using solv_debtD [OF inv] cl by (simp add: b)

lemma unbond_output_solv:
  assumes inv: "solv_debt ds s" and run: "unbond_output period out s c = Inr s'"
    and r: "output_req out = Some r" and mem: "r \<in># ds"
  shows "solv_debt (ds - {#r#}) s'"
proof -
  define k where "k = out_validatorPubkey out"
  from r have rk: "req_validatorPubkey r = k" and ra: "req_amount r = out_amount out"
    by (auto simp: output_req_def k_def split: if_splits)
  from inv mem rk have low: "to_lower (out_validatorPubkey out) = k"
    by (auto simp: solv_debt_def k_def)
  from run low obtain p sh where p: "bonded s k = Some p"
    and sh: "unbond_shares p (out_amount out) = Some sh"
    and s': "s' = s\<lparr>unbonding := unbonding s @ [new_entry period out c sh]\<rparr>"
    by (auto simp: unbond_output_Inr)
  note sp = solv_debtD [OF inv p]
  from sh sp(1,2) have B: "0 < balance p"
    and shv: "sh = to_shares (out_amount out) (scale * shares p div balance p)"
    by (auto simp: unbond_shares_def shares_per_coin_def split: if_splits)
  have sh0: "0 \<le> sh"
    using shv sp(1) B by (simp add: to_shares_nonneg floor_div_nonneg)
  have dr: "debt_shares p k r = sh"
    by (simp add: debt_shares_def rk ra shv)
  have ek: "ue_validatorPubkey (new_entry period out c sh) = k"
    "ue_shares (new_entry period out c sh) = sh"
    by (simp_all add: new_entry_def k_def)
  have claims_k: "claims s' (ds - {#r#}) k p = claims s ds k p"
    using sum_debt_remove [OF mem, of "debt_shares p k"]
    by (simp add: claims_def s' ek dr)
  have claims_other: "claims s' (ds - {#r#}) k' q = claims s ds k' q" if "k' \<noteq> k" for k' q
    using that rk sum_debt_remove [OF mem, of "debt_shares q k'"]
    by (simp add: claims_def s' ek)
  have pools: "\<forall>k' q. bonded s' k' = Some q \<longrightarrow>
      0 \<le> shares q \<and> shares q \<le> balance q \<and> ledger_wf (accounts q) \<and>
      claims s' (ds - {#r#}) k' q \<le> shares q"
  proof (rule solv_pools_transfer [OF inv])
    show "bonded s' = bonded s"
      by (simp add: s')
    fix k' q
    assume "bonded s k' = Some q"
    then show "claims s' (ds - {#r#}) k' q = claims s ds k' q"
      using p claims_k claims_other by (cases "k' = k") simp_all
  qed
  have debts: "\<forall>r'\<in>#ds - {#r#}. to_lower (req_validatorPubkey r') = req_validatorPubkey r' \<and>
      (\<exists>q. bonded s' (req_validatorPubkey r') = Some q \<and> 0 < balance q)"
    using inv by (auto simp: solv_debt_def s' dest: in_diffD)
  show ?thesis
    using inv pools debts p sh0 unfolding solv_debt_def by (auto simp: s' ek)
qed

text \<open>The pool a bond targets, existing or created by lines 99--108, meets
  the pool conditions, and a pool with zero balance carries no outstanding
  debt.\<close>

lemma bond_target_solv:
  assumes inv: "solv_debt ds s" and p: "p = (case bonded s k of None \<Rightarrow> new_pool | Some p \<Rightarrow> p)"
  shows "0 \<le> shares p \<and> shares p \<le> balance p \<and> ledger_wf (accounts p) \<and> claims s ds k p \<le> shares p"
    and "balance p = 0 \<Longrightarrow> \<forall>r\<in>#ds. req_validatorPubkey r \<noteq> k"
proof -
  show no_debt: "\<forall>r\<in>#ds. req_validatorPubkey r \<noteq> k" if "balance p = 0"
    using inv that by (fastforce simp: solv_debt_def p)
  show "0 \<le> shares p \<and> shares p \<le> balance p \<and> ledger_wf (accounts p) \<and> claims s ds k p \<le> shares p"
  proof (cases "bonded s k")
    case None
    then have "\<forall>e\<in>set (unbonding s). ue_validatorPubkey e \<noteq> k"
      using inv by (auto simp: solv_debt_def)
    moreover have "balance p = 0"
      using None by (simp add: p new_pool_def)
    ultimately show ?thesis
      using None no_debt by (simp add: p new_pool_def claims_def ledger_total_def pending_no_entry
                                      debts_other)
  next
    case (Some q)
    then show ?thesis
      using solv_debtD [OF inv Some] by (simp add: p)
  qed
qed

text \<open>A bond can only lower the value of the outstanding debts against the
  pool (\<open>bond_ratio_le\<close>).\<close>

lemma bond_debts_le:
  assumes hp: "0 \<le> shares p \<and> shares p \<le> balance p"
    and no_debt: "balance p = 0 \<Longrightarrow> \<forall>r\<in>#ds. req_validatorPubkey r \<noteq> k"
    and p': "balance p' = balance (snd (bond_pool p a))" "shares p' = shares (snd (bond_pool p a))"
  shows "sum_mset (image_mset (debt_shares p' k) ds) \<le> sum_mset (image_mset (debt_shares p k) ds)"
proof (cases "0 < balance p")
  case True
  have "scale * shares p' div balance p' \<le> scale * shares p div balance p"
    using bond_ratio_le [OF True, of a] hp p' by simp
  then show ?thesis
    by (intro sum_mset_mono debt_shares_mono)
next
  case False
  with hp no_debt show ?thesis
    by (simp add: debts_other)
qed

lemma bond_output_solv:
  assumes inv: "solv_debt ds s" and run: "bond_output out s c = (s', c')"
  shows "solv_debt ds s'"
proof -
  define k where "k = to_lower (out_validatorPubkey out)"
  define p where "p = (case bonded s k of None \<Rightarrow> new_pool | Some p \<Rightarrow> p)"
  define a where "a = out_amount out"
  define sh where "sh = fst (bond_pool p a)"
  define p' where "p' = (snd (bond_pool p a))\<lparr>accounts := ledger_credit (accounts p) (out_address out) sh\<rparr>"
  from run have s': "s' = s\<lparr>bonded := (bonded s)(k \<mapsto> p')\<rparr>"
    by (auto simp: bond_output_def Let_def p'_def sh_def a_def p_def k_def)
  note hp = bond_target_solv [OF inv p_def]
  have shb: "0 \<le> sh \<and> sh \<le> int a"
    using bond_shares_le hp(1) by (simp add: sh_def)
  have debts_le: "sum_mset (image_mset (debt_shares p' k) ds) \<le> sum_mset (image_mset (debt_shares p k) ds)"
    using hp by (intro bond_debts_le [of p ds k p' a]) (simp_all add: p'_def)
  have tot: "ledger_total (accounts p') = ledger_total (accounts p) + sh"
    using hp(1) by (simp add: p'_def ledger_credit_total ledger_wf_def)
  have "claims s ds k p' \<le> claims s ds k p + sh"
    using debts_le tot by (simp add: claims_def)
  then have cl: "claims s ds k p' \<le> shares p'"
    using hp(1) by (simp add: p'_def sh_def)
  have wf': "ledger_wf (accounts p')"
    using hp(1) shb by (simp add: p'_def ledger_credit_wf)
  have sb: "0 \<le> shares p' \<and> shares p' \<le> balance p'"
    using hp(1) shb by (simp add: p'_def sh_def)
  have debts: "\<forall>r\<in>#ds. to_lower (req_validatorPubkey r) = req_validatorPubkey r \<and>
      (\<exists>q. ((bonded s)(k \<mapsto> p')) (req_validatorPubkey r) = Some q \<and> 0 < balance q)"
    using inv by (fastforce simp: solv_debt_def p'_def p_def)
  show ?thesis
    unfolding s' using inv sb wf' cl debts
    by (intro solv_debt_set_pool) (auto dest: solv_debtD)
qed

lemma on_output_solv:
  assumes "solv_debt ds s" and "on_output period out s c = Inr (s', c')"
    and "\<And>r. output_req out = Some r \<Longrightarrow> r \<in># ds"
  shows "solv_debt (case output_req out of None \<Rightarrow> ds | Some r \<Rightarrow> ds - {#r#}) s'"
proof (cases "output_req out")
  case None
  with assms show ?thesis
    by (auto simp: on_output_Inr output_req_def bond_output_solv)
next
  case (Some r)
  with assms show ?thesis
    by (auto simp: on_output_Inr output_req_def intro: unbond_output_solv)
qed

lemma run_outputs_solv:
  "solv_debt ds s \<Longrightarrow> mset (List.map_filter output_req outs) \<subseteq># ds \<Longrightarrow>
     run_outputs period outs s c = Inr (s', c') \<Longrightarrow>
     solv_debt (ds - mset (List.map_filter output_req outs)) s'"
proof (induction outs arbitrary: ds s c)
  case Nil
  then show ?case by (simp add: map_filter_simps)
next
  case (Cons out outs)
  then obtain s1 c1 where o: "on_output period out s c = Inr (s1, c1)"
    and rest: "run_outputs period outs s1 c1 = Inr (s', c')"
    by (auto split: sum.splits)
  show ?case
  proof (cases "output_req out")
    case None
    with Cons.prems o have "solv_debt ds s1"
      using on_output_solv [OF Cons.prems(1) o] by simp
    with Cons.IH [OF _ _ rest] Cons.prems(2) None show ?thesis
      by (simp add: map_filter_simps)
  next
    case (Some r)
    with Cons.prems(2) have r: "r \<in># ds"
      and sub: "mset (List.map_filter output_req outs) \<subseteq># ds - {#r#}"
      by (auto simp: map_filter_simps insert_subset_eq_iff)
    from on_output_solv [OF Cons.prems(1) o] Some r have "solv_debt (ds - {#r#}) s1"
      by simp
    from Cons.IH [OF this sub rest] Some show ?thesis
      by (simp add: map_filter_simps)
  qed
qed

section \<open>Transactions\<close>

lemma process_tx_solv:
  assumes inv: "solvent s" and paired: "paired_tx t"
    and run: "process_tx period t s c = Inr (s', c')"
  shows "solvent s'"
proof -
  from run obtain s1 c1 rs where ins: "run_inputs (tx_inputs t) s c = Inr (s1, c1, rs)"
    and outs: "run_outputs period (tx_outputs t) s1 c1 = Inr (s', c')"
    by (auto simp: process_tx_def split: sum.splits list.splits)
  have m: "mset rs = mset (List.map_filter output_req (tx_outputs t))"
    using run_inputs_reqs [OF ins] paired by (simp add: paired_tx_def)
  from run_inputs_solv [OF inv [unfolded solvent_def] ins] have "solv_debt (mset rs) s1"
    by simp
  from run_outputs_solv [OF this _ outs] m show ?thesis
    by (simp add: solvent_def)
qed

section \<open>End of block\<close>

text \<open>The head entry of the queue is backed by its pool: its shares, the
  rest of the pool's queue and the delegators' shares stay within the pool's
  total.\<close>

lemma solv_head_le:
  assumes inv: "solv_debt {#} s" and q: "unbonding s = e # q"
    and p: "bonded s (ue_validatorPubkey e) = Some p"
  shows "0 \<le> ue_shares e \<and> 0 \<le> pending q (ue_validatorPubkey e) \<and>
         ledger_total (accounts p) + pending q (ue_validatorPubkey e) + ue_shares e \<le> shares p"
proof -
  note hp = solv_debtD [OF inv p]
  have ents: "\<forall>x\<in>set (e # q). bonded s (ue_validatorPubkey x) \<noteq> None \<and> 0 \<le> ue_shares x"
    using inv q by (simp add: solv_debt_def)
  have "0 \<le> pending q (ue_validatorPubkey e)"
    using ents by (intro pending_nonneg) simp
  moreover have "ledger_total (accounts p) + pending q (ue_validatorPubkey e) + ue_shares e \<le> shares p"
    using hp(4) q by (simp add: claims_def)
  ultimately show ?thesis
    using ents by simp
qed

text \<open>Settling the head entry leaves its pool within the conditions, with the
  rest of the pool's queue and the delegators' shares still covered.\<close>

lemma settle_head_pool:
  assumes inv: "solv_debt {#} s" and q: "unbonding s = e # q"
    and p: "bonded s (ue_validatorPubkey e) = Some p"
    and sp: "settle_pool p (ue_shares e) = Some (coins, p')"
  shows "0 \<le> coins \<and> 0 \<le> shares p' \<and> shares p' \<le> balance p' \<and> ledger_wf (accounts p') \<and>
         ledger_total (accounts p') + pending q (ue_validatorPubkey e) \<le> shares p'"
proof -
  note hp = solv_debtD [OF inv p] and head = solv_head_le [OF inv q p]
  have "ue_shares e \<le> shares p"
    using head ledger_total_nonneg [OF hp(3)] by simp
  then have "0 \<le> coins \<and> 0 \<le> shares p' \<and> shares p' \<le> balance p' \<and>
      shares p' = shares p - ue_shares e \<and> accounts p' = accounts p"
    using hp(1,2) head sp by (intro settle_pool_solvent) simp_all
  then show ?thesis
    using head hp by simp
qed

lemma settle_entry_solv:
  assumes inv: "solvent s" and q: "unbonding s = e # q"
    and se: "settle_entry (bonded s) (unbonded s) e = Inr (bs', ub')"
  shows "solvent (s\<lparr>bonded := bs', unbonding := q, unbonded := ub'\<rparr>)"
proof -
  define k where "k = ue_validatorPubkey e"
  from se obtain p coins p' where p: "bonded s k = Some p"
    and sp: "settle_pool p (ue_shares e) = Some (coins, p')"
    and bs': "bs' = (bonded s)(k \<mapsto> p')"
    and ub': "ub' = ledger_credit (unbonded s) (ue_address e) coins"
    by (auto simp: settle_entry_def k_def split: option.splits)
  have inv': "solv_debt {#} s"
    using inv by (simp add: solvent_def)
  have ents: "\<forall>x\<in>set (e # q). bonded s (ue_validatorPubkey x) \<noteq> None \<and> 0 \<le> ue_shares x"
    using inv' q by (simp add: solv_debt_def)
  have p': "0 \<le> coins \<and> 0 \<le> shares p' \<and> shares p' \<le> balance p' \<and> ledger_wf (accounts p') \<and>
      ledger_total (accounts p') + pending q k \<le> shares p'"
    using settle_head_pool [OF inv' q p [unfolded k_def] sp] by (simp add: k_def)
  let ?s2 = "s\<lparr>bonded := bs', unbonding := q, unbonded := ub'\<rparr>"
  have pools: "0 \<le> shares r \<and> shares r \<le> balance r \<and> ledger_wf (accounts r) \<and>
      claims ?s2 {#} k' r \<le> shares r" if r: "bonded ?s2 k' = Some r" for k' r
  proof (cases "k' = k")
    case True
    with r bs' p' show ?thesis
      by (simp add: claims_def)
  next
    case False
    with r bs' have "bonded s k' = Some r" by simp
    with False solv_debtD [OF inv' this] ents show ?thesis
      by (simp add: claims_def q k_def)
  qed
  show ?thesis
    unfolding solvent_def using pools ents bs' inv' p'
    by (intro solv_debt_intro) (auto simp: ub' solv_debt_def ledger_credit_wf)
qed

lemma drain_solv:
  "solvent s \<Longrightarrow> unbonding s = q \<Longrightarrow> drain h (bonded s) (unbonded s) q = Inr (bs, ub, q') \<Longrightarrow>
     solvent (s\<lparr>bonded := bs, unbonding := q', unbonded := ub\<rparr>)"
proof (induction q arbitrary: s)
  case Nil
  then show ?case by (cases s) auto
next
  case (Cons e q)
  show ?case
  proof (cases "ue_height e \<le> h")
    case True
    with Cons.prems(3) obtain bs1 ub1 where se: "settle_entry (bonded s) (unbonded s) e = Inr (bs1, ub1)"
      and rest: "drain h bs1 ub1 q = Inr (bs, ub, q')"
      by (auto split: sum.splits)
    from settle_entry_solv [OF Cons.prems(1,2) se] Cons.IH [of "s\<lparr>bonded := bs1, unbonding := q, unbonded := ub1\<rparr>"] rest
    show ?thesis by simp
  next
    case False
    with Cons.prems show ?thesis by (cases s) auto
  qed
qed

lemma on_block_solv: "solvent s \<Longrightarrow> on_block s c = Inr s' \<Longrightarrow> solvent s'"
  by (auto simp: on_block_def split: sum.splits dest: drain_solv [OF _ refl])

lemma reward_solv:
  assumes inv: "solvent s" and d: "0 \<le> delta"
  shows "solvent (reward k delta s)"
proof (cases "bonded s k")
  case None
  with inv show ?thesis by (simp add: reward_def)
next
  case (Some p)
  have inv': "solv_debt {#} s"
    using inv by (simp add: solvent_def)
  note hp = solv_debtD [OF inv' Some]
  have "solv_debt {#} (s\<lparr>bonded := (bonded s)(k \<mapsto> p\<lparr>balance := balance p + delta\<rparr>)\<rparr>)"
    using hp d by (intro solv_debt_set_pool [OF inv']) (auto simp: claims_def dest: solv_debtD [OF inv'])
  with Some show ?thesis
    by (simp add: reward_def solvent_def)
qed

section \<open>Reachable states with rewards\<close>

inductive_cases step_ext_cases: "step_ext period (s, c) (s', c')"

lemma solvent_init: "solvent initialState"
  by (simp add: solvent_def solv_debt_def initialState_def)

lemma step_ext_solv:
  assumes "step_ext period (s, c) (s', c')" and "solvent s"
  shows "solvent s'"
  using assms
  by (auto elim!: step_ext_cases step_cases intro: process_tx_solv on_block_solv reward_solv)

lemma reachable_ext_solv: "reachable_ext period c0 sc \<Longrightarrow> solvent (fst sc)"
proof (induction rule: reachable_ext.induct)
  case init
  show ?case by (simp add: solvent_init)
next
  case (run sc sc')
  then show ?case
    by (cases sc; cases sc') (auto intro: step_ext_solv)
qed

section \<open>Properties\<close>

text \<open>C6. Solvency under rewards: in every state the host reaches from the
  initial state by paired transactions, end-of-block passes and non-negative
  rewards, every pool holds at least one coin per share
  (\<open>0 \<le> shares \<le> balance\<close>), and the shares its delegators hold plus the
  shares waiting in the queue never exceed its total, so no conversion of the
  code creates a share and every delegator's and every queued claim is backed
  by the pool.\<close>

theorem reachable_ext_solvent:
  assumes "reachable_ext period c0 (s, c)" and "bonded s k = Some p"
  shows "0 \<le> shares p \<and> shares p \<le> balance p \<and>
         ledger_total (accounts p) + pending (unbonding s) k \<le> shares p"
proof -
  from reachable_ext_solv [OF assms(1)] have "solv_debt {#} s"
    by (simp add: solvent_def)
  from solv_debtD [OF this assms(2)] show ?thesis
    by (simp add: claims_def)
qed

theorem reachable_ext_solvent_witness:
  "reachable_ext 10 reward_c0 (rw_s3, rw_chain 0 (-1)) \<and>
   0 \<le> (3::int) \<and> (3::int) \<le> 4 \<and>
   ledger_total [''alice'' \<mapsto> \<lparr>acct_balance = 0, acct_sequence = 1\<rparr>] +
     pending [entry ''alice'' 10 3] ''v'' \<le> 3"
  using reward_reachable_s3 reachable_ext_solvent [OF reward_reachable_s3, of "''v''"] by simp

end
