(* ===== verification/Progress.thy ===== *)
theory Progress
  imports Invariants
begin

text \<open>
  Liveness of the unbonding queue for runs from the initial state: one
  unbonding period after any reachable state, a single end-of-block pass pays
  out every entry the queue held, so no withdrawal waits longer than the
  period.
\<close>

section \<open>Lemmas\<close>

lemma staking_inv_pool:
  "staking_inv period g s c \<Longrightarrow> bonded s k = Some p \<Longrightarrow> unit_pool p \<and> ledger_wf (accounts p)"
  by (simp add: staking_inv_def inv_debt_def)

lemma staking_inv_drained:
  assumes "staking_inv period g s c"
  shows "\<exists>s'. on_block s (c\<lparr>height := height c + period\<rparr>) = Inr s' \<and> unbonding s' = []"
proof -
  from on_block_inv [OF assms, of "height c + period"] obtain s'
    where ob: "on_block s (c\<lparr>height := height c + period\<rparr>) = Inr s'"
    by auto
  from assms have "\<forall>e\<in>set (unbonding s). matured (height c + period) e"
    by (auto simp: staking_inv_def inv_debt_def matured_def)
  then have "dropWhile (matured (height c + period)) (unbonding s) = []"
    by simp
  with ob have "unbonding s' = []"
    by (auto simp: on_block_def drain_prefix split: sum.splits)
  with ob show ?thesis
    by blast
qed

section \<open>Properties\<close>

text \<open>C7. Liveness of the unbonding queue: from any reachable state, the
  end-of-block pass at the height one unbonding period later returns normally
  and leaves the queue empty, so every withdrawal queued so far has been paid
  out by then.\<close>

theorem reachable_queue_drains:
  assumes "reachable period c0 (s, c)"
  shows "\<exists>s'. on_block s (c\<lparr>height := height c + period\<rparr>) = Inr s' \<and> unbonding s' = []"
  using staking_inv_drained reachable_inv_all [OF assms] by simp

end
