(* ===== verification/Block_Loop.thy ===== *)
theory Block_Loop
  imports Unbonding "HOL-Library.While_Combinator"
begin

text \<open>
  The end-of-block pass kept in the shape of the source: lines 135--157 are a
  \<open>while\<close> loop over the queue, modelled with \<open>while_option\<close> on the loop's
  variables (the pools, the unbonded ledger and the queue). A thrown error
  leaves the loop as an \<open>Inl\<close> state on which the guard fails. The theory
  proves that the loop terminates on every state and that it computes what
  the recursive \<open>drain\<close> of theory \<open>Unbonding\<close> computes.
\<close>

section \<open>The loop\<close>

type_synonym loop_state = "error + ((key \<rightharpoonup> pool) \<times> ledger \<times> unbonding_entry list)"

text \<open>Line 135: \<open>unbonding[0] != null && unbonding[0].height <= chain.height\<close>.\<close>

definition loop_cond :: "nat \<Rightarrow> loop_state \<Rightarrow> bool" where
  "loop_cond h st = (case st of Inr (bs, ub, e # q) \<Rightarrow> ue_height e \<le> h | _ \<Rightarrow> False)"

text \<open>Lines 136--156: shift the head off the queue and settle it; a throw
  ends the pass.\<close>

definition loop_body :: "loop_state \<Rightarrow> loop_state" where
  "loop_body st =
     (case st of
        Inr (bs, ub, e # q) \<Rightarrow>
          (case settle_entry bs ub e of
             Inl err \<Rightarrow> Inl err
           | Inr (bs', ub') \<Rightarrow> Inr (bs', ub', q))
      | _ \<Rightarrow> st)"

text \<open>Lines 133--158: the loop run from the state's pools, ledger and queue;
  \<open>None\<close> would be a pass that never ends.\<close>

definition on_block_loop :: "state \<Rightarrow> chain \<Rightarrow> (error + state) option" where
  "on_block_loop s c =
     map_option
       (\<lambda>st. case st of
               Inl err \<Rightarrow> Inl err
             | Inr (bs, ub, q) \<Rightarrow> Inr (s\<lparr>bonded := bs, unbonding := q, unbonded := ub\<rparr>))
       (while_option (loop_cond (height c)) loop_body (Inr (bonded s, unbonded s, unbonding s)))"

text \<open>What the loop has left to do: nothing once it has thrown, one more than
  the queue's length otherwise.\<close>

definition loop_measure :: "loop_state \<Rightarrow> nat" where
  "loop_measure st = (case st of Inl _ \<Rightarrow> 0 | Inr (_, _, q) \<Rightarrow> Suc (length q))"

section \<open>Lemmas\<close>

lemma loop_body_decreases:
  "loop_cond h st \<Longrightarrow> loop_measure (loop_body st) < loop_measure st"
  by (auto simp: loop_cond_def loop_body_def loop_measure_def
           split: sum.splits list.splits prod.splits)

lemma loop_drain:
  "while_option (loop_cond h) loop_body (Inr (bs, ub, q)) = Some (drain h bs ub q)"
proof (induction q arbitrary: bs ub)
  case Nil
  show ?case
    by (subst while_option_unfold) (simp add: loop_cond_def)
next
  case (Cons e q)
  show ?case
  proof (cases "ue_height e \<le> h")
    case True
    show ?thesis
    proof (cases "settle_entry bs ub e")
      case (Inl err)
      with True show ?thesis
        by (simp add: while_option_unfold [of _ _ "Inr (bs, ub, e # q)"]
                      while_option_unfold [of _ _ "Inl err"] loop_cond_def loop_body_def)
    next
      case (Inr r)
      with True Cons.IH show ?thesis
        by (cases r) (simp add: while_option_unfold [of _ _ "Inr (bs, ub, e # q)"]
                                loop_cond_def loop_body_def)
    qed
  next
    case False
    then show ?thesis
      by (subst while_option_unfold) (simp add: loop_cond_def)
  qed
qed

section \<open>Properties\<close>

text \<open>C13. The \<open>while\<close> loop of \<open>onBlock\<close> terminates on every state: each
  round shifts one entry off the queue or throws.\<close>

theorem on_block_loop_terminates: "\<exists>r. on_block_loop s c = Some r"
proof -
  have "\<exists>st. while_option (loop_cond (height c)) loop_body (Inr (bonded s, unbonded s, unbonding s)) = Some st"
    by (rule measure_while_option_Some [where P = "\<lambda>_. True" and f = loop_measure])
       (simp_all add: loop_body_decreases)
  then show ?thesis
    by (auto simp: on_block_loop_def)
qed

text \<open>The loop as written computes the recursive model: \<open>onBlock\<close>'s
  \<open>while\<close> loop returns exactly what \<open>on_block\<close> returns, errors included.\<close>

theorem on_block_loop_eq: "on_block_loop s c = Some (on_block s c)"
  by (simp add: on_block_loop_def on_block_def loop_drain split: sum.splits)

end
