(* ===== verification/Accounts.thy ===== *)
theory Accounts
  imports Transaction
begin

text \<open>
  The dispatch of \<open>coins.accounts(handlers)\<close> (line 17): every debit and
  credit the code makes through \<open>accounts.onInput\<close> and \<open>accounts.onOutput\<close>
  is handed to the handler registered for the account's \<open>type\<close>, and a type
  with no handler throws. The theory gives the entry points with that
  dispatch at the places the source calls the accounts handler: first thing in
  the unbonded branch of \<open>onInput\<close> (line 31), after the pool lookup in the
  bonded branch (line 53), at the credit of a bond
  (line 125), and at the credit of each matured entry (line 156). The unbond
  branch of \<open>onOutput\<close> calls no account handler. When every type involved
  has a handler, the entry points are those of theory \<open>Handlers\<close> and
  \<open>Unbonding\<close>.
\<close>

section \<open>Account handlers\<close>

datatype account_handler = Ed25519_account | Secp256k1_account | Multisig_account
  | Custom_account string

type_synonym handler_table = "string \<rightharpoonup> account_handler"

definition known_kind :: "handler_table \<Rightarrow> string \<Rightarrow> bool" where
  "known_kind kinds typ \<longleftrightarrow> kinds typ \<noteq> None"

definition unknown_kind :: "string \<Rightarrow> error" where
  "unknown_kind typ = Account (Unknown_account_type typ)"

section \<open>Entry points with the dispatch\<close>

definition on_input_k ::
  "handler_table \<Rightarrow> tx_input \<Rightarrow> state \<Rightarrow> chain \<Rightarrow> error + (state \<times> chain \<times> requirement option)" where
  "on_input_k kinds i s c =
     (if in_unbonded i then
        (if known_kind kinds (in_type i) then on_input i s c else Inl (unknown_kind (in_type i)))
      else if in_bonded i then
        (let k = to_lower (in_validatorPubkey i) in
         case bonded s k of
           None \<Rightarrow> Inl (No_staking_state k)
         | Some _ \<Rightarrow>
             if known_kind kinds (in_type i) then on_input i s c
             else Inl (unknown_kind (in_type i)))
      else Inl Must_withdraw)"

definition on_output_k ::
  "handler_table \<Rightarrow> nat \<Rightarrow> tx_output \<Rightarrow> state \<Rightarrow> chain \<Rightarrow> error + (state \<times> chain)" where
  "on_output_k kinds period out s c =
     (if \<not> out_unbond out \<and> out_bond out \<and> \<not> known_kind kinds (out_type out)
      then Inl (unknown_kind (out_type out))
      else on_output period out s c)"

definition settle_entry_k ::
  "handler_table \<Rightarrow> (key \<rightharpoonup> pool) \<Rightarrow> ledger \<Rightarrow> unbonding_entry \<Rightarrow>
     error + ((key \<rightharpoonup> pool) \<times> ledger)" where
  "settle_entry_k kinds bs ub e =
     (case settle_entry bs ub e of
        Inl err \<Rightarrow> Inl err
      | Inr r \<Rightarrow> if known_kind kinds (ue_type e) then Inr r else Inl (unknown_kind (ue_type e)))"

fun drain_k ::
  "handler_table \<Rightarrow> nat \<Rightarrow> (key \<rightharpoonup> pool) \<Rightarrow> ledger \<Rightarrow> unbonding_entry list \<Rightarrow>
     error + ((key \<rightharpoonup> pool) \<times> ledger \<times> unbonding_entry list)" where
  "drain_k kinds h bs ub [] = Inr (bs, ub, [])"
| "drain_k kinds h bs ub (e # q) =
     (if ue_height e \<le> h then
        (case settle_entry_k kinds bs ub e of
           Inl err \<Rightarrow> Inl err
         | Inr (bs', ub') \<Rightarrow> drain_k kinds h bs' ub' q)
      else Inr (bs, ub, e # q))"

definition on_block_k :: "handler_table \<Rightarrow> state \<Rightarrow> chain \<Rightarrow> error + state" where
  "on_block_k kinds s c =
     (case drain_k kinds (height c) (bonded s) (unbonded s) (unbonding s) of
        Inl err \<Rightarrow> Inl err
      | Inr (bs, ub, q) \<Rightarrow> Inr (s\<lparr>bonded := bs, unbonding := q, unbonded := ub\<rparr>))"

section \<open>Transactions with the dispatch\<close>

fun run_inputs_k ::
  "handler_table \<Rightarrow> tx_input list \<Rightarrow> state \<Rightarrow> chain \<Rightarrow> error + (state \<times> chain \<times> requirement list)" where
  "run_inputs_k kinds [] s c = Inr (s, c, [])"
| "run_inputs_k kinds (i # ins) s c =
     (case on_input_k kinds i s c of
        Inl err \<Rightarrow> Inl err
      | Inr (s', c', r) \<Rightarrow>
          (case run_inputs_k kinds ins s' c' of
             Inl err \<Rightarrow> Inl err
           | Inr (s'', c'', rs) \<Rightarrow> Inr (s'', c'', (case r of None \<Rightarrow> rs | Some q \<Rightarrow> q # rs))))"

fun run_outputs_k ::
  "handler_table \<Rightarrow> nat \<Rightarrow> tx_output list \<Rightarrow> state \<Rightarrow> chain \<Rightarrow> error + (state \<times> chain)" where
  "run_outputs_k kinds period [] s c = Inr (s, c)"
| "run_outputs_k kinds period (out # outs) s c =
     (case on_output_k kinds period out s c of
        Inl err \<Rightarrow> Inl err
      | Inr (s', c') \<Rightarrow> run_outputs_k kinds period outs s' c')"

definition process_tx_k :: "handler_table \<Rightarrow> nat \<Rightarrow> tx \<Rightarrow> state \<Rightarrow> chain \<Rightarrow> error + (state \<times> chain)" where
  "process_tx_k kinds period t s c =
     (case run_inputs_k kinds (tx_inputs t) s c of
        Inl err \<Rightarrow> Inl err
      | Inr (s1, c1, rs) \<Rightarrow>
          (case run_outputs_k kinds period (tx_outputs t) s1 c1 of
             Inl err \<Rightarrow> Inl err
           | Inr (s2, c2) \<Rightarrow>
               (case filter (\<lambda>r. \<not> list_ex (output_matches r) (tx_outputs t)) rs of
                  [] \<Rightarrow> Inr (s2, c2)
                | r # _ \<Rightarrow> Inl (Missing_output r))))"

text \<open>Every queued entry's type has a handler, so its credit at maturity
  (line 156) cannot throw for want of one.\<close>

definition queue_known :: "handler_table \<Rightarrow> state \<Rightarrow> bool" where
  "queue_known kinds s \<longleftrightarrow> list_all (\<lambda>e. known_kind kinds (ue_type e)) (unbonding s)"

section \<open>Lemmas\<close>

lemma on_input_k_known: "known_kind kinds (in_type i) \<Longrightarrow> on_input_k kinds i s c = on_input i s c"
  by (auto simp: on_input_k_def on_input_def withdraw_bonded_def Let_def split: option.splits)

lemma on_output_k_known:
  "known_kind kinds (out_type out) \<Longrightarrow> on_output_k kinds period out s c = on_output period out s c"
  by (simp add: on_output_k_def)

lemma run_inputs_k_known:
  "\<forall>i\<in>set ins. known_kind kinds (in_type i) \<Longrightarrow> run_inputs_k kinds ins s c = run_inputs ins s c"
  by (induction ins arbitrary: s c) (auto simp: on_input_k_known split: sum.splits)

lemma run_outputs_k_known:
  "\<forall>out\<in>set outs. known_kind kinds (out_type out) \<Longrightarrow>
     run_outputs_k kinds period outs s c = run_outputs period outs s c"
  by (induction outs arbitrary: s c) (auto simp: on_output_k_known split: sum.splits)

lemma drain_k_known:
  "\<forall>e\<in>set q. known_kind kinds (ue_type e) \<Longrightarrow> drain_k kinds h bs ub q = drain h bs ub q"
  by (induction q arbitrary: bs ub) (auto simp: settle_entry_k_def split: sum.splits)

lemma on_input_k_Inr_known: "on_input_k kinds i s c = Inr x \<Longrightarrow> known_kind kinds (in_type i)"
  by (auto simp: on_input_k_def Let_def split: if_splits option.splits)

lemma run_inputs_k_Inr_known:
  "run_inputs_k kinds ins s c = Inr x \<Longrightarrow> \<forall>i\<in>set ins. known_kind kinds (in_type i)"
  by (induction ins arbitrary: s c x)
     (auto simp: on_input_k_Inr_known split: sum.splits prod.splits)

lemma run_outputs_k_Inr:
  "run_outputs_k kinds period outs s c = Inr r \<Longrightarrow> run_outputs period outs s c = Inr r"
  by (induction outs arbitrary: s c)
     (auto simp: on_output_k_def split: sum.splits if_splits)

lemma run_inputs_unbonding:
  "run_inputs ins s c = Inr (s', c', rs) \<Longrightarrow> unbonding s' = unbonding s"
proof (induction ins arbitrary: s c rs)
  case (Cons i ins)
  then show ?case
    by (auto simp: on_input_Inr withdraw_unbonded_Inr withdraw_bonded_Inr
        split: sum.splits prod.splits option.splits)
qed simp

lemma on_output_queue:
  "on_output period out s c = Inr (s', c') \<Longrightarrow> e \<in> set (unbonding s') \<Longrightarrow>
     e \<in> set (unbonding s) \<or> (out_unbond out \<and> ue_type e = out_type out)"
  by (auto simp: on_output_Inr unbond_output_Inr bond_output_def new_entry_def Let_def)

lemma run_outputs_queue_types:
  "run_outputs period outs s c = Inr (s', c') \<Longrightarrow> e \<in> set (unbonding s') \<Longrightarrow>
     e \<in> set (unbonding s) \<or> (\<exists>out\<in>set outs. out_unbond out \<and> ue_type e = out_type out)"
proof (induction outs arbitrary: s c)
  case (Cons out outs)
  then obtain s1 c1 where o: "on_output period out s c = Inr (s1, c1)"
    and r: "run_outputs period outs s1 c1 = Inr (s', c')"
    by (auto split: sum.splits)
  from Cons.IH [OF r Cons.prems(2)] on_output_queue [OF o] show ?case
    by auto
qed simp

lemma paired_unbond_type:
  assumes "paired_tx t" "out \<in> set (tx_outputs t)" "out_unbond out"
  shows "\<exists>i\<in>set (tx_inputs t). in_type i = out_type out"
proof -
  have "mset (List.map_filter input_req (tx_inputs t)) = mset (List.map_filter output_req (tx_outputs t))"
    using assms(1) by (simp add: paired_tx_def)
  from mset_eq_setD [OF this] output_req_mem [OF assms(2,3)]
  have "\<lparr>req_type = out_type out, req_amount = out_amount out, req_address = out_address out,
      req_validatorPubkey = out_validatorPubkey out\<rparr> \<in> set (List.map_filter input_req (tx_inputs t))"
    by simp
  from input_req_type [OF this] show ?thesis
    by simp
qed

lemma on_block_k_known:
  "queue_known kinds s \<Longrightarrow> on_block_k kinds s c = on_block s c"
  by (simp add: queue_known_def list_all_iff on_block_k_def on_block_def drain_k_known)

lemma process_tx_k_Inr:
  assumes "process_tx_k kinds period t s c = Inr (s', c')"
  shows "process_tx period t s c = Inr (s', c')"
proof -
  obtain s1 c1 rs where ins: "run_inputs_k kinds (tx_inputs t) s c = Inr (s1, c1, rs)"
    and outs: "run_outputs_k kinds period (tx_outputs t) s1 c1 = Inr (s', c')"
    using assms by (auto simp: process_tx_k_def split: sum.splits list.splits)
  have "run_inputs (tx_inputs t) s c = Inr (s1, c1, rs)"
    using ins run_inputs_k_Inr_known [OF ins] by (simp add: run_inputs_k_known)
  then show ?thesis
    using assms ins outs run_outputs_k_Inr [OF outs]
    by (simp add: process_tx_k_def process_tx_def split: list.splits)
qed

lemma queue_known_process_tx_k:
  assumes "process_tx_k kinds period t s c = Inr (s', c')"
    and "paired_tx t" and "queue_known kinds s"
  shows "queue_known kinds s'"
proof -
  obtain s1 c1 rs where ins: "run_inputs_k kinds (tx_inputs t) s c = Inr (s1, c1, rs)"
    and outs: "run_outputs_k kinds period (tx_outputs t) s1 c1 = Inr (s', c')"
    using assms(1) by (auto simp: process_tx_k_def split: sum.splits list.splits)
  have known: "\<forall>i\<in>set (tx_inputs t). known_kind kinds (in_type i)"
    using ins by (rule run_inputs_k_Inr_known)
  have q: "unbonding s1 = unbonding s"
    using ins known by (simp add: run_inputs_k_known run_inputs_unbonding)
  have run: "run_outputs period (tx_outputs t) s1 c1 = Inr (s', c')"
    using outs by (rule run_outputs_k_Inr)
  show ?thesis
    unfolding queue_known_def list_all_iff
  proof
    fix e
    assume e: "e \<in> set (unbonding s')"
    from run_outputs_queue_types [OF run e] show "known_kind kinds (ue_type e)"
    proof
      assume "e \<in> set (unbonding s1)"
      then show ?thesis
        using assms(3) q by (simp add: queue_known_def list_all_iff)
    next
      assume "\<exists>out\<in>set (tx_outputs t). out_unbond out \<and> ue_type e = out_type out"
      then obtain out where "out \<in> set (tx_outputs t)" "out_unbond out" "ue_type e = out_type out"
        by blast
      then show ?thesis
        using paired_unbond_type [OF assms(2)] known by metis
    qed
  qed
qed

lemma queue_known_on_block:
  "on_block s c = Inr s' \<Longrightarrow> queue_known kinds s \<Longrightarrow> queue_known kinds s'"
  by (auto simp: on_block_settles_prefix queue_known_def list_all_iff split: sum.splits prod.splits)
     (meson set_dropWhileD)

section \<open>Properties\<close>

text \<open>C9. A paired transaction queues only entries of known type: an unbond
  output's own type is never dispatched (lines 76--95), but pairing makes it
  the type of a bonded input, which the dispatch of line 53 checked.\<close>

theorem process_tx_k_queue_known:
  assumes "process_tx_k kinds period t s c = Inr (s', c')"
    and "paired_tx t" and "queue_known kinds s"
  shows "queue_known kinds s'"
  using assms by (rule queue_known_process_tx_k)

end
