(* ===== verification/Module.thy ===== *)
theory Module
  imports Accounts
begin

text \<open>
  The module itself, lines 8--24 of \<open>src/index.js\<close>: \<open>staking(opts)\<close> reads
  the unbonding period from the options (line 9), builds the table of account
  handlers by \<open>Object.assign\<close> of the three built-in kinds and
  \<open>opts.handlers\<close> (lines 12--16), and returns the initial state and the three
  entry points, closed over the period. The handler table is what
  \<open>coins.accounts\<close> (line 17) dispatches on by an account's \<open>type\<close>: the
  entry points are those of theory \<open>Accounts\<close>, given this table.
\<close>

section \<open>Options and account handlers\<close>

text \<open>\<open>opts\<close>: an optional unbonding period and optional extra handlers;
  an absent \<open>opts.handlers\<close> is the empty table.\<close>

record options =
  opt_unbondingPeriod :: "nat option"
  opt_handlers :: handler_table

text \<open>Lines 12--16: the built-in kinds.\<close>

definition default_handlers :: handler_table where
  "default_handlers =
     [''ed25519'' \<mapsto> Ed25519_account, ''secp256k1'' \<mapsto> Secp256k1_account,
      ''multisig'' \<mapsto> Multisig_account]"

text \<open>\<open>Object.assign(defaults, opts.handlers)\<close>: a kind given in the options
  replaces the built-in one.\<close>

definition account_handlers :: "options \<Rightarrow> handler_table" where
  "account_handlers opts = default_handlers ++ opt_handlers opts"

section \<open>The module\<close>

text \<open>The object \<open>staking(opts)\<close> returns (lines 19--159), with the period
  and the handler table it closes over.\<close>

record staking_module =
  mod_unbondingPeriod :: nat
  mod_handlers :: handler_table
  mod_initialState :: state
  mod_onInput :: "tx_input \<Rightarrow> state \<Rightarrow> chain \<Rightarrow> error + (state \<times> chain \<times> requirement option)"
  mod_onOutput :: "tx_output \<Rightarrow> state \<Rightarrow> chain \<Rightarrow> error + (state \<times> chain)"
  mod_onBlock :: "state \<Rightarrow> chain \<Rightarrow> error + state"

definition staking :: "options \<Rightarrow> staking_module" where
  "staking opts =
     (let period = unbonding_period (opt_unbondingPeriod opts);
          kinds = account_handlers opts
      in \<lparr>mod_unbondingPeriod = period, mod_handlers = kinds,
          mod_initialState = initialState, mod_onInput = on_input_k kinds,
          mod_onOutput = on_output_k kinds period, mod_onBlock = on_block_k kinds\<rparr>)"

text \<open>\<open>staking()\<close>, with no options.\<close>

definition no_options :: options where
  "no_options = \<lparr>opt_unbondingPeriod = None, opt_handlers = Map.empty\<rparr>"

text \<open>A transaction run through the module's own entry points.\<close>

definition module_tx :: "staking_module \<Rightarrow> tx \<Rightarrow> state \<Rightarrow> chain \<Rightarrow> error + (state \<times> chain)" where
  "module_tx m t s c = process_tx_k (mod_handlers m) (mod_unbondingPeriod m) t s c"

section \<open>Lemmas\<close>

lemma staking_simps [simp]:
  "mod_unbondingPeriod (staking opts) = unbonding_period (opt_unbondingPeriod opts)"
  "mod_handlers (staking opts) = account_handlers opts"
  "mod_initialState (staking opts) = initialState"
  "mod_onInput (staking opts) = on_input_k (account_handlers opts)"
  "mod_onOutput (staking opts) =
     on_output_k (account_handlers opts) (unbonding_period (opt_unbondingPeriod opts))"
  "mod_onBlock (staking opts) = on_block_k (account_handlers opts)"
  by (simp_all add: staking_def Let_def)

lemma default_kinds_known:
  "known_kind (account_handlers no_options) ''ed25519''"
  "known_kind (account_handlers no_options) ''secp256k1''"
  "known_kind (account_handlers no_options) ''multisig''"
  by (simp_all add: known_kind_def account_handlers_def default_handlers_def no_options_def)

end
