(* ===== verification/Module_Run.thy ===== *)
theory Module_Run
  imports Module Progress
begin

text \<open>
  Runs of the module itself: the host drives the object \<open>staking(opts)\<close>
  returns, feeding paired transactions through its dispatching entry points
  (theory \<open>Accounts\<close>) and calling its \<open>onBlock\<close> at non-decreasing heights.
  Every such run is a run of the step relation of theory \<open>Invariants\<close>, for
  the module's period, in which every queued entry's type has a handler; so
  every invariant proved there holds of the module, and its end-of-block pass
  never throws on a state it reached.
\<close>

section \<open>Steps and runs of the module\<close>

inductive module_step :: "staking_module \<Rightarrow> state \<times> chain \<Rightarrow> state \<times> chain \<Rightarrow> bool"
  for m where
  module_tx_step: "paired_tx t \<Longrightarrow> module_tx m t s c = Inr (s', c') \<Longrightarrow>
     module_step m (s, c) (s', c')"
| module_block_step: "height c \<le> h \<Longrightarrow> mod_onBlock m s (c\<lparr>height := h\<rparr>) = Inr s' \<Longrightarrow>
     module_step m (s, c) (s', c\<lparr>height := h\<rparr>)"

inductive module_reachable :: "staking_module \<Rightarrow> chain \<Rightarrow> state \<times> chain \<Rightarrow> bool"
  for m c0 where
  module_init: "module_reachable m c0 (mod_initialState m, c0)"
| module_run: "module_reachable m c0 sc \<Longrightarrow> module_step m sc sc' \<Longrightarrow> module_reachable m c0 sc'"

inductive_cases module_step_cases: "module_step m (s, c) (s', c')"

section \<open>Simulation\<close>

text \<open>One step of the module, from a state whose queued types all have a
  handler, is a step of the core relation and keeps that property.\<close>

lemma module_tx_sim:
  assumes "paired_tx t" and "module_tx (staking opts) t s c = Inr (s', c')"
    and "queue_known (account_handlers opts) s"
  shows "step (unbonding_period (opt_unbondingPeriod opts)) (s, c) (s', c') \<and>
         queue_known (account_handlers opts) s'"
proof -
  have run: "process_tx_k (account_handlers opts) (unbonding_period (opt_unbondingPeriod opts))
               t s c = Inr (s', c')"
    using assms(2) by (simp add: module_tx_def)
  show ?thesis
    using step.tx_step [OF assms(1) process_tx_k_Inr [OF run]]
      queue_known_process_tx_k [OF run assms(1,3)] by simp
qed

lemma module_block_sim:
  assumes "height c \<le> h" and "mod_onBlock (staking opts) s (c\<lparr>height := h\<rparr>) = Inr s'"
    and "queue_known (account_handlers opts) s"
  shows "step (unbonding_period (opt_unbondingPeriod opts)) (s, c) (s', c\<lparr>height := h\<rparr>) \<and>
         queue_known (account_handlers opts) s'"
proof -
  have run: "on_block s (c\<lparr>height := h\<rparr>) = Inr s'"
    using assms(2) on_block_k_known [OF assms(3)] by simp
  show ?thesis
    using step.block_step [OF assms(1) run] queue_known_on_block [OF run assms(3)] by simp
qed

lemma module_step_sim:
  assumes "module_step (staking opts) (s, c) (s', c')"
    and "queue_known (account_handlers opts) s"
  shows "step (unbonding_period (opt_unbondingPeriod opts)) (s, c) (s', c') \<and>
         queue_known (account_handlers opts) s'"
  using assms by (cases rule: module_step_cases) (auto dest: module_tx_sim module_block_sim)

lemma module_reachable_sim:
  "module_reachable (staking opts) c0 sc \<Longrightarrow>
     reachable (unbonding_period (opt_unbondingPeriod opts)) c0 sc \<and>
     queue_known (account_handlers opts) (fst sc)"
proof (induction rule: module_reachable.induct)
  case module_init
  show ?case
    using reachable.init by (simp add: queue_known_def initialState_def)
next
  case (module_run sc sc')
  then show ?case
    using module_step_sim [of opts "fst sc" "snd sc" "fst sc'" "snd sc'"]
    by (auto intro: reachable.run)
qed

section \<open>Properties\<close>

text \<open>C10. On every state the module reaches, its \<open>onBlock\<close> at any height
  no lower than the current one returns normally: no missing pool, no
  non-finite amount and no type without a handler. A run of paired
  transactions cannot halt the chain the way the unpaired unbond output of
  an unknown type does.\<close>

theorem module_on_block_total:
  assumes "module_reachable (staking opts) c0 (s, c)" and "height c \<le> h"
  shows "\<exists>s'. mod_onBlock (staking opts) s (c\<lparr>height := h\<rparr>) = Inr s'"
proof -
  have r: "reachable (unbonding_period (opt_unbondingPeriod opts)) c0 (s, c)"
    and q: "queue_known (account_handlers opts) s"
    using module_reachable_sim [OF assms(1)] by simp_all
  show ?thesis
    using on_block_inv [OF reachable_inv_all [OF r, simplified] assms(2)] on_block_k_known [OF q]
    by auto
qed

text \<open>C11. The module pays every withdrawal within one period: from every
  state it reaches, its own \<open>onBlock\<close> one unbonding period later is a step
  of the module to a state it reaches with an empty queue.\<close>

theorem module_queue_drains:
  assumes "module_reachable (staking opts) c0 (s, c)"
  shows "\<exists>s'. module_step (staking opts) (s, c)
                (s', c\<lparr>height := height c + unbonding_period (opt_unbondingPeriod opts)\<rparr>) \<and>
              module_reachable (staking opts) c0
                (s', c\<lparr>height := height c + unbonding_period (opt_unbondingPeriod opts)\<rparr>) \<and>
              unbonding s' = []"
proof -
  let ?c = "c\<lparr>height := height c + unbonding_period (opt_unbondingPeriod opts)\<rparr>"
  have r: "reachable (unbonding_period (opt_unbondingPeriod opts)) c0 (s, c)"
    and q: "queue_known (account_handlers opts) s"
    using module_reachable_sim [OF assms] by simp_all
  obtain s' where ob: "on_block s ?c = Inr s'" and e: "unbonding s' = []"
    using staking_inv_drained [OF reachable_inv_all [OF r, simplified]] by blast
  have "mod_onBlock (staking opts) s ?c = Inr s'"
    using ob on_block_k_known [OF q] by simp
  then have st: "module_step (staking opts) (s, c) (s', ?c)"
    by (intro module_step.module_block_step) simp_all
  show ?thesis
    using st module_reachable.module_run [OF assms st] e by blast
qed

end
