(* ===== verification/Js_Number.thy ===== *)
theory Js_Number
  imports Progress
begin

text \<open>
  JavaScript numbers at the conversion sites. The code computes every
  conversion in IEEE doubles, which hold every integer up to
  \<open>Number.MAX_SAFE_INTEGER\<close>, \<open>2^53 - 1\<close>, exactly; the source leaves the bound
  unchecked (the TODOs of lines 45 and 111), and the model reads the
  conversions as exact integer arithmetic. This theory lists, per site, the
  integers the code forms before each \<open>Math.floor\<close> (the products of lines
  46--47, 85--86, 112--117 and 146--149) and proves that in every reachable
  state they are safe integers while a pool and the amount moved into it stay
  within \<open>90,071,992\<close> coins, \<open>MAX_SAFE_INTEGER div 1e8\<close>.
\<close>

section \<open>Safe integers\<close>

definition max_safe_integer :: int where
  "max_safe_integer = 2 ^ 53 - 1"

definition js_safe :: "int \<Rightarrow> bool" where
  "js_safe x \<longleftrightarrow> - max_safe_integer \<le> x \<and> x \<le> max_safe_integer"

text \<open>The largest coin amount whose scaled value is a safe integer.\<close>

definition safe_coins :: int where
  "safe_coins = max_safe_integer div scale"

section \<open>The integers each conversion forms\<close>

text \<open>Lines 46--47 and 85--86: \<open>1e8 * validator.shares\<close>, then
  \<open>amount * sharesPerCoin\<close> (on a zero balance the quotient is not finite and
  the model stops with \<open>Non_finite_amount\<close>).\<close>

definition unbond_intermediates :: "pool \<Rightarrow> nat \<Rightarrow> int list" where
  "unbond_intermediates p a =
     scale * shares p # (case shares_per_coin p of None \<Rightarrow> [] | Some spc \<Rightarrow> [int a * spc])"

text \<open>Lines 112--117: \<open>1e8 * validator.shares\<close>, \<open>amount * sharesPerCoin\<close> and
  the two new totals.\<close>

definition bond_intermediates :: "pool \<Rightarrow> nat \<Rightarrow> int list" where
  "bond_intermediates p a =
     (let spc = bond_shares_per_coin p
      in [scale * shares p, int a * spc, balance p + int a, shares p + to_shares a spc])"

text \<open>Lines 146--149: \<open>1e8 * validator.balance\<close>, then
  \<open>output.shares * coinsPerShare\<close>.\<close>

definition settle_intermediates :: "pool \<Rightarrow> int \<Rightarrow> int list" where
  "settle_intermediates p sh =
     scale * balance p # (case coins_per_share p of None \<Rightarrow> [] | Some cps \<Rightarrow> [sh * cps])"

section \<open>Lemmas\<close>

lemma scale_safe_coins: "scale * safe_coins \<le> max_safe_integer"
  by (simp add: safe_coins_def max_safe_integer_def scale_def)

lemma js_safe_scaled:
  assumes "0 \<le> x" and "x \<le> safe_coins"
  shows "js_safe (scale * x)"
proof -
  have "scale * x \<le> scale * safe_coins"
    using assms(2) by (simp add: mult_left_mono)
  moreover have "0 \<le> scale * x"
    using assms(1) by simp
  ultimately show ?thesis
    using scale_safe_coins unfolding js_safe_def by linarith
qed

lemma js_safe_coins: "0 \<le> x \<Longrightarrow> x \<le> safe_coins \<Longrightarrow> js_safe x"
  by (simp add: js_safe_def safe_coins_def max_safe_integer_def scale_def)

lemma unit_pool_spc:
  "unit_pool p \<Longrightarrow> bond_shares_per_coin p = scale"
  "unit_pool p \<Longrightarrow> 0 < balance p \<Longrightarrow> shares_per_coin p = Some scale"
  "unit_pool p \<Longrightarrow> coins_per_share p = Some scale"
  by (auto simp: unit_pool_def bond_shares_per_coin_def shares_per_coin_def coins_per_share_def)

lemma unit_pool_intermediates:
  assumes "unit_pool p" and "balance p + int a \<le> safe_coins"
  shows "list_all js_safe (unbond_intermediates p a)"
    and "list_all js_safe (bond_intermediates p a)"
proof -
  have b: "0 \<le> balance p" "shares p = balance p"
    using assms(1) by (simp_all add: unit_pool_def)
  have "js_safe (scale * int a)" "js_safe (scale * shares p)"
    using assms(2) b by (simp_all add: js_safe_scaled)
  moreover have "js_safe (balance p + int a)" "js_safe (shares p + int a)"
    using assms(2) b by (simp_all add: js_safe_coins)
  ultimately show "list_all js_safe (unbond_intermediates p a)"
      and "list_all js_safe (bond_intermediates p a)"
    using assms(1) b
    by (auto simp: unbond_intermediates_def bond_intermediates_def unit_pool_spc to_shares_def
        shares_per_coin_def mult.commute)
qed

lemma unit_pool_settle_intermediates:
  assumes "unit_pool p" and "balance p \<le> safe_coins" and "0 \<le> sh" and "sh \<le> shares p"
  shows "list_all js_safe (settle_intermediates p sh)"
proof -
  have b: "0 \<le> balance p" "shares p = balance p"
    using assms(1) by (simp_all add: unit_pool_def)
  have "js_safe (scale * balance p)" "js_safe (scale * sh)"
    using assms b by (simp_all add: js_safe_scaled)
  then show ?thesis
    using assms(1) by (simp add: settle_intermediates_def unit_pool_spc mult.commute)
qed

lemma entry_le_pending:
  "e \<in> set q \<Longrightarrow> \<forall>e\<in>set q. 0 \<le> ue_shares e \<Longrightarrow> ue_shares e \<le> pending q (ue_validatorPubkey e)"
proof (induction q)
  case (Cons e' q)
  then show ?case
    using pending_nonneg [of q] by auto
qed simp

lemma staking_inv_entry_le_shares:
  assumes "staking_inv period g s c" and "bonded s k = Some p"
    and "e \<in> set (unbonding s)" and "ue_validatorPubkey e = k"
  shows "0 \<le> ue_shares e \<and> ue_shares e \<le> shares p"
proof -
  have q: "\<forall>e\<in>set (unbonding s). 0 \<le> ue_shares e"
    and sh: "shares p = ledger_total (accounts p) + pending (unbonding s) k"
    and wf: "ledger_wf (accounts p)"
    using assms(1,2) by (auto simp: staking_inv_def inv_debt_def)
  show ?thesis
    using entry_le_pending [OF assms(3) q] q assms(3,4) sh ledger_total_nonneg [OF wf] by auto
qed

text \<open>The bound is tight at the first product: one coin more and
  \<open>1e8 * validator.shares\<close> of a 1:1 pool leaves the safe integers.\<close>

lemma safe_coins_tight:
  "safe_coins = 90071992 \<and> \<not> js_safe (scale * (safe_coins + 1))"
  by (simp add: safe_coins_def js_safe_def max_safe_integer_def scale_def)

section \<open>Properties\<close>

text \<open>C12. In every reachable state, while a pool holds at most
  \<open>90,071,992\<close> coins together with the amount a call moves into or out of
  it, every integer the code forms at the conversion sites is a safe
  integer: the withdrawal and unbond-output products, the bond products and
  new totals, and the settlement products of each queued entry of the pool.
  So the doubles compute exactly what the integer model computes.\<close>

theorem reachable_conversions_safe:
  assumes "reachable period c0 (s, c)" and "bonded s k = Some p"
    and "balance p + int a \<le> safe_coins"
  shows "list_all js_safe (unbond_intermediates p a) \<and> list_all js_safe (bond_intermediates p a) \<and>
         (\<forall>e\<in>set (unbonding s). ue_validatorPubkey e = k \<longrightarrow>
            list_all js_safe (settle_intermediates p (ue_shares e)))"
proof -
  have inv: "staking_inv period (validators c0) s c"
    using reachable_inv_all [OF assms(1)] by simp
  have u: "unit_pool p"
    using staking_inv_pool [OF inv assms(2)] by simp
  have "balance p \<le> safe_coins"
    using assms(3) by simp
  then show ?thesis
    using unit_pool_intermediates [OF u assms(3)] unit_pool_settle_intermediates [OF u]
      staking_inv_entry_le_shares [OF inv assms(2)] by blast
qed

end
