(* ===== verification/Open_Runs.thy ===== *)
theory Open_Runs
  imports Invariants
begin

text \<open>
  Runs of the host over every transaction the handlers accept, paired or not
  (the code does not enforce pairing, see the unpaired-output findings), and
  end-of-block passes at non-decreasing heights. What survives there is the
  typing of the keys: every pool is stored under a lower-cased key (line 99
  lower-cases before the lookup and the store), and every key with a pool
  holds a number in the voting table (line 119 reads a missing or \<open>NaN\<close>
  entry as zero before the bond adds to it, and line 56 only decrements keys
  that have a pool).
\<close>

section \<open>Steps over every accepted transaction\<close>

inductive open_step :: "nat \<Rightarrow> state \<times> chain \<Rightarrow> state \<times> chain \<Rightarrow> bool" for period where
  open_tx: "process_tx period t s c = Inr (s', c') \<Longrightarrow> open_step period (s, c) (s', c')"
| open_block: "height c \<le> h \<Longrightarrow> on_block s (c\<lparr>height := h\<rparr>) = Inr s' \<Longrightarrow>
     open_step period (s, c) (s', c\<lparr>height := h\<rparr>)"

inductive reachable_open :: "nat \<Rightarrow> chain \<Rightarrow> state \<times> chain \<Rightarrow> bool" for period c0 where
  open_init: "reachable_open period c0 (initialState, c0)"
| open_run: "reachable_open period c0 sc \<Longrightarrow> open_step period sc sc' \<Longrightarrow> reachable_open period c0 sc'"

section \<open>Typing of the keys\<close>

text \<open>A voting-table entry that is a number.\<close>

definition is_num :: "jsnum option \<Rightarrow> bool" where
  "is_num v = (case v of Some (Num _) \<Rightarrow> True | _ \<Rightarrow> False)"

definition keys_typed :: "state \<Rightarrow> chain \<Rightarrow> bool" where
  "keys_typed s c \<longleftrightarrow>
     (\<forall>k p. bonded s k = Some p \<longrightarrow> to_lower k = k \<and> is_num (validators c k))"

section \<open>Lemmas\<close>

lemma is_num_sub: "is_num (vp k') \<Longrightarrow> is_num (sub_voting_power vp k a k')"
  by (auto simp: is_num_def sub_voting_power_def split: option.splits jsnum.splits)

lemma on_input_keys:
  assumes inv: "keys_typed s c" and run: "on_input i s c = Inr (s', c', r)"
  shows "keys_typed s' c'"
  using run unfolding on_input_Inr
proof (elim disjE conjE)
  assume "withdraw_unbonded i s = Inr s'" "c' = c"
  then show ?thesis
    using inv by (auto simp: withdraw_unbonded_Inr keys_typed_def)
next
  assume "\<exists>q. withdraw_bonded i s c = Inr (s', c', q) \<and> r = Some q"
  then obtain p sh l where p: "bonded s (to_lower (in_validatorPubkey i)) = Some p"
    and s': "s' = s\<lparr>bonded := (bonded s)(to_lower (in_validatorPubkey i) \<mapsto> p\<lparr>accounts := l\<rparr>)\<rparr>"
    and c': "c' = c\<lparr>validators := sub_voting_power (validators c) (to_lower (in_validatorPubkey i))
                                    (int (in_amount i))\<rparr>"
    unfolding withdraw_bonded_Inr by blast
  show ?thesis
    unfolding keys_typed_def
  proof (intro allI impI)
    fix k p'
    assume k: "bonded s' k = Some p'"
    then have "bonded s k \<noteq> None"
      using p by (auto simp: s' split: if_splits)
    then have "to_lower k = k \<and> is_num (validators c k)"
      using inv by (auto simp: keys_typed_def)
    then show "to_lower k = k \<and> is_num (validators c' k)"
      by (simp add: c' is_num_sub del: sub_voting_power_at)
  qed
qed

lemma bond_output_keys:
  assumes "keys_typed s c" and "bond_output out s c = (s', c')"
  shows "keys_typed s' c'"
proof -
  define k where "k = to_lower (out_validatorPubkey out)"
  obtain p' where s': "s' = s\<lparr>bonded := (bonded s)(k \<mapsto> p')\<rparr>"
    and c': "c' = c\<lparr>validators := add_voting_power (validators c) k (int (out_amount out))\<rparr>"
    using assms(2) by (auto simp: bond_output_def Let_def k_def)
  have "to_lower k = k"
    by (simp add: k_def)
  then show ?thesis
    using assms(1) by (auto simp: keys_typed_def s' c' is_num_def)
qed

lemma on_output_keys:
  assumes "keys_typed s c" and "on_output period out s c = Inr (s', c')"
  shows "keys_typed s' c'"
  using assms bond_output_keys [OF assms(1)]
  by (auto simp: on_output_Inr unbond_output_Inr keys_typed_def)

lemma run_inputs_keys:
  "keys_typed s c \<Longrightarrow> run_inputs ins s c = Inr (s', c', rs) \<Longrightarrow> keys_typed s' c'"
proof (induction ins arbitrary: s c rs)
  case (Cons i ins)
  then show ?case
    by (auto split: sum.splits prod.splits dest: on_input_keys)
qed simp

lemma run_outputs_keys:
  "keys_typed s c \<Longrightarrow> run_outputs period outs s c = Inr (s', c') \<Longrightarrow> keys_typed s' c'"
proof (induction outs arbitrary: s c)
  case (Cons out outs)
  then show ?case
    by (auto split: sum.splits prod.splits dest: on_output_keys)
qed simp

lemma process_tx_keys:
  "keys_typed s c \<Longrightarrow> process_tx period t s c = Inr (s', c') \<Longrightarrow> keys_typed s' c'"
  by (auto simp: process_tx_def split: sum.splits prod.splits list.splits
      dest: run_inputs_keys run_outputs_keys)

text \<open>The end-of-block pass only updates pools it looked up (line 139).\<close>

lemma drain_dom:
  "drain h bs ub q = Inr (bs', ub', q') \<Longrightarrow> bs' k \<noteq> None \<longleftrightarrow> bs k \<noteq> None"
proof (induction q arbitrary: bs ub)
  case (Cons e q)
  then show ?case
    by (auto simp: settle_entry_def split: if_splits sum.splits option.splits prod.splits)
qed simp

lemma on_block_keys:
  assumes inv: "keys_typed s c" and run: "on_block s (c\<lparr>height := h\<rparr>) = Inr s'"
  shows "keys_typed s' (c\<lparr>height := h\<rparr>)"
proof -
  obtain bs ub q where d: "drain h (bonded s) (unbonded s) (unbonding s) = Inr (bs, ub, q)"
    and s': "s' = s\<lparr>bonded := bs, unbonding := q, unbonded := ub\<rparr>"
    using run by (auto simp: on_block_def split: sum.splits prod.splits)
  show ?thesis
    using inv drain_dom [OF d] by (auto simp: keys_typed_def s')
qed

lemma reachable_open_keys:
  "reachable_open period c0 sc \<Longrightarrow> keys_typed (fst sc) (snd sc)"
proof (induction rule: reachable_open.induct)
  case open_init
  show ?case
    by (simp add: keys_typed_def initialState_def)
next
  case (open_run sc sc')
  obtain s c s' c' where [simp]: "sc = (s, c)" "sc' = (s', c')"
    by (cases sc, cases sc')
  from open_run.hyps(2) open_run.IH show ?case
    by (auto elim!: open_step.cases dest: process_tx_keys on_block_keys)
qed

lemma reachable_open_of_reachable: "reachable period c0 sc \<Longrightarrow> reachable_open period c0 sc"
  by (induction rule: reachable.induct)
     (auto elim!: step.cases intro: reachable_open.intros open_step.intros)

section \<open>Properties\<close>

text \<open>C8. Over every run of accepted transactions, paired or not, and
  end-of-block passes, the key space keeps its type: every pool is stored
  under a lower-cased key, and every key with a pool holds a number, never
  \<open>NaN\<close> or nothing, in the voting table.\<close>

theorem reachable_open_keys_typed:
  assumes "reachable_open period c0 (s, c)" and "bonded s k = Some p"
  shows "to_lower k = k \<and> is_num (validators c k)"
  using reachable_open_keys [OF assms(1)] assms(2) by (simp add: keys_typed_def)

end
