(* ===== verification/Spec2Isabelle.thy ===== *)
theory Spec2Isabelle
  imports Invariants Solvency Progress Block_Loop Module_Run Js_Number Open_Runs
begin

text \<open>
  \<^bold>\<open>A verification library for the staking state machine of \<open>src/index.js\<close>.\<close>

  \<^emph>\<open>The program.\<close> \<open>src/index.js\<close> exports \<open>staking(opts)\<close>, a handler
  for the \<open>coins\<close> transaction framework with three entry points over the
  persisted state \<open>{bonded, unbonding, unbonded}\<close> and the host's chain object
  \<open>{height, validators}\<close>: \<open>onInput\<close> debits the unbonded ledger or starts a
  bonded withdrawal, \<open>onOutput\<close> bonds coins to a validator's pool or appends
  an entry to the unbonding queue, and \<open>onBlock\<close> drains the matured entries
  of the queue into the unbonded ledger. The pools convert between coins and
  shares in fixed point with scale \<open>1e8\<close>, and the voting-power table is
  raised on bond and lowered when a withdrawal starts.

  \<^emph>\<open>The theories, leaf first.\<close>
  \<^item> \<open>Prelude\<close>: type names (\<open>key\<close>, \<open>addr\<close>), the scale, floor-division
    lemmas, and \<open>toLowerCase\<close> on ASCII.
  \<^item> \<open>Ledger\<close>: the account-ledger adapter of the \<open>coins\<close> package (not in the
    repository; modelled from spec section 6): debit and credit with their
    effect on one account, on the total and on well-formedness.
  \<^item> \<open>Pool\<close>: the pool record and the inline conversions of lines 46--47,
    85--86, 112--116 and 145--150 (\<open>shares_per_coin\<close>, \<open>to_shares\<close>,
    \<open>unbond_shares\<close>, \<open>bond_shares_per_coin\<close>, \<open>bond_pool\<close>,
    \<open>coins_per_share\<close>, \<open>to_coins\<close>, \<open>settle_pool\<close>). Properties: bootstrap,
    no dilution by bond or settlement, settlement bounds, no minting on a round
    trip, exactness on 1:1 pools, and the one-coin-per-share payout of an
    empty pool (\<open>settle_zero_balance\<close>).
  \<^item> \<open>Handlers\<close>: the records of the state, the chain, inputs, outputs, queue
    entries and requirement patterns, and \<open>onInput\<close> (\<open>on_input\<close>, with its
    branches \<open>withdraw_unbonded\<close> and \<open>withdraw_bonded\<close>) and \<open>onOutput\<close>
    (\<open>on_output\<close>, with \<open>unbond_output\<close> and \<open>bond_output\<close>). Errors are
    \<open>Inl\<close> values; the effect of each successful branch, the error cases, the
    unguarded division at the withdrawal sites, replay protection through the
    account sequence numbers, and the \<open>NaN\<close> that line 56 stores for a
    validator missing from the voting table (a state no modelled run
    reaches) are proved.
  \<^item> \<open>Unbonding\<close>: \<open>onBlock\<close> (\<open>on_block\<close>, the loop \<open>drain\<close>, its body
    \<open>settle_entry\<close>); the loop equals settling the matured prefix of the queue,
    on a sorted queue that prefix is exactly the matured entries, one pass
    leaves nothing for a second at the same height, and the key-case
    mismatch between lines 78, 91 and 139.
  \<^item> \<open>Block_Loop\<close>: the \<open>while\<close> loop of \<open>onBlock\<close> kept as a loop
    (\<open>while_option\<close> over the pools, the ledger and the queue, lines
    133--158); it terminates on every state (the measure is the queue's
    length) and returns exactly what the recursive \<open>on_block\<close> returns.
  \<^item> \<open>Transaction\<close>: the host's transaction pass of the \<open>coins\<close> package
    (inputs, then outputs, then the \<open>mustHaveOutput\<close> patterns), modelled from
    the spec, and \<open>paired_tx\<close>, a transaction whose bonded withdrawals and
    unbond outputs correspond one to one.
  \<^item> \<open>Invariants\<close>: the step relation of the host (paired transactions and
    end-of-block passes at non-decreasing heights), reachable states, and the
    staking invariant proved for all of them by rule induction; inside a
    transaction it holds up to a per-key debt of shares withdrawn but not yet
    queued. Consequences: voting power, pools 1:1, \<open>onBlock\<close> total and
    paying exactly the matured entries, and the share ledger refining a coin
    account (a withdrawal succeeds exactly up to the delegator's balance).
  \<^item> \<open>Progress\<close>: liveness of the queue (one period after any reachable
    state, a single end-of-block pass pays every queued withdrawal).
  \<^item> \<open>Open_Runs\<close>: the host over every accepted transaction, paired or
    not (\<open>open_step\<close>, \<open>reachable_open\<close>), which the code allows. There
    the key space keeps its type: every pool is stored under a lower-cased key
    and holds a number in the voting table (\<open>reachable_open_keys_typed\<close>).
  \<^item> \<open>Accounts\<close>: the dispatch of \<open>coins.accounts\<close> (line 17) on an
    account's \<open>type\<close>, at the four places the source calls the accounts
    handler (lines 31, 53, 125, 156; modelled after the \<open>coins\<close> package: a
    type with no handler throws): \<open>on_input_k\<close>, \<open>on_output_k\<close>,
    \<open>on_block_k\<close> and the transaction pass \<open>process_tx_k\<close>. While every type
    has a handler they compute what the entry points above compute
    (\<open>process_tx_k_Inr\<close>, \<open>on_block_k_known\<close>); a paired transaction queues only entries of known
    type, because pairing gives each unbond output the type of a checked
    bonded input (\<open>process_tx_k_queue_known\<close>).
  \<^item> \<open>Module\<close>: \<open>staking(opts)\<close> itself (lines 8--24): the period read
    from the options, the account-handler table built by \<open>Object.assign\<close>,
    and the returned object closed over the period and the table, whose entry
    points are those of \<open>Accounts\<close> (\<open>staking\<close>, \<open>module_tx\<close>).
  \<^item> \<open>Module_Run\<close>: the host driving the module: \<open>module_step\<close> and
    \<open>module_reachable\<close> run paired transactions and end-of-block passes
    through the entry points of \<open>staking(opts)\<close>. Every such run is
    simulated by a run of the core relation of \<open>Invariants\<close> for the
    module's period, with a handler for every queued type
    (\<open>module_reachable_sim\<close>), so every core invariant holds of the
    module: its \<open>onBlock\<close> never throws on a state it reached
    (\<open>module_on_block_total\<close>), and one period later its \<open>onBlock\<close> is a
    step to a reached state with an empty queue (\<open>module_queue_drains\<close>).
  \<^item> \<open>Js_Number\<close>: JavaScript numbers at the conversion sites. The
    integers the code forms before each \<open>Math.floor\<close>
    (\<open>unbond_intermediates\<close>, \<open>bond_intermediates\<close>,
    \<open>settle_intermediates\<close>) are safe integers (at most
    \<open>Number.MAX_SAFE_INTEGER\<close>) in every reachable state while a pool and the
    amount a call moves stay within \<open>90,071,992\<close> coins
    (\<open>reachable_conversions_safe\<close>); the bound is tight at the first
    product (\<open>safe_coins_tight\<close>).
  \<^item> \<open>Rewards\<close>: the reward and slash injection that spec section 9 leaves
    to an outside mechanism, as a balance change (\<open>reward\<close>) and a third
    kind of host step (\<open>step_ext\<close>, \<open>reachable_ext\<close>, non-negative;
    \<open>step_adj\<close>, \<open>reachable_adj\<close>, either sign); two runs with
    one positive reward each: one ends in an end-of-block pass dividing by zero
    shares, the other strands a delegator's share because the unbond output
    re-prices the withdrawal after a bond in the same transaction.
  \<^item> \<open>Solvency\<close>: the invariant that survives non-negative rewards. Every
    pool keeps \<open>0 \<le> shares \<le> balance\<close> and its delegators' plus queued
    shares stay within its total; inside a transaction the withdrawals whose
    unbond output is still to run are counted at the pool's current ratio,
    which bonds can only lower (\<open>bond_ratio_le\<close>), and settlement keeps at
    least one coin per share (\<open>settle_keeps_ratio\<close>).
  \<^item> This theory: the scenario of spec section 8 run end to end from the
    initial state and through \<open>staking()\<close> with the default period (the
    witnesses of the reachable-state theorems are taken there), and the
    findings from reachable states: a slash to a zero balance after which
    maturity pays coins the pool does not hold; the transaction checker accepts an unbond output with no
    bonded withdrawal (the pool pays out shares nobody redeemed), and one
    unbond output satisfies two equal withdrawals (shares are debited twice
    and queued once); and the unbond output of an unknown type, which the
    module accepts and whose credit at maturity makes every later
    end-of-block pass throw.

  \<^emph>\<open>Modelling choices.\<close> JavaScript numbers are read as exact integers:
  \<open>Math.floor\<close> of a quotient is \<open>div\<close> on \<open>int\<close>, which is exact for values
  below \<open>2^53\<close>; the source leaves that bound unchecked (TODOs on lines 45 and
  111) and the model does not represent rounding beyond it; theory
  \<open>Js_Number\<close> proves the pool size under which every conversion of a
  reachable state stays below it. Where the code
  divides by zero and would go on with \<open>NaN\<close> or \<open>Infinity\<close>, the model stops
  with the error \<open>Non_finite_amount\<close>. The voting-power table holds
  \<open>jsnum\<close> values, an integer or \<open>NaN\<close>: decrementing an absent entry
  stores \<open>NaN\<close> as line 56 does, and \<open>(x || 0)\<close> on line 119 reads \<open>NaN\<close>
  as zero; the invariant shows every bonded key holds a number. Signature
  checks are a boolean on the input. Coin amounts of inputs and outputs are
  natural numbers: the source does not check them, and the model assumes the
  \<open>coins\<close> package's transaction validation (not in this repository) admits
  only non-negative integers. A throw inside \<open>onBlock\<close> is an
  \<open>Inl\<close> result with no state: spec section 7 makes it fatal, so the
  settlements the loop did before it are not kept. Loops are structural
  recursion on lists, so no fuel is needed: \<open>drain\<close>, \<open>run_inputs\<close>,
  \<open>run_outputs\<close> and \<open>settle_all\<close> are total, and \<open>onBlock\<close> is
  idempotent at a fixed height.

  \<^emph>\<open>Not modelled.\<close> Consensus, persistence and networking of the host;
  what the handler of each account kind does beyond the ledger of theory
  \<open>Ledger\<close> (every kind with a handler debits and credits alike there);
  the inputs and outputs of a transaction that other handlers of the
  \<open>coins\<close> package process, and its rule that input and output amounts
  balance (a transaction of the model lists the staking inputs and outputs
  only); reward and slash injection beyond the spec's description of it
  (theory \<open>Rewards\<close> models it as a balance change); floating-point rounding
  above \<open>2^53\<close>.

  \<^emph>\<open>Further work.\<close> Slashes (negative rewards), under which
  \<open>shares \<le> balance\<close> fails; the guard that would restore
  \<open>shares = 0 \<longleftrightarrow> balance = 0\<close> after a reward; runs with several
  delegators sharing a pool under rewards.
\<close>

section \<open>The scenario of spec section 8\<close>

abbreviation scenario_c0 :: chain where
  "scenario_c0 \<equiv> \<lparr>height = 0, validators = Map.empty\<rparr>"

abbreviation bond_tx :: tx where
  "bond_tx \<equiv> \<lparr>tx_inputs = [], tx_outputs =
     [\<lparr>out_unbond = False, out_bond = True, out_validatorPubkey = ''v'', out_amount = 1000000,
       out_address = ''alice'', out_type = ''ed25519''\<rparr>]\<rparr>"

abbreviation scenario_s1 :: state where
  "scenario_s1 \<equiv> \<lparr>bonded = [''v'' \<mapsto> \<lparr>balance = 1000000, shares = 1000000,
       accounts = [''alice'' \<mapsto> \<lparr>acct_balance = 1000000, acct_sequence = 0\<rparr>]\<rparr>],
     unbonding = [], unbonded = Map.empty\<rparr>"

abbreviation scenario_c1 :: chain where
  "scenario_c1 \<equiv> \<lparr>height = 0, validators = [''v'' \<mapsto> Num 1000000]\<rparr>"

abbreviation unbond_tx :: tx where
  "unbond_tx \<equiv> \<lparr>tx_inputs =
     [\<lparr>in_unbonded = False, in_bonded = True, in_validatorPubkey = ''v'', in_amount = 400000,
       in_address = ''alice'', in_type = ''ed25519'', in_sequence = 0, in_authorized = True\<rparr>],
     tx_outputs =
     [\<lparr>out_unbond = True, out_bond = False, out_validatorPubkey = ''v'', out_amount = 400000,
       out_address = ''alice'', out_type = ''ed25519''\<rparr>]\<rparr>"

abbreviation scenario_s2 :: state where
  "scenario_s2 \<equiv> \<lparr>bonded = [''v'' \<mapsto> \<lparr>balance = 1000000, shares = 1000000,
       accounts = [''alice'' \<mapsto> \<lparr>acct_balance = 600000, acct_sequence = 1\<rparr>]\<rparr>],
     unbonding = [\<lparr>ue_type = ''ed25519'', ue_address = ''alice'', ue_validatorPubkey = ''v'',
                   ue_height = 10, ue_shares = 400000\<rparr>], unbonded = Map.empty\<rparr>"

abbreviation scenario_c2 :: chain where
  "scenario_c2 \<equiv> \<lparr>height = 0, validators = [''v'' \<mapsto> Num 600000]\<rparr>"

abbreviation scenario_s3 :: state where
  "scenario_s3 \<equiv> \<lparr>bonded = [''v'' \<mapsto> \<lparr>balance = 600000, shares = 600000,
       accounts = [''alice'' \<mapsto> \<lparr>acct_balance = 600000, acct_sequence = 1\<rparr>]\<rparr>],
     unbonding = [], unbonded = [''alice'' \<mapsto> \<lparr>acct_balance = 400000, acct_sequence = 0\<rparr>]\<rparr>"

abbreviation scenario_c3 :: chain where
  "scenario_c3 \<equiv> \<lparr>height = 10, validators = [''v'' \<mapsto> Num 600000]\<rparr>"

abbreviation unpaired_tx :: tx where
  "unpaired_tx \<equiv> \<lparr>tx_inputs =
     [\<lparr>in_unbonded = True, in_bonded = False, in_validatorPubkey = '''', in_amount = 400000,
       in_address = ''alice'', in_type = ''ed25519'', in_sequence = 0, in_authorized = True\<rparr>],
     tx_outputs =
     [\<lparr>out_unbond = True, out_bond = False, out_validatorPubkey = ''v'', out_amount = 400000,
       out_address = ''alice'', out_type = ''ed25519''\<rparr>]\<rparr>"

abbreviation scenario_s4 :: state where
  "scenario_s4 \<equiv> \<lparr>bonded = [''v'' \<mapsto> \<lparr>balance = 600000, shares = 600000,
       accounts = [''alice'' \<mapsto> \<lparr>acct_balance = 600000, acct_sequence = 1\<rparr>]\<rparr>],
     unbonding = [\<lparr>ue_type = ''ed25519'', ue_address = ''alice'', ue_validatorPubkey = ''v'',
                   ue_height = 20, ue_shares = 400000\<rparr>],
     unbonded = [''alice'' \<mapsto> \<lparr>acct_balance = 0, acct_sequence = 1\<rparr>]\<rparr>"

abbreviation scenario_s5 :: state where
  "scenario_s5 \<equiv> \<lparr>bonded = [''v'' \<mapsto> \<lparr>balance = 200000, shares = 200000,
       accounts = [''alice'' \<mapsto> \<lparr>acct_balance = 600000, acct_sequence = 1\<rparr>]\<rparr>],
     unbonding = [],
     unbonded = [''alice'' \<mapsto> \<lparr>acct_balance = 400000, acct_sequence = 1\<rparr>]\<rparr>"

abbreviation withdraw_all_tx :: tx where
  "withdraw_all_tx \<equiv> \<lparr>tx_inputs =
     [\<lparr>in_unbonded = False, in_bonded = True, in_validatorPubkey = ''v'', in_amount = 600000,
       in_address = ''alice'', in_type = ''ed25519'', in_sequence = 1, in_authorized = True\<rparr>],
     tx_outputs =
     [\<lparr>out_unbond = True, out_bond = False, out_validatorPubkey = ''v'', out_amount = 600000,
       out_address = ''alice'', out_type = ''ed25519''\<rparr>]\<rparr>"

abbreviation scenario_s6 :: state where
  "scenario_s6 \<equiv> \<lparr>bonded = [''v'' \<mapsto> \<lparr>balance = 200000, shares = 200000,
       accounts = [''alice'' \<mapsto> \<lparr>acct_balance = 0, acct_sequence = 2\<rparr>]\<rparr>],
     unbonding = [\<lparr>ue_type = ''ed25519'', ue_address = ''alice'', ue_validatorPubkey = ''v'',
                   ue_height = 30, ue_shares = 600000\<rparr>],
     unbonded = [''alice'' \<mapsto> \<lparr>acct_balance = 400000, acct_sequence = 1\<rparr>]\<rparr>"

abbreviation scenario_s7 :: state where
  "scenario_s7 \<equiv> \<lparr>bonded = [''v'' \<mapsto> \<lparr>balance = -400000, shares = -400000,
       accounts = [''alice'' \<mapsto> \<lparr>acct_balance = 0, acct_sequence = 2\<rparr>]\<rparr>],
     unbonding = [],
     unbonded = [''alice'' \<mapsto> \<lparr>acct_balance = 1000000, acct_sequence = 1\<rparr>]\<rparr>"

abbreviation dup_tx :: tx where
  "dup_tx \<equiv> \<lparr>tx_inputs =
     [\<lparr>in_unbonded = False, in_bonded = True, in_validatorPubkey = ''v'', in_amount = 400000,
       in_address = ''alice'', in_type = ''ed25519'', in_sequence = 0, in_authorized = True\<rparr>,
      \<lparr>in_unbonded = False, in_bonded = True, in_validatorPubkey = ''v'', in_amount = 400000,
       in_address = ''alice'', in_type = ''ed25519'', in_sequence = 1, in_authorized = True\<rparr>],
     tx_outputs =
     [\<lparr>out_unbond = True, out_bond = False, out_validatorPubkey = ''v'', out_amount = 400000,
       out_address = ''alice'', out_type = ''ed25519''\<rparr>]\<rparr>"

abbreviation dup_s2 :: state where
  "dup_s2 \<equiv> \<lparr>bonded = [''v'' \<mapsto> \<lparr>balance = 1000000, shares = 1000000,
       accounts = [''alice'' \<mapsto> \<lparr>acct_balance = 200000, acct_sequence = 2\<rparr>]\<rparr>],
     unbonding = [\<lparr>ue_type = ''ed25519'', ue_address = ''alice'', ue_validatorPubkey = ''v'',
                   ue_height = 10, ue_shares = 400000\<rparr>], unbonded = Map.empty\<rparr>"

abbreviation dup_s3 :: state where
  "dup_s3 \<equiv> \<lparr>bonded = [''v'' \<mapsto> \<lparr>balance = 600000, shares = 600000,
       accounts = [''alice'' \<mapsto> \<lparr>acct_balance = 200000, acct_sequence = 2\<rparr>]\<rparr>],
     unbonding = [], unbonded = [''alice'' \<mapsto> \<lparr>acct_balance = 400000, acct_sequence = 0\<rparr>]\<rparr>"

abbreviation default_s2 :: state where
  "default_s2 \<equiv> \<lparr>bonded = [''v'' \<mapsto> \<lparr>balance = 1000000, shares = 1000000,
       accounts = [''alice'' \<mapsto> \<lparr>acct_balance = 600000, acct_sequence = 1\<rparr>]\<rparr>],
     unbonding = [\<lparr>ue_type = ''ed25519'', ue_address = ''alice'', ue_validatorPubkey = ''v'',
                   ue_height = 2592000, ue_shares = 400000\<rparr>], unbonded = Map.empty\<rparr>"

abbreviation test_options :: options where
  "test_options \<equiv> \<lparr>opt_unbondingPeriod = Some 10, opt_handlers = Map.empty\<rparr>"

abbreviation foo_tx :: tx where
  "foo_tx \<equiv> \<lparr>tx_inputs =
     [\<lparr>in_unbonded = True, in_bonded = False, in_validatorPubkey = '''', in_amount = 400000,
       in_address = ''alice'', in_type = ''ed25519'', in_sequence = 0, in_authorized = True\<rparr>],
     tx_outputs =
     [\<lparr>out_unbond = True, out_bond = False, out_validatorPubkey = ''v'', out_amount = 400000,
       out_address = ''alice'', out_type = ''foo''\<rparr>]\<rparr>"

abbreviation foo_s4 :: state where
  "foo_s4 \<equiv> \<lparr>bonded = [''v'' \<mapsto> \<lparr>balance = 600000, shares = 600000,
       accounts = [''alice'' \<mapsto> \<lparr>acct_balance = 600000, acct_sequence = 1\<rparr>]\<rparr>],
     unbonding = [\<lparr>ue_type = ''foo'', ue_address = ''alice'', ue_validatorPubkey = ''v'',
                   ue_height = 20, ue_shares = 400000\<rparr>],
     unbonded = [''alice'' \<mapsto> \<lparr>acct_balance = 0, acct_sequence = 1\<rparr>]\<rparr>"

abbreviation slash_s2 :: state where
  "slash_s2 \<equiv> \<lparr>bonded = [''v'' \<mapsto> \<lparr>balance = 0, shares = 1000000,
       accounts = [''alice'' \<mapsto> \<lparr>acct_balance = 600000, acct_sequence = 1\<rparr>]\<rparr>],
     unbonding = [\<lparr>ue_type = ''ed25519'', ue_address = ''alice'', ue_validatorPubkey = ''v'',
                   ue_height = 10, ue_shares = 400000\<rparr>], unbonded = Map.empty\<rparr>"

abbreviation slash_s3 :: state where
  "slash_s3 \<equiv> \<lparr>bonded = [''v'' \<mapsto> \<lparr>balance = -400000, shares = 600000,
       accounts = [''alice'' \<mapsto> \<lparr>acct_balance = 600000, acct_sequence = 1\<rparr>]\<rparr>],
     unbonding = [], unbonded = [''alice'' \<mapsto> \<lparr>acct_balance = 400000, acct_sequence = 0\<rparr>]\<rparr>"

lemma lower_v: "to_lower ''v'' = ''v''"
  by code_simp

lemma scenario_bond:
  "process_tx 10 bond_tx initialState scenario_c0 = Inr (scenario_s1, scenario_c1)"
  by (simp add: process_tx_def on_output_def bond_output_def lower_v Let_def initialState_def
      new_pool_def bond_pool_def bond_shares_per_coin_def to_shares_def ledger_credit_def
      add_voting_power_def num_or_zero_def)

lemma scenario_unbond:
  "process_tx 10 unbond_tx scenario_s1 scenario_c1 = Inr (scenario_s2, scenario_c2)"
  by (simp add: process_tx_def on_input_def withdraw_bonded_def on_output_def unbond_output_def
      lower_v Let_def unbond_shares_def shares_per_coin_def to_shares_def ledger_debit_def
      sub_voting_power_def requirement_of_def new_entry_def output_matches_def)

lemma scenario_paired: "paired_tx bond_tx" "paired_tx unbond_tx"
  by (simp_all add: paired_tx_def input_req_def output_req_def requirement_of_def lower_v)

lemma scenario_mature:
  "on_block scenario_s2 (scenario_c2\<lparr>height := 10\<rparr>) = Inr scenario_s3"
  by (simp add: on_block_def settle_entry_def settle_pool_def coins_per_share_def to_coins_def
      ledger_credit_def scale_def)

lemma scenario_reachable_s1: "reachable 10 scenario_c0 (scenario_s1, scenario_c1)"
  using reachable.init step.tx_step [OF scenario_paired(1) scenario_bond] by (rule reachable.run)

lemma scenario_reachable_s2: "reachable 10 scenario_c0 (scenario_s2, scenario_c2)"
  using scenario_reachable_s1 step.tx_step [OF scenario_paired(2) scenario_unbond]
  by (rule reachable.run)

lemma scenario_reachable_s3:
  "reachable 10 scenario_c0 (scenario_s3, scenario_c2\<lparr>height := 10\<rparr>)"
  using scenario_reachable_s2 step.block_step [of scenario_c2 10, OF _ scenario_mature]
  by (auto intro: reachable.run)

lemma unpaired_accepted:
  "process_tx 10 unpaired_tx scenario_s3 scenario_c3 = Inr (scenario_s4, scenario_c3)"
  by (simp add: process_tx_def on_input_def withdraw_unbonded_def on_output_def unbond_output_def
      lower_v Let_def unbond_shares_def shares_per_coin_def to_shares_def ledger_debit_def
      new_entry_def)

lemma unpaired_not_paired: "\<not> paired_tx unpaired_tx"
  by (simp add: paired_tx_def input_req_def output_req_def)

lemma unpaired_breaks_inv: "\<not> staking_inv 10 Map.empty scenario_s4 scenario_c3"
  by (simp add: staking_inv_def inv_debt_def ledger_total_def bal_of_def pending_def)

lemma unpaired_mature:
  "on_block scenario_s4 (scenario_c3\<lparr>height := 20\<rparr>) = Inr scenario_s5"
  by (simp add: on_block_def settle_entry_def settle_pool_def coins_per_share_def to_coins_def
      ledger_credit_def scale_def)

lemma withdraw_all_accepted:
  "paired_tx withdraw_all_tx \<and>
   process_tx 10 withdraw_all_tx scenario_s5 (scenario_c3\<lparr>height := 20\<rparr>) =
     Inr (scenario_s6, \<lparr>height = 20, validators = [''v'' \<mapsto> Num 0]\<rparr>)"
  by (simp add: paired_tx_def input_req_def output_req_def requirement_of_def lower_v
      process_tx_def on_input_def withdraw_bonded_def on_output_def unbond_output_def
      Let_def unbond_shares_def shares_per_coin_def to_shares_def ledger_debit_def
      sub_voting_power_def new_entry_def output_matches_def numeral_2_eq_2)

lemma withdraw_all_mature:
  "on_block scenario_s6 \<lparr>height = 30, validators = [''v'' \<mapsto> Num 0]\<rparr> = Inr scenario_s7"
  by (simp add: on_block_def settle_entry_def settle_pool_def coins_per_share_def to_coins_def
      ledger_credit_def scale_def)

lemma dup_accepted:
  "\<not> paired_tx dup_tx \<and>
   process_tx 10 dup_tx scenario_s1 scenario_c1 =
     Inr (dup_s2, \<lparr>height = 0, validators = [''v'' \<mapsto> Num 200000]\<rparr>)"
  by (simp add: paired_tx_def input_req_def output_req_def requirement_of_def lower_v
      process_tx_def on_input_def withdraw_bonded_def on_output_def unbond_output_def
      Let_def unbond_shares_def shares_per_coin_def to_shares_def ledger_debit_def
      sub_voting_power_def new_entry_def output_matches_def numeral_2_eq_2)

lemma dup_mature:
  "on_block dup_s2 \<lparr>height = 10, validators = [''v'' \<mapsto> Num 200000]\<rparr> = Inr dup_s3"
  by (simp add: on_block_def settle_entry_def settle_pool_def coins_per_share_def to_coins_def
      ledger_credit_def scale_def)

lemma slash_reachable: "reachable_adj 10 scenario_c0 (slash_s2, scenario_c2)"
proof -
  have "reward ''v'' (-1000000) scenario_s2 = slash_s2"
    by (simp add: reward_def)
  then show ?thesis
    using reachable_adj.run_adj [OF reachable_adj_of_reachable [OF scenario_reachable_s2]
        step_adj.adjust_step [of 10 scenario_s2 scenario_c2 "''v''" "-1000000"]]
    by simp
qed

lemma slash_mature: "on_block slash_s2 (scenario_c2\<lparr>height := 10\<rparr>) = Inr slash_s3"
  by (simp add: on_block_def settle_entry_def settle_zero_balance ledger_credit_def)

lemma default_period: "unbonding_period (opt_unbondingPeriod no_options) = 2592000"
  unfolding no_options_def by (simp add: unbonding_period_def)

lemma default_run:
  "module_tx (staking no_options) bond_tx initialState scenario_c0 = Inr (scenario_s1, scenario_c1)"
  "module_tx (staking no_options) unbond_tx scenario_s1 scenario_c1 = Inr (default_s2, scenario_c2)"
  "mod_onBlock (staking no_options) default_s2 (scenario_c2\<lparr>height := 2591999\<rparr>) = Inr default_s2"
  "mod_onBlock (staking no_options) default_s2 (scenario_c2\<lparr>height := 2592000\<rparr>) =
     Inr scenario_s3"
  by (simp_all add: module_tx_def default_period default_kinds_known process_tx_k_def
      on_input_k_def on_output_k_def on_block_k_def settle_entry_k_def on_input_def
      withdraw_bonded_def on_output_def unbond_output_def bond_output_def lower_v Let_def
      initialState_def new_pool_def bond_pool_def bond_shares_per_coin_def to_shares_def
      ledger_credit_def add_voting_power_def num_or_zero_def unbond_shares_def shares_per_coin_def
      ledger_debit_def sub_voting_power_def requirement_of_def new_entry_def output_matches_def
      settle_entry_def settle_pool_def coins_per_share_def to_coins_def scale_def)

lemma default_module_reachable:
  "module_reachable (staking no_options) scenario_c0 (default_s2, scenario_c2)"
proof -
  have "module_reachable (staking no_options) scenario_c0 (initialState, scenario_c0)"
    using module_reachable.module_init [of "staking no_options" scenario_c0] by simp
  then have "module_reachable (staking no_options) scenario_c0 (scenario_s1, scenario_c1)"
    using module_step.module_tx_step [OF scenario_paired(1) default_run(1)]
    by (rule module_reachable.module_run)
  then show ?thesis
    using module_step.module_tx_step [OF scenario_paired(2) default_run(2)]
    by (rule module_reachable.module_run)
qed

lemma test_period: "unbonding_period (Some 10) = 10"
  by (simp add: unbonding_period_def)

lemma test_kinds: "account_handlers test_options = default_handlers"
  by (simp add: account_handlers_def)

lemma foo_accepted:
  "module_tx (staking test_options) foo_tx scenario_s3 scenario_c3 = Inr (foo_s4, scenario_c3)"
  by (simp add: module_tx_def test_period test_kinds process_tx_k_def on_input_k_def
      on_output_k_def known_kind_def default_handlers_def on_input_def withdraw_unbonded_def
      on_output_def unbond_output_def lower_v Let_def unbond_shares_def shares_per_coin_def
      to_shares_def ledger_debit_def new_entry_def)

lemma foo_halts:
  "20 \<le> h \<Longrightarrow> mod_onBlock (staking test_options) foo_s4 (scenario_c3\<lparr>height := h\<rparr>) =
     Inl (Account (Unknown_account_type ''foo''))"
  by (simp add: test_kinds on_block_k_def settle_entry_k_def known_kind_def default_handlers_def
      unknown_kind_def settle_entry_def settle_pool_def coins_per_share_def to_coins_def
      ledger_credit_def scale_def)

lemma scenario_unbond_k:
  "process_tx_k default_handlers 10 unbond_tx scenario_s1 scenario_c1 = Inr (scenario_s2, scenario_c2)"
  by (simp add: process_tx_k_def on_input_k_def on_output_k_def known_kind_def default_handlers_def
      on_input_def withdraw_bonded_def on_output_def unbond_output_def lower_v Let_def
      unbond_shares_def shares_per_coin_def to_shares_def ledger_debit_def sub_voting_power_def
      requirement_of_def new_entry_def output_matches_def)

section \<open>Witnesses of the reachable-state theorems\<close>

theorem reachable_open_keys_typed_witness:
  "reachable_open 10 scenario_c0 (scenario_s4, scenario_c3) \<and> \<not> paired_tx unpaired_tx \<and>
   to_lower ''v'' = ''v'' \<and> is_num (validators scenario_c3 ''v'')"
proof -
  have "scenario_c2\<lparr>height := 10\<rparr> = scenario_c3"
    by simp
  then have "reachable_open 10 scenario_c0 (scenario_s3, scenario_c3)"
    using reachable_open_of_reachable [OF scenario_reachable_s3] by simp
  then have r: "reachable_open 10 scenario_c0 (scenario_s4, scenario_c3)"
    using open_step.open_tx [OF unpaired_accepted] by (rule reachable_open.open_run)
  show ?thesis
    using r unpaired_not_paired
      Open_Runs.reachable_open_keys_typed [OF r, of "''v''" "the (bonded scenario_s4 ''v'')"]
    by simp
qed

theorem reachable_conversions_safe_witness:
  "reachable 10 scenario_c0 (scenario_s2, scenario_c2) \<and>
   balance (the (bonded scenario_s2 ''v'')) + int 400000 \<le> safe_coins \<and>
   list_all js_safe (unbond_intermediates (the (bonded scenario_s2 ''v'')) 400000) \<and>
   list_all js_safe (bond_intermediates (the (bonded scenario_s2 ''v'')) 400000) \<and>
   list_all js_safe (settle_intermediates (the (bonded scenario_s2 ''v'')) 400000)"
  using scenario_reachable_s2
    Js_Number.reachable_conversions_safe [OF scenario_reachable_s2, of "''v''"
      "the (bonded scenario_s2 ''v'')" 400000]
  by (simp add: safe_coins_def max_safe_integer_def scale_def)

theorem module_queue_drains_witness:
  "module_reachable (staking no_options) scenario_c0 (default_s2, scenario_c2) \<and>
   (\<exists>s'. module_step (staking no_options) (default_s2, scenario_c2)
           (s', scenario_c2\<lparr>height := 2592000\<rparr>) \<and>
         module_reachable (staking no_options) scenario_c0 (s', scenario_c2\<lparr>height := 2592000\<rparr>) \<and>
         unbonding s' = [])"
  using default_module_reachable Module_Run.module_queue_drains [OF default_module_reachable]
  by (simp add: default_period)

theorem module_on_block_total_witness:
  "module_reachable (staking no_options) scenario_c0 (default_s2, scenario_c2) \<and>
   height scenario_c2 \<le> 2592000 \<and>
   (\<exists>s'. mod_onBlock (staking no_options) default_s2 (scenario_c2\<lparr>height := 2592000\<rparr>) = Inr s')"
  using default_module_reachable
    Module_Run.module_on_block_total [OF default_module_reachable, of 2592000]
  by simp

theorem process_tx_k_queue_known_witness:
  "process_tx_k default_handlers 10 unbond_tx scenario_s1 scenario_c1 = Inr (scenario_s2, scenario_c2) \<and>
   paired_tx unbond_tx \<and> queue_known default_handlers scenario_s1 \<and>
   queue_known default_handlers scenario_s2"
  using Accounts.process_tx_k_queue_known [OF scenario_unbond_k scenario_paired(2)]
    scenario_unbond_k scenario_paired(2)
  by (simp add: queue_known_def)

theorem reachable_staking_inv_witness:
  "reachable 10 scenario_c0 (scenario_s2, scenario_c2) \<and>
   staking_inv 10 Map.empty scenario_s2 scenario_c2"
  using scenario_reachable_s2 Invariants.reachable_staking_inv [OF scenario_reachable_s2]
  by simp

theorem voting_power_lockstep_witness:
  "reachable 10 scenario_c0 (scenario_s2, scenario_c2) \<and>
   validators scenario_c2 ''v'' = Some (Num (0 + 1000000 - 400000)) \<and>
   balance \<lparr>balance = 1000000, shares = 1000000,
       accounts = [''alice'' \<mapsto> \<lparr>acct_balance = 600000, acct_sequence = 1\<rparr>]\<rparr> = 1000000"
  using scenario_reachable_s2
    Invariants.voting_power_lockstep [OF scenario_reachable_s2, of "''v''"]
  by (simp add: base_def pending_def)

theorem reachable_pool_unit_witness:
  "reachable 10 scenario_c0 (scenario_s3, scenario_c2\<lparr>height := 10\<rparr>) \<and>
   bonded scenario_s3 ''v'' = Some \<lparr>balance = 600000, shares = 600000,
       accounts = [''alice'' \<mapsto> \<lparr>acct_balance = 600000, acct_sequence = 1\<rparr>]\<rparr>"
  using scenario_reachable_s3 Invariants.reachable_pool_unit [OF scenario_reachable_s3, of "''v''"]
  by simp

theorem reachable_on_block_total_witness:
  "reachable 10 scenario_c0 (scenario_s2, scenario_c2) \<and> height scenario_c2 \<le> 10 \<and>
   (\<exists>s'. on_block scenario_s2 (scenario_c2\<lparr>height := 10\<rparr>) = Inr s')"
  using scenario_reachable_s2 Invariants.reachable_on_block_total [OF scenario_reachable_s2, of 10]
  by simp

theorem reachable_on_block_matured_witness:
  "reachable 10 scenario_c0 (scenario_s2, scenario_c2) \<and>
   on_block scenario_s2 (scenario_c2\<lparr>height := 5\<rparr>) = Inr scenario_s2"
  using scenario_reachable_s2
    Invariants.reachable_on_block_matured [OF scenario_reachable_s2, of "scenario_c2\<lparr>height := 5\<rparr>"]
  by (simp add: matured_def)

theorem on_block_idempotent_witness:
  "on_block scenario_s2 (scenario_c2\<lparr>height := 10\<rparr>) = Inr scenario_s3 \<and>
   on_block scenario_s3 (scenario_c2\<lparr>height := 10\<rparr>) = Inr scenario_s3"
  using scenario_mature Unbonding.on_block_idempotent [OF scenario_mature] by simp

theorem reachable_withdraw_iff_witness:
  "reachable 10 scenario_c0 (scenario_s2, scenario_c2) \<and>
   (\<exists>s' c' r. on_input (bonded_in ''alice'' 600000 1) scenario_s2 scenario_c2 = Inr (s', c', r)) \<and>
   \<not> (\<exists>s' c' r. on_input (bonded_in ''alice'' 600001 1) scenario_s2 scenario_c2 = Inr (s', c', r))"
proof -
  let ?p = "\<lparr>balance = 1000000, shares = 1000000,
       accounts = [''alice'' \<mapsto> \<lparr>acct_balance = 600000, acct_sequence = 1\<rparr>]\<rparr>"
  let ?acc = "\<lparr>acct_balance = 600000, acct_sequence = 1\<rparr>"
  have "(\<exists>s' c' r. on_input (bonded_in ''alice'' 600000 1) scenario_s2 scenario_c2 = Inr (s', c', r)) \<longleftrightarrow>
        int 600000 \<le> bal_of (accounts ?p) ''alice''"
    using Invariants.reachable_withdraw_iff [OF scenario_reachable_s2, of "''v''" ?p "bonded_in ''alice'' 600000 1" ?acc]
    by (simp add: lower_v)
  moreover have "(\<exists>s' c' r. on_input (bonded_in ''alice'' 600001 1) scenario_s2 scenario_c2 = Inr (s', c', r)) \<longleftrightarrow>
        int 600001 \<le> bal_of (accounts ?p) ''alice''"
    using Invariants.reachable_withdraw_iff [OF scenario_reachable_s2, of "''v''" ?p "bonded_in ''alice'' 600001 1" ?acc]
    by (simp add: lower_v)
  ultimately show ?thesis
    using scenario_reachable_s2 by (simp add: bal_of_def)
qed

theorem reachable_queue_drains_witness:
  "reachable 10 scenario_c0 (scenario_s2, scenario_c2) \<and>
   (\<exists>s'. on_block scenario_s2 (scenario_c2\<lparr>height := height scenario_c2 + 10\<rparr>) = Inr s' \<and>
         unbonding s' = [])"
  using scenario_reachable_s2 Progress.reachable_queue_drains [OF scenario_reachable_s2] by simp

section \<open>Properties across components\<close>

text \<open>C14. The transaction checker only demands that every bonded withdrawal
  has a matching unbond output (line 60), not that every unbond output
  (lines 76--91) has a withdrawal. From the reachable state after the scenario,
  a transaction that spends 400,000 unbonded coins into an unbond output, with
  no bonded input, is accepted: it queues 400,000 shares that no delegator
  gave up, and the staking invariant fails. At maturity the pool pays them out,
  leaving 200,000 coins and shares behind 600,000 delegator shares; the
  delegator's paired withdrawal of all of them is accepted and overdraws the
  pool to -400,000.\<close>

theorem unpaired_unbond_drains_pool:
  "reachable 10 scenario_c0 (scenario_s3, scenario_c3) \<and>
   \<not> paired_tx unpaired_tx \<and>
   process_tx 10 unpaired_tx scenario_s3 scenario_c3 = Inr (scenario_s4, scenario_c3) \<and>
   \<not> staking_inv 10 Map.empty scenario_s4 scenario_c3 \<and>
   on_block scenario_s4 (scenario_c3\<lparr>height := 20\<rparr>) = Inr scenario_s5 \<and>
   paired_tx withdraw_all_tx \<and>
   process_tx 10 withdraw_all_tx scenario_s5 (scenario_c3\<lparr>height := 20\<rparr>) =
     Inr (scenario_s6, \<lparr>height = 20, validators = [''v'' \<mapsto> Num 0]\<rparr>) \<and>
   on_block scenario_s6 \<lparr>height = 30, validators = [''v'' \<mapsto> Num 0]\<rparr> = Inr scenario_s7"
proof -
  have "scenario_c2\<lparr>height := 10\<rparr> = scenario_c3"
    by simp
  then have "reachable 10 scenario_c0 (scenario_s3, scenario_c3)"
    using scenario_reachable_s3 by simp
  then show ?thesis
    using unpaired_not_paired unpaired_accepted unpaired_breaks_inv unpaired_mature
      withdraw_all_accepted withdraw_all_mature by simp
qed

text \<open>C15. Each bonded withdrawal only demands that some unbond output of the
  transaction matches its pattern (line 59), so two equal withdrawals are both
  satisfied by one output. From the reachable state after the first bond, a
  transaction with two withdrawals of 400,000 and one unbond output of 400,000
  is accepted: it debits 800,000 shares and 800,000 voting power but queues
  only 400,000. The transaction's other 400,000 coins of input value are free
  for any output of another handler (a plain account), so they leave staking
  without the unbonding period, while the pool keeps 400,000 coins that no
  delegator's shares back after maturity.\<close>

theorem duplicate_withdrawal_strands_shares:
  "reachable 10 scenario_c0 (scenario_s1, scenario_c1) \<and>
   \<not> paired_tx dup_tx \<and>
   process_tx 10 dup_tx scenario_s1 scenario_c1 =
     Inr (dup_s2, \<lparr>height = 0, validators = [''v'' \<mapsto> Num 200000]\<rparr>) \<and>
   on_block dup_s2 \<lparr>height = 10, validators = [''v'' \<mapsto> Num 200000]\<rparr> = Inr dup_s3"
  using scenario_reachable_s1 dup_accepted dup_mature by simp

text \<open>C16. The unbond branch of \<open>onOutput\<close> queues the output's \<open>type\<close> without
  asking the account handlers (lines 76--95), and the credit of line 156 is the
  first dispatch on it. From the reachable state after the first maturity, a
  module with period 10 accepts an unpaired transaction whose unbond output
  names the unknown type "foo"; from the entry's maturity at height 20 on,
  every end-of-block pass throws, so the chain's block processing fails for
  good.\<close>

theorem unknown_kind_halts_chain:
  "reachable 10 scenario_c0 (scenario_s3, scenario_c3) \<and>
   mod_unbondingPeriod (staking test_options) = 10 \<and>
   module_tx (staking test_options) foo_tx scenario_s3 scenario_c3 = Inr (foo_s4, scenario_c3) \<and>
   (\<forall>h\<ge>20. mod_onBlock (staking test_options) foo_s4 (scenario_c3\<lparr>height := h\<rparr>) =
      Inl (Account (Unknown_account_type ''foo'')))"
proof -
  have "scenario_c2\<lparr>height := 10\<rparr> = scenario_c3"
    by simp
  then show ?thesis
    using scenario_reachable_s3 foo_accepted foo_halts test_period by simp
qed

theorem unknown_kind_halts_chain_witness:
  "mod_onBlock (staking test_options) foo_s4 (scenario_c3\<lparr>height := 20\<rparr>) =
     Inl (Account (Unknown_account_type ''foo''))"
  using unknown_kind_halts_chain by simp

text \<open>C19. The zero-balance guard of line 147 pays one coin per share on a
  pool that still has shares. Spec lines 34 and 110 let an outside slash
  lower a balance without touching the shares and leave the defence open.
  From the reachable state with 400,000 shares queued, a slash takes the pool
  to a zero balance; at maturity the end-of-block pass credits the delegator
  400,000 coins the pool does not hold, and the pool's balance goes to
  -400,000.\<close>

theorem slash_zero_balance_overdraws:
  "reachable_adj 10 scenario_c0 (slash_s2, scenario_c2) \<and>
   on_block slash_s2 (scenario_c2\<lparr>height := 10\<rparr>) = Inr slash_s3"
  using slash_reachable slash_mature by simp

end
